theory Spec2Isabelle
  imports Complex_Main
begin

unbundle bit_operations_syntax

section \<open>Data model (types.ts)\<close>

text \<open>
  Times of day are the canonical zero-padded \<^verbatim>\<open>HH:MM\<close> strings of the source. On these
  strings \<^verbatim>\<open>timeToMinutes\<close> and \<^verbatim>\<open>minutesToTime\<close> are inverse to each other and two
  strings are equal exactly when their minute counts are, so an entry carries the minute
  count itself (an \<open>int\<close>, since the source computes with sums and differences of them).
  A JavaScript \<^verbatim>\<open>Date\<close> is the number of its local calendar day, \<open>None\<close> for an invalid
  date; a \<^verbatim>\<open>YYYY-MM-DD\<close> string is the day number it parses to, \<open>None\<close> when it does not.
  An optional or nullable string is a \<open>string option\<close>.
\<close>

datatype DayOfWeek = MONDAY | TUESDAY | WEDNESDAY | THURSDAY | FRIDAY | SATURDAY | SUNDAY

datatype SessionType = ABA | AlliedHealth_OT | AlliedHealth_SLP | IndirectTime | AdminTime

datatype AlliedHealthServiceType = OT | SLP

datatype EntityType = ClientEntity | TherapistEntity

type_synonym JsDate = "int option"

record AlliedHealthNeed =
  need_type :: AlliedHealthServiceType
  frequencyPerWeek :: int
  durationMinutes :: int
  preferredTimeSlot :: "(int \<times> int) option"
  specificDays :: "DayOfWeek list option"

record Client =
  client_id :: string
  client_name :: string
  client_teamId :: "string option"
  insuranceRequirements :: "string list"
  alliedHealthNeeds :: "AlliedHealthNeed list"

record Therapist =
  therapist_id :: string
  therapist_name :: string
  therapist_teamId :: "string option"
  role :: string
  qualifications :: "string list"
  canProvideAlliedHealth :: "AlliedHealthServiceType list"

record ScheduleEntry =
  entry_id :: string
  clientName :: "string option"
  clientId :: "string option"
  therapistName :: string
  therapistId :: string
  day :: DayOfWeek
  startTime :: int
  endTime :: int
  sessionType :: SessionType

type_synonym GeneratedSchedule = "ScheduleEntry list"

record Callout =
  callout_id :: string
  entityType :: EntityType
  entityId :: string
  entityName :: string
  startDate :: "int option"
  endDate :: "int option"
  co_startTime :: int
  co_endTime :: int
  reason :: "string option"

text \<open>JavaScript truthiness of a nullable string: \<^verbatim>\<open>null\<close>, \<^verbatim>\<open>undefined\<close> and the empty
  string are falsy.\<close>

definition truthy :: "string option \<Rightarrow> bool" where
  "truthy s = (case s of None \<Rightarrow> False | Some v \<Rightarrow> v \<noteq> [])"

text \<open>Modelled from the spec: \<^verbatim>\<open>constants.ts\<close> is not among the sources; section 6 of the
  specification gives the operating window 08:00 to 17:00.\<close>

definition COMPANY_OPERATING_HOURS_START :: int where
  "COMPANY_OPERATING_HOURS_START = 480"

definition COMPANY_OPERATING_HOURS_END :: int where
  "COMPANY_OPERATING_HOURS_END = 1020"

section \<open>Time helpers (utils/validationService)\<close>

definition sessionsOverlap :: "int \<Rightarrow> int \<Rightarrow> int \<Rightarrow> int \<Rightarrow> bool" where
  "sessionsOverlap start1 end1 start2 end2 = (start1 < end2 \<and> start2 < end1)"

definition isDateAffectedByCalloutRange :: "JsDate \<Rightarrow> int option \<Rightarrow> int option \<Rightarrow> bool" where
  "isDateAffectedByCalloutRange currentDate calloutStartDateStr calloutEndDateStr =
     (case currentDate of
        None \<Rightarrow> False
      | Some currentDayStart \<Rightarrow>
          (case (calloutStartDateStr, calloutEndDateStr) of
             (Some calloutStartDayStart, Some calloutEndDayStart) \<Rightarrow>
               currentDayStart \<ge> calloutStartDayStart \<and> currentDayStart \<le> calloutEndDayStart
           | _ \<Rightarrow> False))"

section \<open>Constraint kernel (services/constraintValidator)\<close>

datatype ViolationType = hard | soft

record ConstraintViolation =
  v_type :: ViolationType
  severity :: nat
  message :: string

text \<open>An absent \<^verbatim>\<open>ignoreEntryId\<close> is \<open>None\<close>; \<^verbatim>\<open>s.id !== ignoreEntryId\<close> then holds of
  every entry.\<close>

definition not_ignored :: "ScheduleEntry \<Rightarrow> string option \<Rightarrow> bool" where
  "not_ignored s ignoreEntryId = (Some (entry_id s) \<noteq> ignoreEntryId)"

definition hasTherapistConflict :: "GeneratedSchedule \<Rightarrow> ScheduleEntry \<Rightarrow> string option \<Rightarrow> bool" where
  "hasTherapistConflict schedule entry ignoreEntryId =
     list_ex (\<lambda>s. not_ignored s ignoreEntryId \<and>
                   therapistId s = therapistId entry \<and>
                   day s = day entry \<and>
                   sessionsOverlap (startTime s) (endTime s) (startTime entry) (endTime entry))
             schedule"

definition hasClientConflict :: "GeneratedSchedule \<Rightarrow> ScheduleEntry \<Rightarrow> string option \<Rightarrow> bool" where
  "hasClientConflict schedule entry ignoreEntryId =
     (if \<not> truthy (clientId entry) then False
      else list_ex (\<lambda>s. not_ignored s ignoreEntryId \<and>
                        clientId s = clientId entry \<and>
                        day s = day entry \<and>
                        sessionsOverlap (startTime s) (endTime s) (startTime entry) (endTime entry))
                   schedule)"

definition hasCalloutConflict :: "ScheduleEntry \<Rightarrow> Callout list \<Rightarrow> JsDate \<Rightarrow> bool" where
  "hasCalloutConflict entry callouts selectedDate =
     list_ex (\<lambda>co. isDateAffectedByCalloutRange selectedDate (startDate co) (endDate co) \<and>
                    ((entityType co = TherapistEntity \<and> entityId co = therapistId entry) \<or>
                     (entityType co = ClientEntity \<and> Some (entityId co) = clientId entry)) \<and>
                    sessionsOverlap (startTime entry) (endTime entry) (co_startTime co) (co_endTime co))
             callouts"

definition every_req :: "Client \<Rightarrow> Therapist \<Rightarrow> bool" where
  "every_req c t = list_all (\<lambda>req. req \<in> set (qualifications t)) (insuranceRequirements c)"

definition hasCredentialMismatch :: "ScheduleEntry \<Rightarrow> Client list \<Rightarrow> Therapist list \<Rightarrow> bool" where
  "hasCredentialMismatch entry clients therapists =
     (if \<not> truthy (clientId entry) then False
      else case (find (\<lambda>c. Some (client_id c) = clientId entry) clients,
                 find (\<lambda>t. therapist_id t = therapistId entry) therapists) of
             (Some c, Some t) \<Rightarrow> \<not> every_req c t
           | _ \<Rightarrow> False)"

definition isAlliedHealth :: "SessionType \<Rightarrow> bool" where
  "isAlliedHealth st = (st = AlliedHealth_OT \<or> st = AlliedHealth_SLP)"

definition hasAlliedHealthQualificationMismatch :: "ScheduleEntry \<Rightarrow> Therapist list \<Rightarrow> bool" where
  "hasAlliedHealthQualificationMismatch entry therapists =
     (if \<not> isAlliedHealth (sessionType entry) then False
      else case find (\<lambda>t. therapist_id t = therapistId entry) therapists of
             None \<Rightarrow> False
           | Some t \<Rightarrow>
               (let serviceType = (if sessionType entry = AlliedHealth_OT then OT else SLP)
                in serviceType \<notin> set (canProvideAlliedHealth t)))"

definition isSessionDurationValid :: "ScheduleEntry \<Rightarrow> bool" where
  "isSessionDurationValid entry =
     (let duration = endTime entry - startTime entry
      in if sessionType entry = ABA then duration \<ge> 60 \<and> duration \<le> 180
         else if sessionType entry = IndirectTime then duration = 30
         else if isAlliedHealth (sessionType entry) then duration > 0
         else True)"

definition isWithinOperatingHours :: "ScheduleEntry \<Rightarrow> bool" where
  "isWithinOperatingHours entry =
     (if sessionType entry = IndirectTime then True
      else startTime entry \<ge> COMPANY_OPERATING_HOURS_START \<and>
           endTime entry \<le> COMPANY_OPERATING_HOURS_END)"

definition hasSameClientBackToBackConflict ::
  "GeneratedSchedule \<Rightarrow> ScheduleEntry \<Rightarrow> string option \<Rightarrow> bool" where
  "hasSameClientBackToBackConflict schedule entry ignoreEntryId =
     (if \<not> truthy (clientId entry) then False
      else list_ex (\<lambda>s. not_ignored s ignoreEntryId \<and>
                        therapistId s = therapistId entry \<and>
                        clientId s = clientId entry \<and>
                        day s = day entry \<and>
                        (endTime s = startTime entry \<or> startTime s = endTime entry))
                   schedule)"

definition violation :: "nat \<Rightarrow> string \<Rightarrow> ConstraintViolation" where
  "violation sev msg = \<lparr>v_type = hard, severity = sev, message = msg\<rparr>"

definition canAddEntryToSchedule_violations ::
  "ScheduleEntry \<Rightarrow> GeneratedSchedule \<Rightarrow> Client list \<Rightarrow> Therapist list \<Rightarrow> JsDate \<Rightarrow>
   Callout list \<Rightarrow> string option \<Rightarrow> ConstraintViolation list" where
  "canAddEntryToSchedule_violations entry schedule clients therapists selectedDate callouts ignoreEntryId =
     (if hasTherapistConflict schedule entry ignoreEntryId
      then [violation 100 (''Therapist '' @ therapistName entry @ '' has time conflict'')] else []) @
     (if hasClientConflict schedule entry ignoreEntryId
      then [violation 100 ''Client has time conflict''] else []) @
     (if hasSameClientBackToBackConflict schedule entry ignoreEntryId
      then [violation 100
             ''Therapist cannot have contiguous sessions with the same client (back-to-back forbidden)'']
      else []) @
     (if hasCalloutConflict entry callouts selectedDate
      then [violation 110 ''Entry conflicts with callout''] else []) @
     (if \<not> isSessionDurationValid entry
      then [violation 100 ''Session duration is invalid''] else []) @
     (if \<not> isWithinOperatingHours entry
      then [violation 90 ''Session outside operating hours''] else []) @
     (if hasCredentialMismatch entry clients therapists
      then [violation 100 ''Therapist credential mismatch''] else []) @
     (if hasAlliedHealthQualificationMismatch entry therapists
      then [violation 100 ''Allied health qualification missing''] else [])"

definition canAddEntryToSchedule ::
  "ScheduleEntry \<Rightarrow> GeneratedSchedule \<Rightarrow> Client list \<Rightarrow> Therapist list \<Rightarrow> JsDate \<Rightarrow>
   Callout list \<Rightarrow> string option \<Rightarrow> bool \<times> ConstraintViolation list" where
  "canAddEntryToSchedule entry schedule clients therapists selectedDate callouts ignoreEntryId =
     (let violations =
            canAddEntryToSchedule_violations entry schedule clients therapists selectedDate
              callouts ignoreEntryId
      in (length violations = 0, violations))"

definition valid :: "bool \<times> ConstraintViolation list \<Rightarrow> bool" where
  "valid r = fst r"

definition violations :: "bool \<times> ConstraintViolation list \<Rightarrow> ConstraintViolation list" where
  "violations r = snd r"

section \<open>Availability tracker (services/csoService)\<close>

record TrackedEntry =
  te_therapistId :: string
  te_clientId :: "string option"
  te_start :: int
  te_end :: int

record AvailabilityTracker =
  therapistMasks :: "string \<rightharpoonup> int"
  clientMasks :: "string \<rightharpoonup> int"
  scheduleByEntry :: "string \<rightharpoonup> TrackedEntry"

text \<open>\<^verbatim>\<open>x << n\<close> on a BigInt shifts to the right when \<open>n\<close> is negative.\<close>

definition bigint_shl :: "int \<Rightarrow> int \<Rightarrow> int" where
  "bigint_shl x n = (if 0 \<le> n then push_bit (nat n) x else drop_bit (nat (- n)) x)"

definition timeToBit :: "int \<Rightarrow> int" where
  "timeToBit mins = mins div 15"

definition getRangeMask :: "int \<Rightarrow> int \<Rightarrow> int" where
  "getRangeMask start end' =
     (let startBit = timeToBit start;
          endBit = timeToBit end';
          length' = endBit - startBit
      in if length' \<le> 0 then 0
         else bigint_shl (bigint_shl 1 length' - 1) startBit)"

text \<open>\<^verbatim>\<open>masks.get(id) || 0n\<close>\<close>

definition mask_or_zero :: "(string \<rightharpoonup> int) \<Rightarrow> string \<Rightarrow> int" where
  "mask_or_zero masks k = (case masks k of None \<Rightarrow> 0 | Some v \<Rightarrow> v)"

definition book :: "AvailabilityTracker \<Rightarrow> string \<Rightarrow> string option \<Rightarrow> int \<Rightarrow> int \<Rightarrow> AvailabilityTracker" where
  "book tr therapistId' clientId' start end' =
     (let mask' = getRangeMask start end';
          tMask = mask_or_zero (therapistMasks tr) therapistId';
          tr1 = tr\<lparr>therapistMasks := (therapistMasks tr)(therapistId' \<mapsto> tMask OR mask')\<rparr>
      in if truthy clientId'
         then (let cMask = mask_or_zero (clientMasks tr1) (the clientId')
               in tr1\<lparr>clientMasks := (clientMasks tr1)(the clientId' \<mapsto> cMask OR mask')\<rparr>)
         else tr1)"

definition remember_entry :: "AvailabilityTracker \<Rightarrow> ScheduleEntry \<Rightarrow> AvailabilityTracker" where
  "remember_entry tr s =
     tr\<lparr>scheduleByEntry := (scheduleByEntry tr)(entry_id s \<mapsto>
          \<lparr>te_therapistId = therapistId s, te_clientId = clientId s,
           te_start = startTime s, te_end = endTime s\<rparr>)\<rparr>"

definition apply_callout :: "JsDate \<Rightarrow> AvailabilityTracker \<Rightarrow> Callout \<Rightarrow> AvailabilityTracker" where
  "apply_callout selectedDate tr co =
     (if isDateAffectedByCalloutRange selectedDate (startDate co) (endDate co)
      then (let mask' = getRangeMask (co_startTime co) (co_endTime co)
            in if entityType co = TherapistEntity
               then tr\<lparr>therapistMasks := (therapistMasks tr)
                      (entityId co \<mapsto> mask_or_zero (therapistMasks tr) (entityId co) OR mask')\<rparr>
               else tr\<lparr>clientMasks := (clientMasks tr)
                      (entityId co \<mapsto> mask_or_zero (clientMasks tr) (entityId co) OR mask')\<rparr>)
      else tr)"

definition apply_entry :: "AvailabilityTracker \<Rightarrow> ScheduleEntry \<Rightarrow> AvailabilityTracker" where
  "apply_entry tr s = book tr (therapistId s) (clientId s) (startTime s) (endTime s)"

definition rebuild ::
  "AvailabilityTracker \<Rightarrow> GeneratedSchedule \<Rightarrow> Callout list \<Rightarrow> JsDate \<Rightarrow> AvailabilityTracker" where
  "rebuild tr schedule callouts selectedDate =
     (let cleared = tr\<lparr>therapistMasks := Map.empty, clientMasks := Map.empty,
                       scheduleByEntry := Map.empty\<rparr>;
          stored = foldl remember_entry cleared schedule;
          withCallouts = foldl (apply_callout selectedDate) stored callouts
      in foldl apply_entry withCallouts schedule)"

definition new_AvailabilityTracker ::
  "GeneratedSchedule \<Rightarrow> Callout list \<Rightarrow> JsDate \<Rightarrow> AvailabilityTracker" where
  "new_AvailabilityTracker schedule callouts selectedDate =
     rebuild \<lparr>therapistMasks = Map.empty, clientMasks = Map.empty, scheduleByEntry = Map.empty\<rparr>
       schedule callouts selectedDate"

definition isAvailable ::
  "AvailabilityTracker \<Rightarrow> EntityType \<Rightarrow> string \<Rightarrow> int \<Rightarrow> int \<Rightarrow> string option \<Rightarrow> bool" where
  "isAvailable tr entityType' entityId' start end' ignoreEntryId =
     (let queryMask = getRangeMask start end';
          entityMask = (if entityType' = TherapistEntity
                        then mask_or_zero (therapistMasks tr) entityId'
                        else mask_or_zero (clientMasks tr) entityId');
          entityMask' =
            (if truthy ignoreEntryId
             then (case scheduleByEntry tr (the ignoreEntryId) of
                     None \<Rightarrow> entityMask
                   | Some ignoredEntry \<Rightarrow>
                       if (entityType' = TherapistEntity \<and> te_therapistId ignoredEntry = entityId') \<or>
                          (entityType' = ClientEntity \<and> te_clientId ignoredEntry = Some entityId')
                       then entityMask AND NOT (getRangeMask (te_start ignoredEntry) (te_end ignoredEntry))
                       else entityMask)
             else entityMask)
      in entityMask' AND queryMask = 0)"

text \<open>A non-empty range of minutes of the day whose two ends lie on the 15-minute grid.\<close>

definition grid_range :: "int \<Rightarrow> int \<Rightarrow> bool" where
  "grid_range a b = (0 \<le> a \<and> a < b \<and> a mod 15 = 0 \<and> b mod 15 = 0)"

section \<open>Coverage gaps (services/constraintValidator)\<close>

record TimeRange =
  range_start :: int
  range_end :: int

text \<open>\<^verbatim>\<open>Array.prototype.sort\<close> with a comparator is a stable sort: insertion from the right
  keeps elements that compare equal in their original order.\<close>

fun insert_by :: "('a \<Rightarrow> 'a \<Rightarrow> 'n::{ord,zero}) \<Rightarrow> 'a \<Rightarrow> 'a list \<Rightarrow> 'a list" where
  "insert_by cmp x [] = [x]"
| "insert_by cmp x (y # ys) = (if cmp x y \<le> 0 then x # y # ys else y # insert_by cmp x ys)"

definition js_sort :: "('a \<Rightarrow> 'a \<Rightarrow> 'n::{ord,zero}) \<Rightarrow> 'a list \<Rightarrow> 'a list" where
  "js_sort cmp xs = foldr (insert_by cmp) xs []"

definition subtract_busy :: "TimeRange \<Rightarrow> TimeRange list \<Rightarrow> TimeRange list" where
  "subtract_busy busy availableRanges =
     concat (map (\<lambda>range.
        if range_end busy \<le> range_start range \<or> range_start busy \<ge> range_end range
        then [range]
        else (if range_start busy > range_start range
              then [\<lparr>range_start = range_start range, range_end = range_start busy\<rparr>] else []) @
             (if range_end busy < range_end range
              then [\<lparr>range_start = range_end busy, range_end = range_end range\<rparr>] else []))
      availableRanges)"

definition busyPeriods :: "GeneratedSchedule \<Rightarrow> string \<Rightarrow> Callout list \<Rightarrow> JsDate \<Rightarrow> TimeRange list" where
  "busyPeriods schedule clientId' callouts selectedDate =
     map (\<lambda>co. \<lparr>range_start = co_startTime co, range_end = co_endTime co\<rparr>)
       (filter (\<lambda>co. entityType co = ClientEntity \<and> entityId co = clientId' \<and>
                      isDateAffectedByCalloutRange selectedDate (startDate co) (endDate co))
          callouts) @
     map (\<lambda>s. \<lparr>range_start = startTime s, range_end = endTime s\<rparr>)
       (filter (\<lambda>s. clientId s = Some clientId') schedule)"

definition getClientCoverageGaps ::
  "GeneratedSchedule \<Rightarrow> string \<Rightarrow> Callout list \<Rightarrow> JsDate \<Rightarrow> int \<Rightarrow> int \<Rightarrow> TimeRange list" where
  "getClientCoverageGaps schedule clientId' callouts selectedDate opStart opEnd =
     (let sorted = js_sort (\<lambda>a b. range_start a - range_start b)
                     (busyPeriods schedule clientId' callouts selectedDate);
          availableRanges =
            foldl (\<lambda>ranges busy. subtract_busy busy ranges)
              [\<lparr>range_start = opStart, range_end = opEnd\<rparr>] sorted
      in filter (\<lambda>r. range_end r > range_start r) availableRanges)"

text \<open>The minutes of the operating window that no client-targeted callout of the client
  in force on the date and no entry of the client covers; a period covers the minutes
  from its start up to, not including, its end.\<close>

definition covers :: "TimeRange \<Rightarrow> int \<Rightarrow> bool" where
  "covers r p = (range_start r \<le> p \<and> p < range_end r)"

definition uncovered ::
  "GeneratedSchedule \<Rightarrow> string \<Rightarrow> Callout list \<Rightarrow> JsDate \<Rightarrow> int \<Rightarrow> int \<Rightarrow> int \<Rightarrow> bool" where
  "uncovered schedule clientId' callouts selectedDate opStart opEnd p =
     (opStart \<le> p \<and> p < opEnd \<and>
      \<not> list_ex (\<lambda>busy. covers busy p) (busyPeriods schedule clientId' callouts selectedDate))"

text \<open>A list of ranges is made of the maximal intervals of a set of minutes when each
  range is non-empty, the ranges come in ascending order with a covered minute between
  two neighbours, and a minute is in the set exactly when some range contains it.\<close>

fun separated :: "TimeRange list \<Rightarrow> bool" where
  "separated [] = True"
| "separated [r] = (range_start r < range_end r)"
| "separated (r # r' # rs) =
     (range_start r < range_end r \<and> range_end r < range_start r' \<and> separated (r' # rs))"

section \<open>Repair: duration clamp (services/csoService)\<close>

definition fixSessionDurations :: "GeneratedSchedule \<Rightarrow> GeneratedSchedule" where
  "fixSessionDurations schedule =
     map (\<lambda>entry.
        if sessionType entry = ABA
        then (let start = startTime entry;
                  end' = endTime entry;
                  duration = end' - start
              in if duration > 180 then entry\<lparr>endTime := start + 180\<rparr>
                 else if duration < 60 then entry\<lparr>endTime := start + 60\<rparr>
                 else entry)
        else entry) schedule"




text \<open>\<open>sep_after lo rs\<close>: the ranges of \<open>rs\<close> are non-empty, ascending, strictly apart
  from each other, and start after \<open>lo\<close>.\<close>

fun sep_after :: "int \<Rightarrow> TimeRange list \<Rightarrow> bool" where
  "sep_after lo [] = True"
| "sep_after lo (r # rs) =
     (lo < range_start r \<and> range_start r < range_end r \<and> sep_after (range_end r) rs)"

section \<open>Randomness and fresh identifiers\<close>

text \<open>
  A result of \<^verbatim>\<open>Math.random()\<close> is a real number in \<open>[0, 1)\<close>. The calls a run makes are
  a sequence \<open>rnd 0, rnd 1, \<dots>\<close> consumed from a cursor that each function returns
  advanced. \<^verbatim>\<open>generateId()\<close> takes the next identifier of a supply \<open>ids\<close> in the same way.
\<close>

typedef draw = "{r::real. 0 \<le> r \<and> r < 1}"
  by (rule exI[of _ 0]) simp

type_synonym random_source = "nat \<Rightarrow> draw"

type_synonym id_supply = "nat \<Rightarrow> string"

definition random_index :: "draw \<Rightarrow> nat \<Rightarrow> nat" where
  "random_index r n = nat \<lfloor>Rep_draw r * real n\<rfloor>"

definition getTherapistById :: "Therapist list \<Rightarrow> string \<Rightarrow> Therapist option" where
  "getTherapistById therapists i = find (\<lambda>t. therapist_id t = i) therapists"

definition getClientById :: "Client list \<Rightarrow> string \<Rightarrow> Client option" where
  "getClientById clients i = find (\<lambda>c. client_id c = i) clients"

definition cloneSchedule :: "GeneratedSchedule \<Rightarrow> GeneratedSchedule" where
  "cloneSchedule schedule = schedule"

section \<open>Incremental mutation (services/csoService)\<close>

definition numMutations :: "nat \<Rightarrow> nat" where
  "numMutations n = max 1 (n div 10)"

definition mutate_once ::
  "random_source \<Rightarrow> Client list \<Rightarrow> Therapist list \<Rightarrow> JsDate \<Rightarrow> Callout list \<Rightarrow>
   GeneratedSchedule \<times> nat \<Rightarrow> GeneratedSchedule \<times> nat" where
  "mutate_once rnd clients therapists selectedDate callouts state =
     (let newSchedule = fst state;
          k = snd state;
          idx = random_index (rnd k) (length newSchedule);
          entry = newSchedule ! idx
      in if sessionType entry = IndirectTime then (newSchedule, k + 1)
         else
           let action = Rep_draw (rnd (k + 1))
           in if action < 0.5
              then
                (let shift = (\<lfloor>Rep_draw (rnd (k + 2)) * 3\<rfloor> - 1) * 15
                 in if shift = 0 then (newSchedule, k + 3)
                    else
                      let currentStart = startTime entry;
                          currentEnd = endTime entry;
                          duration = currentEnd - currentStart;
                          newStart = currentStart + shift;
                          newEnd = newStart + duration;
                          shiftedEntry = entry\<lparr>startTime := newStart, endTime := newEnd\<rparr>;
                          validation = canAddEntryToSchedule shiftedEntry newSchedule clients
                                         therapists selectedDate callouts (Some (entry_id entry))
                      in (if valid validation then newSchedule[idx := shiftedEntry]
                          else newSchedule, k + 3))
              else if sessionType entry = ABA
              then
                (let change = (if Rep_draw (rnd (k + 2)) < 0.5 then - 15 else 15);
                     currentStart = startTime entry;
                     currentEnd = endTime entry;
                     currentDuration = currentEnd - currentStart;
                     newDuration = currentDuration + change
                 in if newDuration \<ge> 60 \<and> newDuration \<le> 180
                    then
                      (let resizedEntry = entry\<lparr>endTime := currentStart + newDuration\<rparr>;
                           validation = canAddEntryToSchedule resizedEntry newSchedule clients
                                          therapists selectedDate callouts (Some (entry_id entry))
                       in (if valid validation then newSchedule[idx := resizedEntry]
                           else newSchedule, k + 3))
                    else (newSchedule, k + 3))
              else (newSchedule, k + 2))"

definition mutateIncremental ::
  "random_source \<Rightarrow> nat \<Rightarrow> GeneratedSchedule \<Rightarrow> Client list \<Rightarrow> Therapist list \<Rightarrow> JsDate \<Rightarrow>
   Callout list \<Rightarrow> GeneratedSchedule \<times> nat" where
  "mutateIncremental rnd k schedule clients therapists selectedDate callouts =
     (if length schedule = 0 then (schedule, k)
      else ((mutate_once rnd clients therapists selectedDate callouts)
              ^^ numMutations (length (cloneSchedule schedule))) (cloneSchedule schedule, k))"

section \<open>Crossover (services/csoService)\<close>

definition CROSSOVER_RATE :: real where
  "CROSSOVER_RATE = 0.7"

definition bcba_rank :: "Therapist list \<Rightarrow> ScheduleEntry \<Rightarrow> int" where
  "bcba_rank therapists a =
     (case getTherapistById therapists (therapistId a) of
        None \<Rightarrow> 1
      | Some t \<Rightarrow> if ''BCBA'' \<in> set (qualifications t) then 0 else 1)"

definition crossover_cmp :: "Therapist list \<Rightarrow> ScheduleEntry \<Rightarrow> ScheduleEntry \<Rightarrow> int" where
  "crossover_cmp therapists a b =
     (let aBCBA = bcba_rank therapists a;
          bBCBA = bcba_rank therapists b
      in if aBCBA \<noteq> bBCBA then aBCBA - bBCBA else startTime a - startTime b)"

definition with_fresh_ids :: "id_supply \<Rightarrow> nat \<Rightarrow> GeneratedSchedule \<Rightarrow> GeneratedSchedule" where
  "with_fresh_ids ids j entries =
     map (\<lambda>(n, s). s\<lparr>entry_id := ids (j + n)\<rparr>) (zip [0..<length entries] entries)"

fun replay_offspring ::
  "AvailabilityTracker \<Rightarrow> GeneratedSchedule \<Rightarrow> GeneratedSchedule \<Rightarrow> GeneratedSchedule" where
  "replay_offspring tracker validOffspring [] = validOffspring"
| "replay_offspring tracker validOffspring (entry # rest) =
     (let start = startTime entry;
          end' = endTime entry;
          tAvail = isAvailable tracker TherapistEntity (therapistId entry) start end' None;
          cAvail = (\<not> truthy (clientId entry) \<or>
                    isAvailable tracker ClientEntity (the (clientId entry)) start end' None)
      in if tAvail \<and> cAvail
         then replay_offspring (book tracker (therapistId entry) (clientId entry) start end')
                (validOffspring @ [entry]) rest
         else replay_offspring tracker validOffspring rest)"

text \<open>The result is the offspring with the cursors of the random source and of the
  identifier supply.\<close>

definition crossover ::
  "random_source \<Rightarrow> id_supply \<Rightarrow> nat \<times> nat \<Rightarrow> GeneratedSchedule \<Rightarrow> GeneratedSchedule \<Rightarrow>
   Therapist list \<Rightarrow> Client list \<Rightarrow> JsDate \<Rightarrow> Callout list \<Rightarrow> GeneratedSchedule \<times> nat \<times> nat" where
  "crossover rnd ids cur parent1 parent2 therapists clients selectedDate callouts =
     (let k = fst cur; j = snd cur
      in if Rep_draw (rnd k) > CROSSOVER_RATE
         then (cloneSchedule (if Rep_draw (rnd (k + 1)) < 0.5 then parent1 else parent2), k + 2, j)
         else
           let therapistIds = map therapist_id therapists;
               midpoint = length therapistIds div 2;
               p1Ids = take midpoint therapistIds;
               offspring = with_fresh_ids ids j
                             (filter (\<lambda>s. therapistId s \<in> set p1Ids) parent1 @
                              filter (\<lambda>s. therapistId s \<notin> set p1Ids) parent2);
               sorted = js_sort (crossover_cmp therapists) offspring;
               tracker = new_AvailabilityTracker [] callouts selectedDate
           in (replay_offspring tracker [] sorted, k + 1, j + length offspring))"

text \<open>The minutes an entry occupies, and overlap of two entries as ranges \<open>[start, end)\<close>.\<close>

definition minutes_of :: "ScheduleEntry \<Rightarrow> int set" where
  "minutes_of e = {startTime e ..< endTime e}"

definition ranges_overlap :: "ScheduleEntry \<Rightarrow> ScheduleEntry \<Rightarrow> bool" where
  "ranges_overlap e f = (max (startTime e) (startTime f) < min (endTime e) (endTime f))"



text \<open>An entry differs from another at most in its start and end time.\<close>

definition only_times_changed :: "ScheduleEntry \<Rightarrow> ScheduleEntry \<Rightarrow> bool" where
  "only_times_changed e e' = (e' = e\<lparr>startTime := startTime e', endTime := endTime e'\<rparr>)"

text \<open>\<open>frame_ok inp out\<close>: \<open>out\<close> has the entries of \<open>inp\<close> position by position, lunches
  untouched and the others changed at most in their times.\<close>

definition frame_ok :: "GeneratedSchedule \<Rightarrow> GeneratedSchedule \<Rightarrow> bool" where
  "frame_ok inp out =
     (length out = length inp \<and>
      (\<forall>i < length inp.
          (sessionType (inp ! i) = IndirectTime \<longrightarrow> out ! i = inp ! i) \<and>
          only_times_changed (inp ! i) (out ! i)))"

text \<open>Two entries clash when their ranges overlap and they have the same therapist or the
  same client, the client id being neither null nor empty; a schedule is conflict-free
  when no two of its entries clash.\<close>

definition clash :: "ScheduleEntry \<Rightarrow> ScheduleEntry \<Rightarrow> bool" where
  "clash e f =
     (ranges_overlap e f \<and>
      (therapistId e = therapistId f \<or> (truthy (clientId e) \<and> clientId e = clientId f)))"



section \<open>Cleanup-merge (services/csoService)\<close>

text \<open>\<^verbatim>\<open>[...new Set(xs)]\<close>: the distinct elements in the order of their first occurrence.\<close>

fun js_unique :: "'a list \<Rightarrow> 'a list" where
  "js_unique [] = []"
| "js_unique (x # xs) = x # js_unique (filter (\<lambda>y. y \<noteq> x) xs)"

text \<open>The inner loop over the sorted sessions of one therapist: the entries pushed, and
  whether two sessions were merged.\<close>

fun merge_sessions :: "ScheduleEntry \<Rightarrow> ScheduleEntry list \<Rightarrow> ScheduleEntry list \<times> bool" where
  "merge_sessions currentSession [] = ([currentSession], False)"
| "merge_sessions currentSession (nextSession # rest) =
     (if clientId currentSession = clientId nextSession \<and>
         sessionType currentSession = sessionType nextSession \<and>
         endTime currentSession = startTime nextSession \<and>
         sessionType currentSession = ABA
      then
        (let combinedDuration = (endTime nextSession - startTime nextSession) +
                                (endTime currentSession - startTime currentSession)
         in if combinedDuration \<le> 180
            then (fst (merge_sessions (currentSession\<lparr>endTime := endTime nextSession\<rparr>) rest), True)
            else (currentSession # fst (merge_sessions nextSession rest),
                  snd (merge_sessions nextSession rest)))
      else (currentSession # fst (merge_sessions nextSession rest),
            snd (merge_sessions nextSession rest)))"

definition therapist_pass :: "GeneratedSchedule \<Rightarrow> string \<Rightarrow> ScheduleEntry list \<times> bool" where
  "therapist_pass schedule therapistId' =
     (let sessions = js_sort (\<lambda>a b. startTime a - startTime b)
                       (filter (\<lambda>s. therapistId s = therapistId') schedule)
      in if length sessions \<le> 1 then (sessions, False)
         else merge_sessions (hd sessions) (tl sessions))"

definition cleanup_pass :: "GeneratedSchedule \<Rightarrow> GeneratedSchedule \<times> bool" where
  "cleanup_pass schedule =
     (let therapistIds = js_unique (map therapistId schedule);
          passes = map (therapist_pass schedule) therapistIds
      in (concat (map fst passes), list_ex snd passes))"

definition MAX_MERGE_ITERATIONS :: nat where
  "MAX_MERGE_ITERATIONS = 50"

function cleanup_loop :: "bool \<Rightarrow> nat \<Rightarrow> GeneratedSchedule \<Rightarrow> GeneratedSchedule" where
  "cleanup_loop merged iterations schedule =
     (if merged \<and> iterations < MAX_MERGE_ITERATIONS
      then cleanup_loop (snd (cleanup_pass schedule)) (iterations + 1) (fst (cleanup_pass schedule))
      else schedule)"
  by pat_completeness auto
termination
  by (relation "measure (\<lambda>(merged, iterations, schedule). MAX_MERGE_ITERATIONS - iterations)") auto

definition cleanupScheduleIssues :: "GeneratedSchedule \<Rightarrow> GeneratedSchedule" where
  "cleanupScheduleIssues schedule = cleanup_loop True 0 schedule"

section \<open>Local search (services/csoService)\<close>

text \<open>\<^verbatim>\<open>getTherapistById(\<dots>)!.name\<close> throws a TypeError when the therapist is not in the
  list; the exception leaves \<open>runCsoAlgorithm\<close>, whose promise is then rejected.

  \<open>FractionalTime\<close> is not an exception of the program. It ends a run of the model at the
  one place where the program writes a time that is not a whole number of minutes (the
  split of a session in \<open>fixLunchIssues\<close> at the midpoint of a workday of odd length,
  \<^verbatim>\<open>minutesToTime(727.5) = "12:7.5"\<close>). Times are whole minutes in this model, so it does
  not follow the program beyond that point.\<close>

datatype js_error = TypeError | FractionalTime

definition swap_therapists ::
  "Therapist list \<Rightarrow> GeneratedSchedule \<Rightarrow> nat \<Rightarrow> nat \<Rightarrow> js_error + GeneratedSchedule" where
  "swap_therapists therapists currentSchedule i j =
     (let testSchedule = cloneSchedule currentSchedule;
          temp = therapistId (testSchedule ! i)
      in case getTherapistById therapists (therapistId (testSchedule ! j)) of
           None \<Rightarrow> Inl TypeError
         | Some tj \<Rightarrow>
             (case getTherapistById therapists temp of
                None \<Rightarrow> Inl TypeError
              | Some ti \<Rightarrow>
                  Inr (testSchedule
                        [i := (testSchedule ! i)\<lparr>therapistId := therapistId (testSchedule ! j),
                                                 therapistName := therapist_name tj\<rparr>,
                         j := (testSchedule ! j)\<lparr>therapistId := temp,
                                                 therapistName := therapist_name ti\<rparr>])))"

text \<open>One iteration of the outer loop scans the pairs \<open>i < j\<close> in order and stops at the
  first swap that lowers the fitness.\<close>

fun scan_pairs ::
  "(GeneratedSchedule \<Rightarrow> real) \<Rightarrow> Therapist list \<Rightarrow> GeneratedSchedule \<Rightarrow> real \<Rightarrow>
   (nat \<times> nat) list \<Rightarrow> js_error + (GeneratedSchedule \<times> real) option" where
  "scan_pairs fit therapists currentSchedule currentFitness [] = Inr None"
| "scan_pairs fit therapists currentSchedule currentFitness ((i, j) # pairs) =
     (let entry1 = currentSchedule ! i;
          entry2 = currentSchedule ! j
      in if truthy (clientId entry1) \<and> truthy (clientId entry2) \<and>
            therapistId entry1 \<noteq> therapistId entry2
         then (case swap_therapists therapists currentSchedule i j of
                 Inl err \<Rightarrow> Inl err
               | Inr testSchedule \<Rightarrow>
                   (let testFitness = fit testSchedule
                    in if testFitness < currentFitness
                       then Inr (Some (testSchedule, testFitness))
                       else scan_pairs fit therapists currentSchedule currentFitness pairs))
         else scan_pairs fit therapists currentSchedule currentFitness pairs)"

definition index_pairs :: "nat \<Rightarrow> (nat \<times> nat) list" where
  "index_pairs n = concat (map (\<lambda>i. map (\<lambda>j. (i, j)) [i + 1 ..< n]) [0 ..< n])"

fun local_search_iter ::
  "(GeneratedSchedule \<Rightarrow> real) \<Rightarrow> Therapist list \<Rightarrow> nat \<Rightarrow> GeneratedSchedule \<Rightarrow> real \<Rightarrow>
   js_error + GeneratedSchedule" where
  "local_search_iter fit therapists 0 currentSchedule currentFitness = Inr currentSchedule"
| "local_search_iter fit therapists (Suc n) currentSchedule currentFitness =
     (case scan_pairs fit therapists currentSchedule currentFitness
             (index_pairs (length currentSchedule)) of
        Inl err \<Rightarrow> Inl err
      | Inr None \<Rightarrow> Inr currentSchedule
      | Inr (Some (testSchedule, testFitness)) \<Rightarrow>
          local_search_iter fit therapists n testSchedule testFitness)"

definition localSearchImprovement ::
  "(GeneratedSchedule \<Rightarrow> real) \<Rightarrow> Therapist list \<Rightarrow> GeneratedSchedule \<Rightarrow> nat \<Rightarrow>
   js_error + GeneratedSchedule" where
  "localSearchImprovement fit therapists schedule maxIterations =
     local_search_iter fit therapists maxIterations (cloneSchedule schedule)
       (fit (cloneSchedule schedule))"

section \<open>Selection and the generational loop (services/csoService)\<close>

definition POPULATION_SIZE :: nat where
  "POPULATION_SIZE = 50"

definition MAX_GENERATIONS :: nat where
  "MAX_GENERATIONS = 150"

definition PLATEAU_LIMIT :: nat where
  "PLATEAU_LIMIT = 30"

text \<open>\<^verbatim>\<open>Math.floor(POPULATION_SIZE * ELITISM_RATE)\<close> with \<^verbatim>\<open>ELITISM_RATE = 0.1\<close>.\<close>

definition eliteCount :: nat where
  "eliteCount = 5"

text \<open>A fitness is a finite number; the best fitness starts at \<^verbatim>\<open>Infinity\<close>.\<close>

datatype best_fitness = Finite real | Infinity

fun less_than_best :: "real \<Rightarrow> best_fitness \<Rightarrow> bool" where
  "less_than_best x Infinity = True"
| "less_than_best x (Finite b) = (x < b)"

fun best_below :: "best_fitness \<Rightarrow> real \<Rightarrow> bool" where
  "best_below Infinity y = False"
| "best_below (Finite b) y = (b < y)"

type_synonym scored = "GeneratedSchedule \<times> real"

fun tournament :: "random_source \<Rightarrow> nat \<Rightarrow> scored list \<Rightarrow> nat \<Rightarrow> scored option \<Rightarrow> scored option" where
  "tournament rnd k population 0 best = best"
| "tournament rnd k population (Suc n) best =
     (let idx = random_index (rnd k) (length population);
          candidate = population ! idx
      in tournament rnd (k + 1) population n
           (case best of
              None \<Rightarrow> Some candidate
            | Some b \<Rightarrow> if snd candidate < snd b then Some candidate else Some b))"

definition diversityPreservingSelection ::
  "random_source \<Rightarrow> nat \<Rightarrow> scored list \<Rightarrow> GeneratedSchedule \<times> nat" where
  "diversityPreservingSelection rnd k population =
     (let similarityCheck = Rep_draw (rnd k)
      in if similarityCheck < 0.3
         then (let randomIdx = random_index (rnd (k + 1)) (length population)
               in (cloneSchedule (fst (population ! randomIdx)), k + 2))
         else (let tournamentSize = 5
               in (cloneSchedule (fst (the (tournament rnd (k + 1) population tournamentSize None))),
                   k + 1 + tournamentSize)))"

record GAState =
  population :: "GeneratedSchedule list"
  bestFitnessOverall :: best_fitness
  bestScheduleOverall :: "GeneratedSchedule option"
  generationsRun :: nat
  generationsWithoutImprovement :: nat

text \<open>The loop is written over the two operations it calls on the inputs of the run:
  \<open>fit\<close>, the fitness of a schedule, and \<open>child\<close>, which makes one offspring of the scored
  population (two selections, crossover, repair and mutation) and advances the cursor
  \<open>'c\<close> of the random source and the identifier supply, or throws.\<close>

function add_children ::
  "(scored list \<Rightarrow> 'c \<Rightarrow> js_error + GeneratedSchedule \<times> 'c) \<Rightarrow> scored list \<Rightarrow>
   GeneratedSchedule list \<Rightarrow> 'c \<Rightarrow> js_error + GeneratedSchedule list \<times> 'c" where
  "add_children child popWithFitness newPop cur =
     (if length newPop < POPULATION_SIZE
      then (case child popWithFitness cur of
              Inl e \<Rightarrow> Inl e
            | Inr r \<Rightarrow> add_children child popWithFitness (newPop @ [fst r]) (snd r))
      else Inr (newPop, cur))"
  by pat_completeness auto
termination
  by (relation "measure (\<lambda>(child, popWithFitness, newPop, cur). POPULATION_SIZE - length newPop)")
     auto

definition score_population ::
  "(GeneratedSchedule \<Rightarrow> real) \<Rightarrow> GeneratedSchedule list \<Rightarrow> scored list" where
  "score_population fit pop = js_sort (\<lambda>a b. snd a - snd b) (map (\<lambda>p. (p, fit p)) pop)"

text \<open>The head of a generation: count it, score and sort the population, record the
  best.\<close>

definition record_best :: "(GeneratedSchedule \<Rightarrow> real) \<Rightarrow> nat \<Rightarrow> GAState \<Rightarrow> GAState" where
  "record_best fit gen st =
     (let st1 = st\<lparr>generationsRun := gen + 1\<rparr>;
          popWithFitness = score_population fit (population st1)
      in if less_than_best (snd (hd popWithFitness)) (bestFitnessOverall st1)
         then st1\<lparr>bestFitnessOverall := Finite (snd (hd popWithFitness)),
                  bestScheduleOverall := Some (cloneSchedule (fst (hd popWithFitness))),
                  generationsWithoutImprovement := 0\<rparr>
         else st1\<lparr>generationsWithoutImprovement := generationsWithoutImprovement st1 + 1\<rparr>)"

definition evolve ::
  "(GeneratedSchedule \<Rightarrow> real) \<Rightarrow> (scored list \<Rightarrow> 'c \<Rightarrow> js_error + GeneratedSchedule \<times> 'c) \<Rightarrow>
   GAState \<Rightarrow> 'c \<Rightarrow> js_error + GAState \<times> 'c" where
  "evolve fit child st cur =
     (let popWithFitness = score_population fit (population st);
          elites = map (\<lambda>p. cloneSchedule (fst p)) (take eliteCount popWithFitness)
      in case add_children child popWithFitness elites cur of
           Inl e \<Rightarrow> Inl e
         | Inr newPop \<Rightarrow> Inr (st\<lparr>population := fst newPop\<rparr>, snd newPop))"

function ga_loop ::
  "(GeneratedSchedule \<Rightarrow> real) \<Rightarrow> (scored list \<Rightarrow> 'c \<Rightarrow> js_error + GeneratedSchedule \<times> 'c) \<Rightarrow>
   nat \<Rightarrow> GAState \<Rightarrow> 'c \<Rightarrow> js_error + GAState \<times> 'c" where
  "ga_loop fit child gen st cur =
     (if gen < MAX_GENERATIONS
      then (let st' = record_best fit gen st
            in if bestFitnessOverall st' = Finite 0 then Inr (st', cur)
               else if generationsWithoutImprovement st' \<ge> PLATEAU_LIMIT then Inr (st', cur)
               else (case evolve fit child st' cur of
                       Inl e \<Rightarrow> Inl e
                     | Inr r \<Rightarrow> ga_loop fit child (gen + 1) (fst r) (snd r)))
      else Inr (st, cur))"
  by pat_completeness auto
termination
  by (relation "measure (\<lambda>(fit, child, gen, st, cur). MAX_GENERATIONS - gen)") auto

definition initial_state :: "GeneratedSchedule list \<Rightarrow> GAState" where
  "initial_state pop =
     \<lparr>population = pop, bestFitnessOverall = Infinity, bestScheduleOverall = None,
      generationsRun = 0, generationsWithoutImprovement = 0\<rparr>"

text \<open>
  The run of the loop, generation by generation. \<open>generation g\<close> is the population that
  generation \<open>g\<close> scores, with the cursor: the population the loop starts with for
  generation 0, and for each later one the elites and offspring made from the one before
  (or the exception an offspring threw). The best fitness of a generation is the least
  fitness in its population, and the best fitness ever recorded up to a generation is the
  least of the bests so far. A generation improves when its best is below the best of
  every earlier one, as generation 0 does. \<open>without_improvement g\<close> counts the
  generations up to \<open>g\<close> since the last one that improved, and \<open>plateau g\<close> says that
  none of the \<open>PLATEAU_LIMIT\<close> generations up to \<open>g\<close> has improved.
\<close>

fun generation ::
  "(GeneratedSchedule \<Rightarrow> real) \<Rightarrow> (scored list \<Rightarrow> 'c \<Rightarrow> js_error + GeneratedSchedule \<times> 'c) \<Rightarrow>
   GeneratedSchedule list \<Rightarrow> 'c \<Rightarrow> nat \<Rightarrow> js_error + GeneratedSchedule list \<times> 'c" where
  "generation fit child pop cur 0 = Inr (pop, cur)"
| "generation fit child pop cur (Suc g) =
     (case generation fit child pop cur g of
        Inl e \<Rightarrow> Inl e
      | Inr r \<Rightarrow>
          (case evolve fit child (initial_state (fst r)) (snd r) of
             Inl e \<Rightarrow> Inl e
           | Inr q \<Rightarrow> Inr (population (fst q), snd q)))"

definition population_of :: "js_error + GeneratedSchedule list \<times> 'c \<Rightarrow> GeneratedSchedule list" where
  "population_of x = (case x of Inl e \<Rightarrow> [] | Inr r \<Rightarrow> fst r)"

definition generation_best ::
  "(GeneratedSchedule \<Rightarrow> real) \<Rightarrow> (scored list \<Rightarrow> 'c \<Rightarrow> js_error + GeneratedSchedule \<times> 'c) \<Rightarrow>
   GeneratedSchedule list \<Rightarrow> 'c \<Rightarrow> nat \<Rightarrow> real" where
  "generation_best fit child pop cur g =
     Min (fit ` set (population_of (generation fit child pop cur g)))"

definition best_ever ::
  "(GeneratedSchedule \<Rightarrow> real) \<Rightarrow> (scored list \<Rightarrow> 'c \<Rightarrow> js_error + GeneratedSchedule \<times> 'c) \<Rightarrow>
   GeneratedSchedule list \<Rightarrow> 'c \<Rightarrow> nat \<Rightarrow> real" where
  "best_ever fit child pop cur g = Min (generation_best fit child pop cur ` {..g})"

definition improves ::
  "(GeneratedSchedule \<Rightarrow> real) \<Rightarrow> (scored list \<Rightarrow> 'c \<Rightarrow> js_error + GeneratedSchedule \<times> 'c) \<Rightarrow>
   GeneratedSchedule list \<Rightarrow> 'c \<Rightarrow> nat \<Rightarrow> bool" where
  "improves fit child pop cur g =
     (\<forall>g' < g. generation_best fit child pop cur g < generation_best fit child pop cur g')"

fun without_improvement ::
  "(GeneratedSchedule \<Rightarrow> real) \<Rightarrow> (scored list \<Rightarrow> 'c \<Rightarrow> js_error + GeneratedSchedule \<times> 'c) \<Rightarrow>
   GeneratedSchedule list \<Rightarrow> 'c \<Rightarrow> nat \<Rightarrow> nat" where
  "without_improvement fit child pop cur 0 = 0"
| "without_improvement fit child pop cur (Suc g) =
     (if improves fit child pop cur (Suc g) then 0
      else without_improvement fit child pop cur g + 1)"

definition plateau ::
  "(GeneratedSchedule \<Rightarrow> real) \<Rightarrow> (scored list \<Rightarrow> 'c \<Rightarrow> js_error + GeneratedSchedule \<times> 'c) \<Rightarrow>
   GeneratedSchedule list \<Rightarrow> 'c \<Rightarrow> nat \<Rightarrow> bool" where
  "plateau fit child pop cur g =
     (PLATEAU_LIMIT \<le> g \<and>
      (\<forall>g' \<in> {Suc (g - PLATEAU_LIMIT) .. g}. \<not> improves fit child pop cur g'))"

text \<open>The loop is left in generation \<open>g\<close>: the best fitness ever recorded is 0, or the
  last \<open>PLATEAU_LIMIT\<close> generations have not improved it.\<close>

definition leaves_at ::
  "(GeneratedSchedule \<Rightarrow> real) \<Rightarrow> (scored list \<Rightarrow> 'c \<Rightarrow> js_error + GeneratedSchedule \<times> 'c) \<Rightarrow>
   GeneratedSchedule list \<Rightarrow> 'c \<Rightarrow> nat \<Rightarrow> bool" where
  "leaves_at fit child pop cur g =
     (best_ever fit child pop cur g = 0 \<or> plateau fit child pop cur g)"

section \<open>The result of a run (services/csoService, types.ts)\<close>

record ValidationError =
  ruleId :: string
  err_message :: string

record GAGenerationResult =
  result_schedule :: GeneratedSchedule
  finalValidationErrors :: "ValidationError list"
  generations :: nat
  bestFitness :: best_fitness
  success :: bool

text \<open>The tail of \<open>runCsoAlgorithm\<close>: local search on the best schedule, its fitness
  again, a last cleanup-merge, validation, and the result object. The status message,
  an interpolation of \<open>generations\<close> and \<open>bestFitness\<close>, is left out of the record.\<close>

definition finish_run ::
  "(GeneratedSchedule \<Rightarrow> real) \<Rightarrow> (GeneratedSchedule \<Rightarrow> ValidationError list) \<Rightarrow>
   Therapist list \<Rightarrow> GAState \<Rightarrow> js_error + GAGenerationResult" where
  "finish_run fit validate therapists st =
     (case (case bestScheduleOverall st of
              None \<Rightarrow> Inr (None, bestFitnessOverall st)
            | Some best \<Rightarrow>
                (case localSearchImprovement fit therapists best 30 of
                   Inl err \<Rightarrow> Inl err
                 | Inr improved \<Rightarrow> Inr (Some improved, Finite (fit improved)))) of
        Inl err \<Rightarrow> Inl err
      | Inr (bestSchedule, bestFitness') \<Rightarrow>
          (let finalCleaned = (case bestSchedule of
                                 None \<Rightarrow> []
                               | Some b \<Rightarrow> cleanupScheduleIssues b);
               finalErrors = validate finalCleaned
           in Inr \<lparr>result_schedule = finalCleaned,
                   finalValidationErrors = finalErrors,
                   generations = generationsRun st,
                   bestFitness = bestFitness',
                   success = best_below bestFitness' 500\<rparr>))"

text \<open>The generational loop from a population, followed by the tail of the run.\<close>

definition optimise ::
  "(GeneratedSchedule \<Rightarrow> real) \<Rightarrow> (scored list \<Rightarrow> 'c \<Rightarrow> js_error + GeneratedSchedule \<times> 'c) \<Rightarrow>
   (GeneratedSchedule \<Rightarrow> ValidationError list) \<Rightarrow> Therapist list \<Rightarrow>
   GeneratedSchedule list \<Rightarrow> 'c \<Rightarrow> js_error + GAGenerationResult" where
  "optimise fit child validate therapists pop cur =
     (case ga_loop fit child 0 (initial_state pop) cur of
        Inl e \<Rightarrow> Inl e
      | Inr r \<Rightarrow> finish_run fit validate therapists (fst r))"

section \<open>Repair: Medicaid cap (services/csoService)\<close>

text \<open>
  \<open>fixMdMedicaidLimit\<close> mutates the entry objects of the schedule through the aliases in
  \<^verbatim>\<open>clientSessions\<close> and removes entries from the array by id. The array is therefore a
  list of objects, each an entry value with the identity of the object: its position in
  the array the function was called with.
\<close>

type_synonym object_array = "(nat \<times> ScheduleEntry) list"

text \<open>\<^verbatim>\<open>idx = xs.findIndex(p); if (idx > -1) xs.splice(idx, 1)\<close>\<close>

fun splice_first :: "('a \<Rightarrow> bool) \<Rightarrow> 'a list \<Rightarrow> 'a list" where
  "splice_first p [] = []"
| "splice_first p (x # xs) = (if p x then xs else x # splice_first p xs)"

definition can_substitute ::
  "Client list \<Rightarrow> Therapist list \<Rightarrow> JsDate \<Rightarrow> Callout list \<Rightarrow> GeneratedSchedule \<Rightarrow>
   ScheduleEntry \<Rightarrow> string \<Rightarrow> bool" where
  "can_substitute clients therapists selectedDate callouts schedule session tid =
     (case getTherapistById therapists tid of
        None \<Rightarrow> False
      | Some t \<Rightarrow>
          (let testEntry = session\<lparr>therapistId := therapist_id t, therapistName := therapist_name t\<rparr>
           in valid (canAddEntryToSchedule testEntry schedule clients therapists selectedDate
                       callouts (Some (entry_id session)))))"

text \<open>The body of \<^verbatim>\<open>clientSessions.forEach\<close> for the session object \<open>obj\<close>, whose fields are
  still those read when \<^verbatim>\<open>clientSessions\<close> was built: an object is written only in its
  own turn.\<close>

definition fix_session ::
  "Client list \<Rightarrow> Therapist list \<Rightarrow> JsDate \<Rightarrow> Callout list \<Rightarrow> string list \<Rightarrow>
   object_array \<Rightarrow> nat \<times> ScheduleEntry \<Rightarrow> object_array" where
  "fix_session clients therapists selectedDate callouts allowedIds schedule obj =
     (let session = snd obj
      in if therapistId session \<in> set allowedIds then schedule
         else
           let bestSub = find (can_substitute clients therapists selectedDate callouts
                                 (map snd schedule) session) allowedIds
           in if truthy bestSub
              then (let t = the (getTherapistById therapists (the bestSub))
                    in map (\<lambda>ob. if fst ob = fst obj
                                 then (fst ob, session\<lparr>therapistId := therapist_id t,
                                                      therapistName := therapist_name t\<rparr>)
                                 else ob) schedule)
              else splice_first (\<lambda>ob. entry_id (snd ob) = entry_id session) schedule)"

definition fix_client ::
  "Client list \<Rightarrow> Therapist list \<Rightarrow> JsDate \<Rightarrow> Callout list \<Rightarrow> object_array \<Rightarrow> Client \<Rightarrow>
   object_array" where
  "fix_client clients therapists selectedDate callouts schedule client =
     (if ''MD_MEDICAID'' \<notin> set (insuranceRequirements client) then schedule
      else
        let clientSessions = filter (\<lambda>ob. clientId (snd ob) = Some (client_id client)) schedule;
            uniqueTherapists = js_unique (map (\<lambda>ob. therapistId (snd ob)) clientSessions)
        in if length uniqueTherapists > 3
           then (let allowedIds = take 3 uniqueTherapists
                 in foldl (fix_session clients therapists selectedDate callouts allowedIds)
                      schedule clientSessions)
           else schedule)"

definition fixMdMedicaidLimit ::
  "GeneratedSchedule \<Rightarrow> Client list \<Rightarrow> Therapist list \<Rightarrow> JsDate \<Rightarrow> Callout list \<Rightarrow>
   GeneratedSchedule" where
  "fixMdMedicaidLimit schedule clients therapists selectedDate callouts =
     map snd (foldl (fix_client clients therapists selectedDate callouts)
                (zip [0..<length schedule] schedule) clients)"

text \<open>The distinct therapists of a client's entries, in order of first appearance.\<close>

definition therapists_of_client :: "string \<Rightarrow> GeneratedSchedule \<Rightarrow> string list" where
  "therapists_of_client cid schedule =
     js_unique (map therapistId (filter (\<lambda>s. clientId s = Some cid) schedule))"


text \<open>The objects of the array with a given identity.\<close>

definition at_tag :: "object_array \<Rightarrow> nat \<Rightarrow> (nat \<times> ScheduleEntry) set" where
  "at_tag S t = {ob \<in> set S. fst ob = t}"


text \<open>\<^verbatim>\<open>clientSessions\<close> and \<^verbatim>\<open>uniqueTherapists\<close> of a client id.\<close>

definition csess :: "string \<Rightarrow> object_array \<Rightarrow> object_array" where
  "csess cid S = filter (\<lambda>ob. clientId (snd ob) = Some cid) S"

definition uniq_of :: "string \<Rightarrow> object_array \<Rightarrow> string list" where
  "uniq_of cid S = js_unique (map (\<lambda>ob. therapistId (snd ob)) (csess cid S))"

definition medicaid :: "Client \<Rightarrow> bool" where
  "medicaid c = (''MD_MEDICAID'' \<in> set (insuranceRequirements c))"





section \<open>Full-schedule validator (utils/validationService)\<close>

text \<open>Modelled from the spec: the remaining constants of \<^verbatim>\<open>constants.ts\<close>, which is not
  among the sources. Section 6 of the specification gives the staff availability window
  07:30 to 18:00 and the lunch window 11:30 to 13:30, the latest lunch end; section 4.6
  scans lunch starts from 11:30 to 13:00.\<close>

definition STAFF_ASSUMED_AVAILABILITY_START :: int where
  "STAFF_ASSUMED_AVAILABILITY_START = 450"

definition STAFF_ASSUMED_AVAILABILITY_END :: int where
  "STAFF_ASSUMED_AVAILABILITY_END = 1080"

definition LUNCH_COVERAGE_START_TIME :: int where
  "LUNCH_COVERAGE_START_TIME = 690"

definition LUNCH_COVERAGE_END_TIME :: int where
  "LUNCH_COVERAGE_END_TIME = 810"

definition IDEAL_LUNCH_WINDOW_START :: int where
  "IDEAL_LUNCH_WINDOW_START = 690"

definition IDEAL_LUNCH_WINDOW_END_FOR_START :: int where
  "IDEAL_LUNCH_WINDOW_END_FOR_START = 780"

text \<open>Numbers and times in messages.\<close>

function show_nat :: "nat \<Rightarrow> string" where
  "show_nat n = (if n < 10 then [char_of (48 + n)]
                 else show_nat (n div 10) @ [char_of (48 + n mod 10)])"
  by pat_completeness auto
termination
  by (relation "measure id") auto

definition padStart2 :: "string \<Rightarrow> string" where
  "padStart2 s = (if length s < 2 then replicate (2 - length s) CHR ''0'' @ s else s)"

definition to12HourTime :: "int \<Rightarrow> string" where
  "to12HourTime time24 =
     (let hours = nat (time24 div 60);
          minutes = nat (time24 mod 60);
          period = (if hours \<ge> 12 then ''PM'' else ''AM'');
          hours12 = (if hours mod 12 = 0 then 12 else hours mod 12)
      in show_nat hours12 @ '':'' @ padStart2 (show_nat minutes) @ '' '' @ period)"

fun day_name :: "DayOfWeek \<Rightarrow> string" where
  "day_name MONDAY = ''Monday''"
| "day_name TUESDAY = ''Tuesday''"
| "day_name WEDNESDAY = ''Wednesday''"
| "day_name THURSDAY = ''Thursday''"
| "day_name FRIDAY = ''Friday''"
| "day_name SATURDAY = ''Saturday''"
| "day_name SUNDAY = ''Sunday''"

fun session_name :: "SessionType \<Rightarrow> string" where
  "session_name ABA = ''ABA''"
| "session_name AlliedHealth_OT = ''AlliedHealth_OT''"
| "session_name AlliedHealth_SLP = ''AlliedHealth_SLP''"
| "session_name IndirectTime = ''IndirectTime''"
| "session_name AdminTime = ''AdminTime''"

text \<open>\<^verbatim>\<open>s || dflt\<close> on a nullable string.\<close>

definition or_else :: "string option \<Rightarrow> string \<Rightarrow> string" where
  "or_else s dflt = (if truthy s then the s else dflt)"

text \<open>A nullable string inside a template literal: \<^verbatim>\<open>null\<close> prints as \<^verbatim>\<open>null\<close>.\<close>

definition template :: "string option \<Rightarrow> string" where
  "template s = (case s of None \<Rightarrow> ''null'' | Some v \<Rightarrow> v)"

fun join_comma :: "string list \<Rightarrow> string" where
  "join_comma [] = []"
| "join_comma [x] = x"
| "join_comma (x # y # ys) = x @ '', '' @ join_comma (y # ys)"

definition err :: "string \<Rightarrow> string \<Rightarrow> ValidationError" where
  "err rule msg = \<lparr>ruleId = rule, err_message = msg\<rparr>"

text \<open>\<^verbatim>\<open>[...new Map(errors.map(item => [item.ruleId + item.message, item])).values()]\<close>: a
  key keeps the position of its first occurrence and the value of its last. The
  \<^verbatim>\<open>details\<close> of an error take no part in the model.\<close>

fun map_set :: "('k \<times> 'v) list \<Rightarrow> 'k \<Rightarrow> 'v \<Rightarrow> ('k \<times> 'v) list" where
  "map_set [] k v = [(k, v)]"
| "map_set ((k', v') # kvs) k v = (if k' = k then (k', v) # kvs else (k', v') # map_set kvs k v)"

definition dedup_errors :: "ValidationError list \<Rightarrow> ValidationError list" where
  "dedup_errors errors =
     map snd (foldl (\<lambda>m item. map_set m (ruleId item @ err_message item) item) [] errors)"

definition isWeekendDay :: "DayOfWeek \<Rightarrow> bool" where
  "isWeekendDay d = (d = SATURDAY \<or> d = SUNDAY)"

text \<open>The body of \<^verbatim>\<open>currentSchedule.forEach\<close> in \<open>validateSessionEntry\<close>.\<close>

definition existing_entry_errors ::
  "ScheduleEntry \<Rightarrow> string option \<Rightarrow> ScheduleEntry \<Rightarrow> ValidationError list" where
  "existing_entry_errors entryToValidate originalEntryForEditId existingEntry =
     (if truthy originalEntryForEditId \<and> Some (entry_id existingEntry) = originalEntryForEditId
      then []
      else if entry_id existingEntry = entry_id entryToValidate \<and>
              originalEntryForEditId \<noteq> Some (entry_id entryToValidate)
      then []
      else
        (if therapistId existingEntry = therapistId entryToValidate \<and>
            day existingEntry = day entryToValidate \<and>
            sessionsOverlap (startTime existingEntry) (endTime existingEntry)
              (startTime entryToValidate) (endTime entryToValidate)
         then [err ''THERAPIST_TIME_CONFLICT''
                (''Therapist '' @ therapistName entryToValidate @ '' is already booked from '' @
                 to12HourTime (startTime existingEntry) @ ''-'' @
                 to12HourTime (endTime existingEntry) @ '' with '' @
                 or_else (clientName existingEntry) ''Indirect Task'' @ ''.'')]
         else []) @
        (if truthy (clientId entryToValidate) \<and>
            clientId existingEntry = clientId entryToValidate \<and>
            day existingEntry = day entryToValidate \<and>
            sessionsOverlap (startTime existingEntry) (endTime existingEntry)
              (startTime entryToValidate) (endTime entryToValidate)
         then [err ''CLIENT_TIME_CONFLICT''
                (''Client '' @ template (clientName entryToValidate) @
                 '' is already scheduled with '' @ therapistName existingEntry @ '' from '' @
                 to12HourTime (startTime existingEntry) @ ''-'' @
                 to12HourTime (endTime existingEntry) @ ''.'')]
         else []) @
        (if truthy (clientId entryToValidate) \<and>
            clientId existingEntry = clientId entryToValidate \<and>
            therapistId existingEntry = therapistId entryToValidate \<and>
            day existingEntry = day entryToValidate \<and>
            (endTime existingEntry = startTime entryToValidate \<or>
             startTime existingEntry = endTime entryToValidate)
         then [err ''SAME_CLIENT_BACK_TO_BACK''
                (''Therapist '' @ therapistName entryToValidate @ '' cannot work with client '' @
                 template (clientName entryToValidate) @
                 '' back-to-back without a break. There must be at least a 15-minute gap or a different session between consecutive sessions with the same client.'')]
         else []))"

text \<open>\<open>validateSessionEntry\<close> for an entry whose two times are present: the branch
  \<^verbatim>\<open>MISSING_TIMES\<close> is taken for an empty time string only. The \<^verbatim>\<open>details\<close> of an error are
  left out.\<close>

definition validateSessionEntry ::
  "ScheduleEntry \<Rightarrow> GeneratedSchedule \<Rightarrow> Client list \<Rightarrow> Therapist list \<Rightarrow> string option \<Rightarrow>
   ValidationError list" where
  "validateSessionEntry entryToValidate currentSchedule clients therapists originalEntryForEditId =
     (let startTimeMinutes = startTime entryToValidate;
          endTimeMinutes = endTime entryToValidate;
          therapistData = find (\<lambda>t. therapist_id t = therapistId entryToValidate) therapists;
          st = sessionType entryToValidate;
          duration = endTimeMinutes - startTimeMinutes
      in dedup_errors (
        (if startTimeMinutes \<ge> endTimeMinutes
         then [err ''INVALID_TIME_ORDER'' ''Session end time must be after start time.'']
         else []) @
        (case therapistData of
           None \<Rightarrow>
             [err ''THERAPIST_NOT_FOUND''
               (''Therapist \"'' @ therapistName entryToValidate @ ''\" (ID: '' @
                therapistId entryToValidate @ '') not found.'')]
         | Some t \<Rightarrow>
             if startTimeMinutes < STAFF_ASSUMED_AVAILABILITY_START \<or>
                endTimeMinutes > STAFF_ASSUMED_AVAILABILITY_END
             then [err ''OUTSIDE_THERAPIST_AVAILABILITY''
                    (''Session for '' @ therapistName entryToValidate @ '' ('' @
                     to12HourTime startTimeMinutes @ ''-'' @ to12HourTime endTimeMinutes @
                     '') is outside their availability window ('' @
                     to12HourTime STAFF_ASSUMED_AVAILABILITY_START @ '' - '' @
                     to12HourTime STAFF_ASSUMED_AVAILABILITY_END @ '').'')]
             else []) @
        (if (st = ABA \<or> st = AlliedHealth_OT \<or> st = AlliedHealth_SLP) \<and>
            (startTimeMinutes < COMPANY_OPERATING_HOURS_START \<or>
             endTimeMinutes > COMPANY_OPERATING_HOURS_END)
         then [err ''OUTSIDE_OPERATING_HOURS''
                (''Client-facing session ('' @ session_name st @
                 '') must be within company operating hours ('' @
                 to12HourTime COMPANY_OPERATING_HOURS_START @ '' - '' @
                 to12HourTime COMPANY_OPERATING_HOURS_END @ '').'')]
         else []) @
        (if isWeekendDay (day entryToValidate) \<and> st = ABA
         then [err ''ABA_ON_WEEKEND''
                (''ABA sessions cannot be scheduled on weekends ('' @
                 day_name (day entryToValidate) @ '').'')]
         else []) @
        concat (map (existing_entry_errors entryToValidate originalEntryForEditId)
                  currentSchedule) @
        (if truthy (clientId entryToValidate)
         then (case find (\<lambda>c. Some (client_id c) = clientId entryToValidate) clients of
                 None \<Rightarrow>
                   [err ''CLIENT_NOT_FOUND''
                     (''Client \"'' @ template (clientName entryToValidate) @ ''\" (ID: '' @
                      the (clientId entryToValidate) @ '') not found.'')]
               | Some clientData \<Rightarrow>
                   (case therapistData of
                      None \<Rightarrow> []
                    | Some t \<Rightarrow>
                        if length (insuranceRequirements clientData) > 0
                        then (let unmetRequirements =
                                    filter (\<lambda>req. req \<notin> set (qualifications t))
                                      (insuranceRequirements clientData)
                              in if length unmetRequirements > 0
                                 then [err ''INSURANCE_MISMATCH''
                                        (''Therapist '' @ therapistName entryToValidate @
                                         '' does not meet insurance requirements for '' @
                                         template (clientName entryToValidate) @ '': '' @
                                         join_comma unmetRequirements @ ''.'')]
                                 else [])
                        else []))
         else []) @
        (if st = AlliedHealth_OT \<or> st = AlliedHealth_SLP
         then (let serviceType = (if st = AlliedHealth_OT then OT else SLP);
                   serviceName = (if st = AlliedHealth_OT then ''OT'' else ''SLP'');
                   requiredQual = (if serviceType = OT then ''OT Certified'' else ''SLP Certified'')
               in (case therapistData of
                     None \<Rightarrow> []
                   | Some t \<Rightarrow>
                       (if serviceType \<notin> set (canProvideAlliedHealth t)
                        then [err ''ALLIED_HEALTH_QUALIFICATION_MISSING''
                               (''Therapist '' @ therapistName entryToValidate @
                                '' cannot provide '' @ serviceName @ '' services.'')]
                        else []) @
                       (if requiredQual \<notin> set (qualifications t)
                        then [err ''ALLIED_HEALTH_CERTIFICATION_MISSING''
                               (''Therapist '' @ therapistName entryToValidate @
                                '' lacks qualification \"'' @ requiredQual @ ''\" for '' @
                                serviceName @ ''.'')]
                        else [])))
         else []) @
        (if st = ABA
         then (if duration < 60
               then [err ''ABA_DURATION_TOO_SHORT'' ''ABA session must be at least 60 minutes.'']
               else []) @
              (if duration > 180
               then [err ''ABA_DURATION_TOO_LONG'' ''ABA session cannot exceed 180 minutes.'']
               else [])
         else if st = AlliedHealth_OT \<or> st = AlliedHealth_SLP
         then (if duration \<le> 0
               then [err ''ALLIED_HEALTH_DURATION_INVALID''
                      (session_name st @ '' session must have positive duration.'')]
               else [])
         else if st = IndirectTime
         then (if duration \<noteq> 30
               then [err ''LUNCH_DURATION_INVALID''
                      ''Lunch/Indirect Time must be exactly 30 minutes.'']
               else [])
         else []) @
        (if (st = IndirectTime \<or> st = AdminTime) \<and> clientId entryToValidate \<noteq> None
         then [err ''INDIRECT_TIME_CLIENT_SPECIFIED''
                (''Client must be N/A for '' @ session_name st @ ''.'')]
         else []) @
        (if st \<noteq> IndirectTime \<and> st \<noteq> AdminTime \<and> clientId entryToValidate = None
         then [err ''CLIENT_REQUIRED_FOR_SESSION''
                (''Client must be specified for '' @ session_name st @ ''.'')]
         else [])))"

text \<open>\<^verbatim>\<open>date.getDay()\<close> of a valid date: day 0 is Thursday, 1 January 1970.
  \<open>getDayOfWeekFromDateObject\<close> is the function of the validator and \<open>getDayOfWeekFromDate\<close>
  the one of the algorithm; the fallback of the first for an invalid date is not
  modelled.\<close>

definition getDayOfWeekFromDateObject :: "int \<Rightarrow> DayOfWeek" where
  "getDayOfWeekFromDateObject date =
     [SUNDAY, MONDAY, TUESDAY, WEDNESDAY, THURSDAY, FRIDAY, SATURDAY] ! nat ((date + 4) mod 7)"

definition getDayOfWeekFromDate :: "int \<Rightarrow> DayOfWeek" where
  "getDayOfWeekFromDate date =
     [SUNDAY, MONDAY, TUESDAY, WEDNESDAY, THURSDAY, FRIDAY, SATURDAY] ! nat ((date + 4) mod 7)"

text \<open>The body of \<^verbatim>\<open>scheduleToValidate.forEach\<close>.\<close>

definition entry_errors ::
  "GeneratedSchedule \<Rightarrow> Client list \<Rightarrow> Therapist list \<Rightarrow> int \<Rightarrow> Callout list \<Rightarrow>
   ScheduleEntry \<Rightarrow> ValidationError list" where
  "entry_errors scheduleToValidate clients therapists selectedDate callouts entryToValidate =
     (let currentDayOfWeekString = getDayOfWeekFromDateObject selectedDate;
          who = therapistName entryToValidate @ '' with '' @
                or_else (clientName entryToValidate) ''N/A''
      in (if day entryToValidate \<noteq> currentDayOfWeekString
          then [err ''WRONG_DAY_FOR_ENTRY''
                 (''Entry for '' @ or_else (clientName entryToValidate) ''Indirect'' @ '' with '' @
                  therapistName entryToValidate @ '' is scheduled on '' @
                  day_name (day entryToValidate) @ '' but should be on '' @
                  day_name currentDayOfWeekString @ ''. (ID: '' @ entry_id entryToValidate @ '')'')]
          else []) @
         map (\<lambda>e. e\<lparr>err_message :=
                  ''Entry ('' @ who @ '' at '' @ to12HourTime (startTime entryToValidate) @
                  '' on '' @ day_name (day entryToValidate) @ '', ID: '' @
                  entry_id entryToValidate @ ''): '' @ err_message e\<rparr>)
           (validateSessionEntry entryToValidate scheduleToValidate clients therapists
              (Some (entry_id entryToValidate))) @
         map (\<lambda>co. err ''SESSION_OVERLAPS_CALLOUT''
                (''Session for '' @ who @ '' ('' @ to12HourTime (startTime entryToValidate) @ ''-'' @
                 to12HourTime (endTime entryToValidate) @ '', ID: '' @ entry_id entryToValidate @
                 '') overlaps with '' @
                 (if entityType co = TherapistEntity then ''therapist'' else ''client'') @ '' '' @
                 entityName co @ [CHR 0x27] @ ''s callout ('' @ to12HourTime (co_startTime co) @
                 ''-'' @ to12HourTime (co_endTime co) @ ''). Reason: '' @
                 or_else (reason co) ''N/A''))
           (filter (\<lambda>co. isDateAffectedByCalloutRange (Some selectedDate) (startDate co) (endDate co) \<and>
                          ((entityType co = TherapistEntity \<and>
                            entityId co = therapistId entryToValidate) \<or>
                           (entityType co = ClientEntity \<and>
                            Some (entityId co) = clientId entryToValidate)) \<and>
                          sessionsOverlap (startTime entryToValidate) (endTime entryToValidate)
                            (co_startTime co) (co_endTime co))
              callouts))"

definition isBillable :: "ScheduleEntry \<Rightarrow> bool" where
  "isBillable s = (sessionType s = ABA \<or> sessionType s = AlliedHealth_OT \<or>
                   sessionType s = AlliedHealth_SLP)"

text \<open>The body of \<^verbatim>\<open>scheduledTherapistIds.forEach\<close>.\<close>

definition therapist_errors ::
  "GeneratedSchedule \<Rightarrow> Therapist list \<Rightarrow> int \<Rightarrow> string \<Rightarrow> ValidationError list" where
  "therapist_errors scheduleToValidate therapists selectedDate therapistId' =
     (case find (\<lambda>t. therapist_id t = therapistId') therapists of
        None \<Rightarrow> []
      | Some therapist \<Rightarrow>
          (let currentDayOfWeekString = getDayOfWeekFromDateObject selectedDate;
               therapistSessions = filter (\<lambda>s. therapistId s = therapistId' \<and>
                                               day s = currentDayOfWeekString) scheduleToValidate;
               billableSessions = filter isBillable therapistSessions;
               lunchSessions = filter (\<lambda>s. (sessionType s = IndirectTime \<or>
                                               sessionType s = AdminTime) \<and> clientId s = None)
                                 therapistSessions;
               validLunches = filter (\<lambda>s. sessionType s = IndirectTime \<and>
                                           startTime s \<ge> LUNCH_COVERAGE_START_TIME \<and>
                                           startTime s \<le> LUNCH_COVERAGE_END_TIME - 30)
                                lunchSessions
           in (if length billableSessions > 4
               then [err ''MAX_NOTES_EXCEEDED''
                      (''Therapist '' @ therapist_name therapist @ '' has '' @
                       show_nat (length billableSessions) @
                       '' billable sessions (notes), which is high.'')]
               else []) @
              (if ''BCBA'' \<in> set (qualifications therapist) \<and> length billableSessions = 0 \<and>
                  length therapistSessions > 0
               then [err ''BCBA_NO_DIRECT_TIME''
                      (''Therapist '' @ therapist_name therapist @
                       '' is a BCBA but has no direct client time scheduled.'')]
               else []) @
              (if length billableSessions > 0
               then (if length lunchSessions = 0
                     then [err ''MISSING_LUNCH_BREAK''
                            (''Therapist '' @ therapist_name therapist @
                             '' has billable work but no lunch break scheduled.'')]
                     else if length validLunches = 0
                     then [err ''LUNCH_OUTSIDE_WINDOW''
                            (''Therapist '' @ therapist_name therapist @
                             '' has no valid lunch break (30min IndirectTime) within the core window ('' @
                             to12HourTime LUNCH_COVERAGE_START_TIME @ '' - '' @
                             to12HourTime LUNCH_COVERAGE_END_TIME @ '').'')]
                     else if length validLunches > 1
                     then [err ''MULTIPLE_LUNCHES''
                            (''Therapist '' @ therapist_name therapist @ '' has '' @
                             show_nat (length validLunches) @
                             '' lunch sessions in the core window. Only one is allowed.'')]
                     else [])
               else if length lunchSessions > 0
               then [err ''LUNCH_WITHOUT_BILLABLE_WORK''
                      (''Therapist '' @ therapist_name therapist @
                       '' has a lunch break scheduled but no billable work.'')]
               else []) @
              (if isWeekendDay currentDayOfWeekString \<and> length therapistSessions > 0 \<and>
                  list_ex (\<lambda>s. sessionType s = ABA) therapistSessions
               then [err ''THERAPIST_WEEKEND_ABA''
                      (''Therapist '' @ therapist_name therapist @
                       '' has an ABA session scheduled on a weekend, which is not permitted.'')]
               else [])))"

text \<open>The \<^verbatim>\<open>reduce\<close> that merges the sorted callout periods of a client.\<close>

definition merge_period :: "TimeRange list \<Rightarrow> TimeRange \<Rightarrow> TimeRange list" where
  "merge_period acc current =
     (if length acc = 0 then [current]
      else (let last' = last acc
            in if range_start current \<le> range_end last'
               then butlast acc @ [last'\<lparr>range_end := max (range_end last') (range_end current)\<rparr>]
               else acc @ [current]))"

text \<open>The loop over the 15-minute intervals of the operating window for one client.\<close>

function gap_scan ::
  "Client \<Rightarrow> DayOfWeek \<Rightarrow> TimeRange list \<Rightarrow> ScheduleEntry list \<Rightarrow> ScheduleEntry list \<Rightarrow>
   int \<Rightarrow> int \<Rightarrow> ValidationError list" where
  "gap_scan client dayString unavailable ahSessions abaSessions intervalStart opEndMinutes =
     (if intervalStart < opEndMinutes
      then (let intervalEnd = intervalStart + 15;
                isDuringClientCallout =
                  list_ex (\<lambda>p. intervalStart < range_end p \<and> intervalEnd > range_start p) unavailable;
                isDuringAH =
                  list_ex (\<lambda>s. intervalStart < endTime s \<and> intervalEnd > startTime s) ahSessions;
                isCoveredByABASession =
                  list_ex (\<lambda>s. intervalStart < endTime s \<and> intervalEnd > startTime s) abaSessions
            in (if \<not> isDuringClientCallout \<and> \<not> isDuringAH \<and> \<not> isCoveredByABASession
                then [err ''CLIENT_COVERAGE_GAP_AT_TIME''
                       (''Client '' @ client_name client @ '' has an ABA coverage gap on '' @
                        day_name dayString @ '' from '' @ to12HourTime intervalStart @ '' to '' @
                        to12HourTime intervalEnd @ ''.'')]
                else []) @
               gap_scan client dayString unavailable ahSessions abaSessions
                 (intervalStart + 15) opEndMinutes)
      else [])"
  by pat_completeness auto
termination
  by (relation "measure (\<lambda>(client, dayString, unavailable, ahSessions, abaSessions,
                            intervalStart, opEndMinutes). nat (opEndMinutes - intervalStart))")
     auto

text \<open>The body of \<^verbatim>\<open>clients.forEach\<close>.\<close>

definition client_errors ::
  "GeneratedSchedule \<Rightarrow> int \<Rightarrow> int \<Rightarrow> int \<Rightarrow> Callout list \<Rightarrow> Client \<Rightarrow> ValidationError list" where
  "client_errors scheduleToValidate selectedDate operatingHoursStart operatingHoursEnd callouts client =
     (let currentDayOfWeekString = getDayOfWeekFromDateObject selectedDate;
          clientSessionsToday = filter (\<lambda>s. clientId s = Some (client_id client) \<and>
                                            day s = currentDayOfWeekString) scheduleToValidate;
          uniqueTherapists = js_unique (map therapistId clientSessionsToday)
      in (if ''MD_MEDICAID'' \<in> set (insuranceRequirements client) \<and> length uniqueTherapists > 3
          then [err ''MD_MEDICAID_LIMIT_VIOLATED''
                 (''MD Medicaid client '' @ client_name client @ '' is scheduled with '' @
                  show_nat (length uniqueTherapists) @
                  '' unique therapists, exceeding the limit of 3.'')]
          else []) @
         (if \<not> isWeekendDay currentDayOfWeekString
          then (let clientCalloutsForDay =
                      js_sort (\<lambda>a b. range_start a - range_start b)
                        (map (\<lambda>co. \<lparr>range_start = co_startTime co, range_end = co_endTime co\<rparr>)
                           (filter (\<lambda>co. entityType co = ClientEntity \<and>
                                          entityId co = client_id client \<and>
                                          isDateAffectedByCalloutRange (Some selectedDate)
                                            (startDate co) (endDate co))
                              callouts));
                    mergedClientUnavailablePeriods = foldl merge_period [] clientCalloutsForDay;
                    clientABASessionsToday = filter (\<lambda>s. sessionType s = ABA) clientSessionsToday;
                    clientAHSessionsToday =
                      filter (\<lambda>s. isAlliedHealth (sessionType s)) clientSessionsToday
                in gap_scan client currentDayOfWeekString mergedClientUnavailablePeriods
                     clientAHSessionsToday clientABASessionsToday operatingHoursStart
                     operatingHoursEnd)
          else []))"

text \<open>\<open>validateFullSchedule\<close> for a schedule that is not null and a date that is a valid
  \<^verbatim>\<open>Date\<close>, as \<open>runCsoAlgorithm\<close> calls it.\<close>

definition validateFullSchedule ::
  "GeneratedSchedule \<Rightarrow> Client list \<Rightarrow> Therapist list \<Rightarrow> int \<Rightarrow> int \<Rightarrow> int \<Rightarrow> Callout list \<Rightarrow>
   ValidationError list" where
  "validateFullSchedule scheduleToValidate clients therapists selectedDate operatingHoursStart
     operatingHoursEnd callouts =
     dedup_errors (
       concat (map (entry_errors scheduleToValidate clients therapists selectedDate callouts)
                 scheduleToValidate) @
       concat (map (therapist_errors scheduleToValidate therapists selectedDate)
                 (js_unique (map therapistId scheduleToValidate))) @
       concat (map (client_errors scheduleToValidate selectedDate operatingHoursStart
                      operatingHoursEnd callouts) clients))"

section \<open>Fitness (services/csoService)\<close>

text \<open>Fitness values are JavaScript numbers; the model computes them in the reals.
  \<^verbatim>\<open>Math.log2(0)\<close> is \<^verbatim>\<open>-Infinity\<close>, and the maximum with 1 is then 1.\<close>

definition scaleFactor :: "nat \<Rightarrow> nat \<Rightarrow> real" where
  "scaleFactor numClients numTherapists =
     (if numClients * numTherapists = 0 then 1
      else max 1 (log 2 (real (numClients * numTherapists))))"

definition count_rule :: "ValidationError list \<Rightarrow> string \<Rightarrow> nat" where
  "count_rule errors rule = length (filter (\<lambda>e. ruleId e = rule) errors)"

text \<open>One step of the loop of \<open>countStaggerViolations\<close> over the lunch entries: the lunch
  starts seen for each team, and the violations counted.\<close>

definition stagger_step ::
  "Therapist list \<Rightarrow> (string \<Rightarrow> int list) \<times> nat \<Rightarrow> ScheduleEntry \<Rightarrow> (string \<Rightarrow> int list) \<times> nat" where
  "stagger_step therapists state s =
     (case getTherapistById therapists (therapistId s) of
        None \<Rightarrow> state
      | Some t \<Rightarrow>
          if truthy (therapist_teamId t)
          then (let team = the (therapist_teamId t);
                    start = startTime s;
                    teamTimes = fst state team;
                    overlaps = length (filter (\<lambda>existing. \<bar>existing - start\<bar> < 30) teamTimes)
                in ((fst state)(team := teamTimes @ [start]),
                    (if overlaps \<ge> 1 then snd state + 1 else snd state)))
          else state)"

definition countStaggerViolations :: "GeneratedSchedule \<Rightarrow> Therapist list \<Rightarrow> nat" where
  "countStaggerViolations schedule therapists =
     snd (foldl (stagger_step therapists) (\<lambda>team. [], 0)
            (filter (\<lambda>s. sessionType s = IndirectTime) schedule))"

fun idle_minutes :: "ScheduleEntry list \<Rightarrow> int" where
  "idle_minutes [] = 0"
| "idle_minutes [s] = 0"
| "idle_minutes (s # s' # rest) =
     (let gap = startTime s' - endTime s
      in (if gap > 0 \<and> gap \<noteq> 30 then gap else 0) + idle_minutes (s' # rest))"

definition calculateFragmentationPenalty :: "GeneratedSchedule \<Rightarrow> Therapist list \<Rightarrow> real \<Rightarrow> real" where
  "calculateFragmentationPenalty schedule therapists penaltyWeight =
     real_of_int (sum_list (map (\<lambda>t. idle_minutes
                                  (js_sort (\<lambda>a b. startTime a - startTime b)
                                     (filter (\<lambda>s. therapistId s = therapist_id t) schedule)))
                             therapists))
     * penaltyWeight"

definition calculateFitness ::
  "GeneratedSchedule \<Rightarrow> Client list \<Rightarrow> Therapist list \<Rightarrow> int \<Rightarrow> Callout list \<Rightarrow> real" where
  "calculateFitness schedule clients therapists selectedDate callouts =
     (let scale = scaleFactor (length clients) (length therapists);
          errors = validateFullSchedule schedule clients therapists selectedDate
                     COMPANY_OPERATING_HOURS_START COMPANY_OPERATING_HOURS_END callouts;
          counts = count_rule errors
      in 5000 * scale * real (min (counts ''CLIENT_TIME_CONFLICT'') 5) +
         5000 * scale * real (min (counts ''THERAPIST_TIME_CONFLICT'') 5) +
         6000 * scale * real (counts ''SAME_CLIENT_BACK_TO_BACK'') +
         4000 * scale * real (min (counts ''INSURANCE_MISMATCH'') 5) +
         4500 * scale * real (min (counts ''SESSION_OVERLAPS_CALLOUT'') 5) +
         2500 * scale * real (min (counts ''MISSING_LUNCH_BREAK'') (length therapists)) +
         200 * real (counts ''LUNCH_OUTSIDE_WINDOW'') +
         800 * scale * real (countStaggerViolations schedule therapists) +
         1000 * scale * real (counts ''ABA_DURATION_TOO_SHORT'') +
         1000 * scale * real (counts ''ABA_DURATION_TOO_LONG'') +
         2000 * scale * real (counts ''MD_MEDICAID_LIMIT_VIOLATED'') +
         2000 * scale * (real (length clients) / 10) *
           real (min (counts ''CLIENT_COVERAGE_GAP_AT_TIME'' div 4) (length clients * 2)) +
         calculateFragmentationPenalty schedule therapists 10 +
         100 * real (counts ''TEAM_ALIGNMENT_MISMATCH''))"

section \<open>Constructive seeder (services/csoService)\<close>

record BaseScheduleConfig =
  bs_id :: string
  bs_name :: string
  appliesToDays :: "DayOfWeek list"
  bs_schedule :: "GeneratedSchedule option"

record LearnedLunch =
  ll_therapistId :: string
  ll_startTime :: int
  ll_endTime :: int

record LearningContext =
  topRatedSchedules :: "GeneratedSchedule list"
  learnedLunchTimes :: "LearnedLunch list"

record PlanningTask =
  task_clientId :: string
  task_clientName :: string
  task_type :: SessionType
  minDuration :: int
  maxDuration :: int
  priority :: int
  possibleTherapists :: "Therapist list"
  preferredStart :: "int option"
  preferredEnd :: "int option"

text \<open>
  \<^verbatim>\<open>[...xs].sort(() => 0.5 - Math.random())\<close>: which permutation comes out, and how many
  draws the sort consumes, depend on the sort of the JavaScript engine. Both are given
  by an oracle, for the cursor and the length of the array. An array of at most one
  element is returned as it is, without a call of the comparator.
\<close>

type_synonym shuffle_oracle = "nat \<Rightarrow> nat \<Rightarrow> nat list \<times> nat"

definition shuffled :: "shuffle_oracle \<Rightarrow> nat \<Rightarrow> 'a list \<Rightarrow> 'a list \<times> nat" where
  "shuffled sh k xs =
     (if length xs \<le> 1 then (xs, k)
      else (let p = fst (sh k (length xs));
                used = snd (sh k (length xs))
            in (if sort p = [0..<length xs] then map (\<lambda>i. xs ! i) p else xs, k + used)))"

text \<open>The oracles of a run: the random source, the identifier supply, the shuffles, and
  the day that \<^verbatim>\<open>new Date()\<close> gives.\<close>

record Oracles =
  orc_rnd :: random_source
  orc_ids :: id_supply
  orc_shuffle :: shuffle_oracle
  orc_now :: int

definition graft_base ::
  "id_supply \<Rightarrow> nat \<Rightarrow> DayOfWeek \<Rightarrow> int \<Rightarrow> Callout list \<Rightarrow> GeneratedSchedule \<Rightarrow> GeneratedSchedule" where
  "graft_base ids' j day' selectedDate callouts base =
     with_fresh_ids ids' j
       (filter (\<lambda>entry.
           (let hasConflict =
                  list_ex (\<lambda>co. (Some (entityId co) = clientId entry \<or>
                                  entityId co = therapistId entry) \<and>
                                 isDateAffectedByCalloutRange (Some selectedDate)
                                   (startDate co) (endDate co) \<and>
                                 sessionsOverlap (startTime entry) (endTime entry)
                                   (co_startTime co) (co_endTime co))
                    callouts
            in \<not> hasConflict \<and> day entry = day')) base)"

definition ah_session_type :: "AlliedHealthServiceType \<Rightarrow> SessionType" where
  "ah_session_type ty = (case ty of OT \<Rightarrow> AlliedHealth_OT | SLP \<Rightarrow> AlliedHealth_SLP)"

definition client_tasks :: "GeneratedSchedule \<Rightarrow> Therapist list \<Rightarrow> Client \<Rightarrow> PlanningTask list" where
  "client_tasks schedule therapists client =
     concat (map (\<lambda>need.
        (let existing = length (filter (\<lambda>s. clientId s = Some (client_id client) \<and>
                                             sessionType s = ah_session_type (need_type need))
                                  schedule)
         in if int existing < frequencyPerWeek need
            then (let qualified = filter (\<lambda>t. need_type need \<in> set (canProvideAlliedHealth t) \<and>
                                               every_req client t) therapists
                  in [\<lparr>task_clientId = client_id client,
                       task_clientName = client_name client,
                       task_type = ah_session_type (need_type need),
                       minDuration = durationMinutes need,
                       maxDuration = durationMinutes need,
                       priority = 1000 - int (length qualified) * 10 + durationMinutes need,
                       possibleTherapists = qualified,
                       preferredStart = map_option fst (preferredTimeSlot need),
                       preferredEnd = map_option snd (preferredTimeSlot need)\<rparr>])
            else []))
       (alliedHealthNeeds client)) @
     (let qualified = filter (\<lambda>t. every_req client t) therapists
      in if length qualified > 0
         then [\<lparr>task_clientId = client_id client,
                task_clientName = client_name client,
                task_type = ABA,
                minDuration = 60,
                maxDuration = 180,
                priority = 500 - int (length qualified) * 10 + 180,
                possibleTherapists = qualified,
                preferredStart = None,
                preferredEnd = None\<rparr>]
         else [])"

text \<open>The loop that tries to extend an ABA placement in steps of 15 minutes.\<close>

function extend_duration ::
  "AvailabilityTracker \<Rightarrow> string \<Rightarrow> string \<Rightarrow> int \<Rightarrow> int \<Rightarrow> int \<Rightarrow> int \<Rightarrow> int \<Rightarrow> int" where
  "extend_duration tracker therapistId' clientId' time searchEnd maxDuration' bestDuration d =
     (if d \<le> maxDuration'
      then (let extendedEnd = time + d
            in if extendedEnd > searchEnd then bestDuration
               else if isAvailable tracker TherapistEntity therapistId' time extendedEnd None \<and>
                       isAvailable tracker ClientEntity clientId' time extendedEnd None
               then extend_duration tracker therapistId' clientId' time searchEnd maxDuration'
                      d (d + 15)
               else bestDuration)
      else bestDuration)"
  by pat_completeness auto
termination
  by (relation "measure (\<lambda>(tracker, therapistId', clientId', time, searchEnd, maxDuration',
                            bestDuration, d). nat (maxDuration' - d + 1))") auto

text \<open>The loop over the start times for one therapist: the entry placed, if any, and
  the cursors.\<close>

function try_times ::
  "Oracles \<Rightarrow> Client list \<Rightarrow> Therapist list \<Rightarrow> DayOfWeek \<Rightarrow> int \<Rightarrow> Callout list \<Rightarrow>
   GeneratedSchedule \<Rightarrow> AvailabilityTracker \<Rightarrow> PlanningTask \<Rightarrow> Therapist \<Rightarrow> int \<Rightarrow> int \<Rightarrow>
   nat \<times> nat \<Rightarrow> ScheduleEntry option \<times> nat \<times> nat" where
  "try_times orc clients therapists day' selectedDate callouts schedule tracker task therapist
     searchEnd time cur =
     (if time \<le> searchEnd - minDuration task
      then
        (let minEnd = time + minDuration task
         in if isAvailable tracker TherapistEntity (therapist_id therapist) time minEnd None \<and>
               isAvailable tracker ClientEntity (task_clientId task) time minEnd None
            then
              (let bestDuration =
                     (if task_type task = ABA
                      then extend_duration tracker (therapist_id therapist) (task_clientId task)
                             time searchEnd (maxDuration task) (minDuration task)
                             (minDuration task + 15)
                      else minDuration task);
                   crossTeam =
                     (case getClientById clients (task_clientId task) of
                        None \<Rightarrow> False
                      | Some client \<Rightarrow>
                          truthy (client_teamId client) \<and> truthy (therapist_teamId therapist) \<and>
                          client_teamId client \<noteq> therapist_teamId therapist)
               in if crossTeam \<and> Rep_draw (orc_rnd orc (fst cur)) > 0.3
                  then try_times orc clients therapists day' selectedDate callouts schedule tracker
                         task therapist searchEnd (time + 15) (fst cur + 1, snd cur)
                  else
                    (let k = (if crossTeam then fst cur + 1 else fst cur);
                         newEntry = \<lparr>entry_id = orc_ids orc (snd cur),
                                     clientName = Some (task_clientName task),
                                     clientId = Some (task_clientId task),
                                     therapistName = therapist_name therapist,
                                     therapistId = therapist_id therapist,
                                     day = day',
                                     startTime = time,
                                     endTime = time + bestDuration,
                                     sessionType = task_type task\<rparr>
                     in if valid (canAddEntryToSchedule newEntry schedule clients therapists
                                    (Some selectedDate) callouts None)
                        then (Some newEntry, k, snd cur + 1)
                        else try_times orc clients therapists day' selectedDate callouts schedule
                               tracker task therapist searchEnd (time + 15) (k, snd cur + 1)))
            else try_times orc clients therapists day' selectedDate callouts schedule tracker
                   task therapist searchEnd (time + 15) cur)
      else (None, cur))"
  by pat_completeness auto
termination
  by (relation "measure (\<lambda>(orc, clients, therapists, day', selectedDate, callouts, schedule,
                            tracker, task, therapist, searchEnd, time, cur).
                          nat (searchEnd - minDuration task - time + 1))") auto

fun try_therapists ::
  "Oracles \<Rightarrow> Client list \<Rightarrow> Therapist list \<Rightarrow> DayOfWeek \<Rightarrow> int \<Rightarrow> Callout list \<Rightarrow>
   GeneratedSchedule \<Rightarrow> AvailabilityTracker \<Rightarrow> PlanningTask \<Rightarrow> int \<Rightarrow> int \<Rightarrow> Therapist list \<Rightarrow>
   nat \<times> nat \<Rightarrow> ScheduleEntry option \<times> nat \<times> nat" where
  "try_therapists orc clients therapists day' selectedDate callouts schedule tracker task
     searchStart searchEnd [] cur = (None, cur)"
| "try_therapists orc clients therapists day' selectedDate callouts schedule tracker task
     searchStart searchEnd (therapist # rest) cur =
     (case try_times orc clients therapists day' selectedDate callouts schedule tracker task
             therapist searchEnd searchStart cur of
        (Some newEntry, cur') \<Rightarrow> (Some newEntry, cur')
      | (None, cur') \<Rightarrow>
          try_therapists orc clients therapists day' selectedDate callouts schedule tracker task
            searchStart searchEnd rest cur')"

text \<open>The body of the loop over the tasks, on the schedule, the tracker and the
  cursors.\<close>

definition place_task ::
  "Oracles \<Rightarrow> Client list \<Rightarrow> Therapist list \<Rightarrow> DayOfWeek \<Rightarrow> int \<Rightarrow> Callout list \<Rightarrow>
   GeneratedSchedule \<times> AvailabilityTracker \<times> nat \<times> nat \<Rightarrow> PlanningTask \<Rightarrow>
   GeneratedSchedule \<times> AvailabilityTracker \<times> nat \<times> nat" where
  "place_task orc clients therapists day' selectedDate callouts state task =
     (let schedule = fst state;
          tracker = fst (snd state);
          cur = snd (snd state);
          candidateTherapists = shuffled (orc_shuffle orc) (fst cur) (possibleTherapists task);
          searchStart = (case preferredStart task of
                           Some v \<Rightarrow> v | None \<Rightarrow> COMPANY_OPERATING_HOURS_START);
          searchEnd = (case preferredEnd task of
                         Some v \<Rightarrow> v | None \<Rightarrow> COMPANY_OPERATING_HOURS_END)
      in case try_therapists orc clients therapists day' selectedDate callouts schedule tracker
                task searchStart searchEnd (fst candidateTherapists)
                (snd candidateTherapists, snd cur) of
           (Some newEntry, cur') \<Rightarrow>
             (schedule @ [newEntry],
              book tracker (therapistId newEntry) (clientId newEntry) (startTime newEntry)
                (endTime newEntry),
              cur')
         | (None, cur') \<Rightarrow> (schedule, tracker, cur'))"

text \<open>\<^verbatim>\<open>forEach\<close> with a body that may throw.\<close>

fun fold_err :: "('s \<Rightarrow> 'a \<Rightarrow> js_error + 's) \<Rightarrow> 'a list \<Rightarrow> 's \<Rightarrow> js_error + 's" where
  "fold_err f [] s = Inr s"
| "fold_err f (x # xs) s = (case f s x of Inl e \<Rightarrow> Inl e | Inr s' \<Rightarrow> fold_err f xs s')"

definition lunch_entry :: "string \<Rightarrow> string \<Rightarrow> string \<Rightarrow> DayOfWeek \<Rightarrow> int \<Rightarrow> ScheduleEntry" where
  "lunch_entry ident name therapistId' day' time =
     \<lparr>entry_id = ident, clientName = None, clientId = None, therapistName = name,
      therapistId = therapistId', day = day', startTime = time, endTime = time + 30,
      sessionType = IndirectTime\<rparr>"

text \<open>The fallback loop over the ideal lunch window: the first free start.\<close>

function first_free :: "AvailabilityTracker \<Rightarrow> string \<Rightarrow> int \<Rightarrow> int \<Rightarrow> int option" where
  "first_free tracker therapistId' time lunchEnd =
     (if time \<le> lunchEnd
      then (if isAvailable tracker TherapistEntity therapistId' time (time + 30) None
            then Some time
            else first_free tracker therapistId' (time + 15) lunchEnd)
      else None)"
  by pat_completeness auto
termination
  by (relation "measure (\<lambda>(tracker, therapistId', time, lunchEnd). nat (lunchEnd - time + 1))")
     auto

text \<open>The body of \<^verbatim>\<open>workingTherapistIds.forEach\<close> in the seeder. The object literal
  reads \<^verbatim>\<open>therapist.name\<close>, which throws when the therapist is not in the list.\<close>

definition place_lunch ::
  "Oracles \<Rightarrow> Therapist list \<Rightarrow> DayOfWeek \<Rightarrow> LearningContext \<Rightarrow>
   GeneratedSchedule \<times> AvailabilityTracker \<times> nat \<times> nat \<Rightarrow> string \<Rightarrow>
   js_error + GeneratedSchedule \<times> AvailabilityTracker \<times> nat \<times> nat" where
  "place_lunch orc therapists day' learningContext state therapistId' =
     (let schedule = fst state;
          tracker = fst (snd state);
          cur = snd (snd state);
          tSessions = filter (\<lambda>s. therapistId s = therapistId') schedule;
          mins = sum_list (map (\<lambda>s. endTime s - startTime s) tSessions)
      in if mins < 300 then Inr state
         else if list_ex (\<lambda>s. therapistId s = therapistId' \<and> sessionType s = IndirectTime) schedule
         then Inr state
         else
           (let therapist = getTherapistById therapists therapistId';
                learnedStart =
                  (case find (\<lambda>lt. ll_therapistId lt = therapistId')
                          (learnedLunchTimes learningContext) of
                     None \<Rightarrow> None
                   | Some learnedPattern \<Rightarrow>
                       if isAvailable tracker TherapistEntity therapistId'
                            (ll_startTime learnedPattern) (ll_startTime learnedPattern + 30) None
                       then Some (ll_startTime learnedPattern)
                       else None)
            in case learnedStart of
                 Some time \<Rightarrow>
                   (case therapist of
                      None \<Rightarrow> Inl TypeError
                    | Some t \<Rightarrow>
                        Inr (schedule @ [lunch_entry (orc_ids orc (snd cur)) (therapist_name t)
                                           therapistId' day' time],
                             book tracker therapistId' None time (time + 30),
                             fst cur, snd cur + 1))
               | None \<Rightarrow>
                   (case first_free tracker therapistId' IDEAL_LUNCH_WINDOW_START
                           IDEAL_LUNCH_WINDOW_END_FOR_START of
                      None \<Rightarrow> Inr state
                    | Some time \<Rightarrow>
                        (case therapist of
                           None \<Rightarrow> Inl TypeError
                         | Some t \<Rightarrow>
                             Inr (schedule @ [lunch_entry (orc_ids orc (snd cur)) (therapist_name t)
                                                (therapist_id t) day' time],
                                  book tracker therapistId' None time (time + 30),
                                  fst cur, snd cur + 1)))))"

text \<open>\<open>constructiveHeuristicInitialization\<close>, with the learning context that
  \<open>runCsoAlgorithm\<close> always passes.\<close>

definition constructiveHeuristicInitialization ::
  "Oracles \<Rightarrow> nat \<times> nat \<Rightarrow> Client list \<Rightarrow> Therapist list \<Rightarrow> DayOfWeek \<Rightarrow> int \<Rightarrow> Callout list \<Rightarrow>
   BaseScheduleConfig option \<Rightarrow> LearningContext \<Rightarrow> js_error + GeneratedSchedule \<times> nat \<times> nat" where
  "constructiveHeuristicInitialization orc cur clients therapists day' selectedDate callouts
     baseScheduleForDay learningContext =
     (let schedule0 =
            (case baseScheduleForDay of
               None \<Rightarrow> []
             | Some bs \<Rightarrow>
                 (case bs_schedule bs of
                    None \<Rightarrow> []
                  | Some base \<Rightarrow> graft_base (orc_ids orc) (snd cur) day' selectedDate callouts base));
          tracker0 = new_AvailabilityTracker schedule0 callouts (Some selectedDate);
          tasks = js_sort (\<lambda>a b. priority b - priority a)
                    (concat (map (client_tasks schedule0 therapists) clients));
          placed = foldl (place_task orc clients therapists day' selectedDate callouts)
                     (schedule0, tracker0, fst cur, snd cur + length schedule0) tasks;
          workingTherapistIds = js_unique (map therapistId (fst placed))
      in case fold_err (place_lunch orc therapists day' learningContext) workingTherapistIds
                placed of
           Inl e \<Rightarrow> Inl e
         | Inr final \<Rightarrow> Inr (fst final, snd (snd final)))"

section \<open>Repair operators (services/csoService)\<close>

text \<open>The body of \<^verbatim>\<open>schedule.forEach\<close> in \<open>fixCredentialIssues\<close> for the entry at index
  \<open>i\<close>; the entry objects are changed in place, so later entries are checked against the
  schedule as changed so far.\<close>

definition fix_credential_at ::
  "Client list \<Rightarrow> Therapist list \<Rightarrow> int \<Rightarrow> Callout list \<Rightarrow> GeneratedSchedule \<Rightarrow> nat \<Rightarrow>
   GeneratedSchedule" where
  "fix_credential_at clients therapists selectedDate callouts schedule i =
     (let entry = schedule ! i
      in if \<not> truthy (clientId entry) then schedule
         else
           (case getClientById clients (the (clientId entry)) of
              None \<Rightarrow> schedule
            | Some client \<Rightarrow>
                (case getTherapistById therapists (therapistId entry) of
                   None \<Rightarrow> schedule
                 | Some therapist \<Rightarrow>
                     if \<not> every_req client therapist
                     then
                       (let qualifiedTherapists = filter (every_req client) therapists;
                            replacement =
                              find (\<lambda>t. valid (canAddEntryToSchedule
                                                 (entry\<lparr>therapistId := therapist_id t,
                                                        therapistName := therapist_name t\<rparr>)
                                                 schedule clients therapists (Some selectedDate)
                                                 callouts (Some (entry_id entry))))
                                qualifiedTherapists
                        in case replacement of
                             None \<Rightarrow> schedule
                           | Some r \<Rightarrow>
                               schedule[i := entry\<lparr>therapistId := therapist_id r,
                                                   therapistName := therapist_name r\<rparr>])
                     else schedule)))"

definition fixCredentialIssues ::
  "GeneratedSchedule \<Rightarrow> Client list \<Rightarrow> Therapist list \<Rightarrow> int \<Rightarrow> Callout list \<Rightarrow>
   GeneratedSchedule" where
  "fixCredentialIssues schedule clients therapists selectedDate callouts =
     foldl (fix_credential_at clients therapists selectedDate callouts) schedule
       [0..<length schedule]"

text \<open>\<^verbatim>\<open>xs.findIndex(p)\<close>, \<open>None\<close> for \<open>-1\<close>.\<close>

fun findIndex :: "('a \<Rightarrow> bool) \<Rightarrow> 'a list \<Rightarrow> nat option" where
  "findIndex p [] = None"
| "findIndex p (x # xs) = (if p x then Some 0 else map_option Suc (findIndex p xs))"

text \<open>One turn of the loop over the sorted client sessions of a therapist in
  \<open>fixSameClientBackToBackIssues\<close>. The previous session is the one of the sorted array,
  not the entry that may have been moved.\<close>

definition back_to_back_step ::
  "DayOfWeek \<Rightarrow> string \<Rightarrow> ScheduleEntry list \<Rightarrow> GeneratedSchedule \<Rightarrow> nat \<Rightarrow> GeneratedSchedule" where
  "back_to_back_step day' therapistId' sessions fixedSchedule i =
     (let current = sessions ! i
      in if i > 0 \<and> clientId (sessions ! (i - 1)) = clientId current \<and>
            endTime (sessions ! (i - 1)) = startTime current
         then
           (let prev = sessions ! (i - 1);
                prevEnd = endTime prev;
                currentStart = startTime current;
                duration = endTime current - currentStart;
                newStart = prevEnd + 15;
                newEnd = newStart + duration
            in if newEnd \<le> COMPANY_OPERATING_HOURS_END \<and>
                  \<not> (list_ex (\<lambda>s. therapistId s = therapistId' \<and> day s = day' \<and>
                                   sessionsOverlap (startTime s) (endTime s) newStart newEnd)
                        fixedSchedule \<or>
                      list_ex (\<lambda>s. clientId s = clientId current \<and> day s = day' \<and>
                                   sessionsOverlap (startTime s) (endTime s) newStart newEnd)
                        fixedSchedule)
               then fixedSchedule @ [current\<lparr>startTime := newStart, endTime := newEnd\<rparr>]
               else
                 (let prevStart = startTime prev;
                      prevDuration = prevEnd - prevStart;
                      newPrevEnd = currentStart - 15;
                      newPrevStart = newPrevEnd - prevDuration
                  in if newPrevStart \<ge> COMPANY_OPERATING_HOURS_START \<and>
                        \<not> list_ex (\<lambda>s. (therapistId s = therapistId' \<or>
                                           clientId s = clientId prev) \<and>
                                       day s = day' \<and> entry_id s \<noteq> entry_id prev \<and>
                                       sessionsOverlap (startTime s) (endTime s)
                                         newPrevStart newPrevEnd)
                             fixedSchedule
                     then
                       (let moved = prev\<lparr>startTime := newPrevStart, endTime := newPrevEnd\<rparr>
                        in (case findIndex (\<lambda>e. entry_id e = entry_id prev) fixedSchedule of
                              Some prevIndex \<Rightarrow> fixedSchedule[prevIndex := moved]
                            | None \<Rightarrow> fixedSchedule @ [moved]) @ [current])
                     else fixedSchedule))
         else fixedSchedule @ [current])"

definition fixSameClientBackToBackIssues ::
  "GeneratedSchedule \<Rightarrow> Client list \<Rightarrow> Therapist list \<Rightarrow> DayOfWeek \<Rightarrow> int \<Rightarrow> Callout list \<Rightarrow>
   GeneratedSchedule" where
  "fixSameClientBackToBackIssues schedule clients therapists day' selectedDate callouts =
     (let nonClientSessions = filter (\<lambda>entry. \<not> truthy (clientId entry)) schedule;
          clientSessions = filter (\<lambda>entry. truthy (clientId entry)) schedule;
          therapistIds = js_unique (map therapistId clientSessions);
          fixedSchedule =
            foldl (\<lambda>fixed therapistId'.
                     (let sessions = js_sort (\<lambda>a b. startTime a - startTime b)
                                       (filter (\<lambda>s. therapistId s = therapistId') clientSessions)
                      in foldl (back_to_back_step day' therapistId' sessions) fixed
                           [0..<length sessions]))
              [] therapistIds
      in fixedSchedule @ nonClientSessions)"

text \<open>The loop over the lengths in \<open>fixClientCoverageGaps\<close>: the first therapist free for
  the longest length, from \<open>len\<close> down to 60 in steps of 15.\<close>

function find_cover ::
  "AvailabilityTracker \<Rightarrow> Therapist list \<Rightarrow> int \<Rightarrow> int \<Rightarrow> (Therapist \<times> int) option" where
  "find_cover tracker qualifiedTherapists start len =
     (if len \<ge> 60
      then (case find (\<lambda>t. isAvailable tracker TherapistEntity (therapist_id t) start
                              (start + len) None) qualifiedTherapists of
              Some availableTherapist \<Rightarrow> Some (availableTherapist, len)
            | None \<Rightarrow> find_cover tracker qualifiedTherapists start (len - 15))
      else None)"
  by pat_completeness auto
termination
  by (relation "measure (\<lambda>(tracker, qualifiedTherapists, start, len). nat (len - 59))") auto

text \<open>The body of \<^verbatim>\<open>gaps.forEach\<close>, on the schedule, the tracker and the cursor of the
  identifier supply.\<close>

definition cover_gap ::
  "id_supply \<Rightarrow> DayOfWeek \<Rightarrow> Client \<Rightarrow> Therapist list \<Rightarrow>
   GeneratedSchedule \<times> AvailabilityTracker \<times> nat \<Rightarrow> TimeRange \<Rightarrow>
   GeneratedSchedule \<times> AvailabilityTracker \<times> nat" where
  "cover_gap ids' day' client qualifiedTherapists state gap =
     (let schedule = fst state;
          tracker = fst (snd state);
          j = snd (snd state)
      in if range_end gap - range_start gap < 60 then state
         else
           (let maxLen = min 180 (range_end gap - range_start gap)
            in case find_cover tracker qualifiedTherapists (range_start gap) maxLen of
                 None \<Rightarrow> state
               | Some (availableTherapist, len) \<Rightarrow>
                   (let start = range_start gap;
                        end' = range_start gap + len;
                        candidateEntry =
                          \<lparr>entry_id = ids' j,
                           clientName = Some (client_name client),
                           clientId = Some (client_id client),
                           therapistName = therapist_name availableTherapist,
                           therapistId = therapist_id availableTherapist,
                           day = day',
                           startTime = start,
                           endTime = end',
                           sessionType = ABA\<rparr>
                    in (schedule @ [candidateEntry],
                        book tracker (therapist_id availableTherapist) (Some (client_id client))
                          start end',
                        j + 1))))"

definition fixClientCoverageGaps ::
  "id_supply \<Rightarrow> nat \<Rightarrow> GeneratedSchedule \<Rightarrow> Client list \<Rightarrow> Therapist list \<Rightarrow> DayOfWeek \<Rightarrow> int \<Rightarrow>
   Callout list \<Rightarrow> GeneratedSchedule \<times> nat" where
  "fixClientCoverageGaps ids' j schedule clients therapists day' selectedDate callouts =
     (let tracker = new_AvailabilityTracker schedule callouts (Some selectedDate);
          final =
            foldl (\<lambda>state client.
                     (let gaps = getClientCoverageGaps (fst state) (client_id client) callouts
                                   (Some selectedDate) COMPANY_OPERATING_HOURS_START
                                   COMPANY_OPERATING_HOURS_END;
                          qualifiedTherapists = filter (every_req client) therapists
                      in foldl (cover_gap ids' day' client qualifiedTherapists) state gaps))
              (schedule, tracker, j) clients
      in (fst final, snd (snd final)))"

text \<open>\<^verbatim>\<open>xs.reduce((m, g) => Math.min(m, g), Infinity)\<close>, \<open>None\<close> for \<^verbatim>\<open>Infinity\<close>, and the test
  \<^verbatim>\<open>gap >= n\<close> on the result.\<close>

definition min_gap :: "int list \<Rightarrow> int option" where
  "min_gap gs = foldl (\<lambda>minGap g. case minGap of None \<Rightarrow> Some g | Some m \<Rightarrow> Some (min m g)) None gs"

definition at_least :: "int option \<Rightarrow> int \<Rightarrow> bool" where
  "at_least gap n = (case gap of None \<Rightarrow> True | Some g \<Rightarrow> g \<ge> n)"

text \<open>The score of a lunch at \<open>time\<close> in \<open>fixLunchIssues\<close>, computed in the reals. The
  loop calls it with \<open>workdayStart \<le> time \<le> workdayEnd - 30\<close>, so \<open>maxDistance\<close> is
  positive; \<open>Math.max(workBefore, workAfter)\<close> is positive when \<open>totalWork\<close> is. The
  \<^verbatim>\<open>reasons\<close> are collected and never read.\<close>

definition lunch_score ::
  "GeneratedSchedule \<Rightarrow> Therapist list \<Rightarrow> Therapist \<Rightarrow> string \<Rightarrow> ScheduleEntry list \<Rightarrow>
   string list \<Rightarrow> int \<Rightarrow> int \<Rightarrow> int \<Rightarrow> real" where
  "lunch_score schedule therapists therapist therapistId' allSessions therapistClients
     workdayStart workdayEnd time =
     (let lunchDuration = 30;
          workdayMidpoint = real_of_int workdayStart + real_of_int (workdayEnd - workdayStart) / 2;
          distanceFromMidpoint = \<bar>real_of_int time - workdayMidpoint\<bar>;
          maxDistance = real_of_int (workdayEnd - workdayStart) / 2;
          midpointScore = 100 * (1 - min (distanceFromMidpoint / maxDistance) 1);
          gapBefore = (if length allSessions > 0
                       then min_gap (map (\<lambda>s. time - endTime s)
                                       (filter (\<lambda>s. endTime s \<le> time) allSessions))
                       else Some 0);
          gapAfter = (if length allSessions > 0
                      then min_gap (map (\<lambda>s. startTime s - (time + lunchDuration))
                                      (filter (\<lambda>s. startTime s \<ge> time + lunchDuration)
                                         allSessions))
                      else Some 0);
          gapScore = (if at_least gapBefore 30 \<or> at_least gapAfter 30 then 50
                      else if at_least gapBefore 15 \<or> at_least gapAfter 15 then 25
                      else 0);
          clientsWithCoverage =
            length (filter (\<lambda>clientId'.
                      length (filter (\<lambda>s. clientId s = Some clientId' \<and>
                                           therapistId s \<noteq> therapistId' \<and>
                                           sessionType s \<noteq> IndirectTime \<and>
                                           startTime s < time + lunchDuration \<and>
                                           endTime s > time) schedule) > 0)
                    therapistClients);
          coverageScore = 20 * real clientsWithCoverage;
          coverage = (if clientsWithCoverage > 0 \<and> length therapistClients > 0
                      then coverageScore *
                           (real clientsWithCoverage / real (length therapistClients))
                      else 0);
          workBefore = sum_list (map (\<lambda>s. endTime s - startTime s)
                                   (filter (\<lambda>s. endTime s \<le> time) allSessions));
          workAfter = sum_list (map (\<lambda>s. endTime s - startTime s)
                                  (filter (\<lambda>s. startTime s \<ge> time + lunchDuration) allSessions));
          totalWork = workBefore + workAfter;
          balance = (if totalWork > 0
                     then real_of_int (min workBefore workAfter) /
                          real_of_int (max workBefore workAfter) * 40
                     else 0);
          team =
            (if truthy (therapist_teamId therapist)
             then (let teamMembers = filter (\<lambda>t. therapist_teamId t = therapist_teamId therapist)
                                       therapists;
                       teammatesOnLunch =
                         length (filter (\<lambda>t. therapist_id t \<noteq> therapistId' \<and>
                                   list_ex (\<lambda>s. therapistId s = therapist_id t \<and>
                                                sessionType s = IndirectTime \<and>
                                                startTime s < time + lunchDuration \<and>
                                                endTime s > time) schedule)
                                 teamMembers);
                       teamRatio = real teammatesOnLunch / real (max (length teamMembers - 1) 1)
                   in if teamRatio < 0.5 then 30 else if teamRatio > 0.7 then - 30 else 0)
             else 0);
          ideal = (if time \<ge> IDEAL_LUNCH_WINDOW_START \<and> time \<le> IDEAL_LUNCH_WINDOW_END_FOR_START
                   then 20 else 0)
      in midpointScore + gapScore + coverage + balance + team + ideal)"

text \<open>The loop over the candidate lunch times. The score reads \<^verbatim>\<open>therapist.teamId\<close>, which
  throws at the first free time when the therapist is not in the list.\<close>

function lunch_candidates ::
  "AvailabilityTracker \<Rightarrow> (int \<Rightarrow> real) option \<Rightarrow> string \<Rightarrow> int \<Rightarrow> int \<Rightarrow>
   js_error + (int \<times> real) list" where
  "lunch_candidates tracker score therapistId' time searchEnd =
     (if time \<le> searchEnd
      then (if \<not> isAvailable tracker TherapistEntity therapistId' time (time + 30) None
            then lunch_candidates tracker score therapistId' (time + 15) searchEnd
            else (case score of
                    None \<Rightarrow> Inl TypeError
                  | Some f \<Rightarrow>
                      (case lunch_candidates tracker score therapistId' (time + 15) searchEnd of
                         Inl e \<Rightarrow> Inl e
                       | Inr candidates \<Rightarrow> Inr ((time, f time) # candidates))))
      else Inr [])"
  by pat_completeness auto
termination
  by (relation "measure (\<lambda>(tracker, score, therapistId', time, searchEnd).
                          nat (searchEnd - time + 1))") auto

text \<open>The two loops over the split times of a long session. In the first the split time
  starts at \<^verbatim>\<open>preferredSplitTime\<close>, which is the workday midpoint when that lies inside the
  session, and need not be whole; the tracker sees \<^verbatim>\<open>Math.floor(mins / 15)\<close>, which is the
  slot of the whole part.\<close>

function split_after ::
  "AvailabilityTracker \<Rightarrow> string \<Rightarrow> string \<Rightarrow> real \<Rightarrow> real \<Rightarrow> real option" where
  "split_after tracker therapistId' sessionId splitTime bound =
     (if splitTime \<le> bound
      then (if isAvailable tracker TherapistEntity therapistId' \<lfloor>splitTime\<rfloor> \<lfloor>splitTime + 30\<rfloor>
                 (Some sessionId)
            then Some splitTime
            else split_after tracker therapistId' sessionId (splitTime + 15) bound)
      else None)"
  by pat_completeness auto
termination
  by (relation "measure (\<lambda>(tracker, therapistId', sessionId, splitTime, bound).
                          nat (\<lfloor>bound - splitTime\<rfloor> + 1))") (auto, linarith)

function split_before ::
  "AvailabilityTracker \<Rightarrow> string \<Rightarrow> string \<Rightarrow> int \<Rightarrow> real \<Rightarrow> int option" where
  "split_before tracker therapistId' sessionId splitTime preferredSplitTime =
     (if real_of_int splitTime < preferredSplitTime
      then (if isAvailable tracker TherapistEntity therapistId' splitTime (splitTime + 30)
                 (Some sessionId)
            then Some splitTime
            else split_before tracker therapistId' sessionId (splitTime + 15) preferredSplitTime)
      else None)"
  by pat_completeness auto
termination
  by (relation "measure (\<lambda>(tracker, therapistId', sessionId, splitTime, preferredSplitTime).
                          nat (\<lceil>preferredSplitTime\<rceil> - splitTime))") (auto, linarith)

text \<open>The body of the loop over the long sessions, for the session at index \<open>idx\<close> of the
  schedule: the schedule after the split, if a split time is free.\<close>

definition split_session ::
  "id_supply \<Rightarrow> Therapist option \<Rightarrow> string \<Rightarrow> DayOfWeek \<Rightarrow> AvailabilityTracker \<Rightarrow> real \<Rightarrow>
   GeneratedSchedule \<Rightarrow> nat \<Rightarrow> nat \<times> ScheduleEntry \<Rightarrow> js_error + (GeneratedSchedule \<times> nat) option" where
  "split_session ids' therapist therapistId' day' tracker workdayMidpoint schedule j indexed =
     (let idx = fst indexed;
          session = snd indexed;
          sessionStart = startTime session;
          sessionEnd = endTime session;
          preferredSplitTime = max (real_of_int (sessionStart + 60))
                                 (min (real_of_int (sessionEnd - 60)) workdayMidpoint);
          found =
            (case split_after tracker therapistId' (entry_id session) preferredSplitTime
                    (real_of_int (min (sessionEnd - 60) (LUNCH_COVERAGE_END_TIME - 30))) of
               Some splitTime \<Rightarrow> Some splitTime
             | None \<Rightarrow>
                 map_option real_of_int
                   (split_before tracker therapistId' (entry_id session)
                      (max (sessionStart + 60) LUNCH_COVERAGE_START_TIME) preferredSplitTime))
      in case found of
           None \<Rightarrow> Inr None
         | Some splitTime \<Rightarrow>
             (case therapist of
                None \<Rightarrow> Inl TypeError
              | Some t \<Rightarrow>
                  if splitTime \<noteq> real_of_int \<lfloor>splitTime\<rfloor> then Inl FractionalTime
                  else
                    (let originalEnd = endTime session
                     in Inr (Some
                          (schedule[idx := session\<lparr>endTime := \<lfloor>splitTime\<rfloor>\<rparr>] @
                           [lunch_entry (ids' j) (therapist_name t) therapistId' day' \<lfloor>splitTime\<rfloor>,
                            \<lparr>entry_id = ids' (j + 1),
                             clientName = clientName session,
                             clientId = clientId session,
                             therapistName = therapistName session,
                             therapistId = therapistId session,
                             day = day',
                             startTime = \<lfloor>splitTime\<rfloor> + 30,
                             endTime = originalEnd,
                             sessionType = ABA\<rparr>],
                           j + 2)))))"

fun first_split ::
  "(nat \<times> ScheduleEntry \<Rightarrow> js_error + (GeneratedSchedule \<times> nat) option) \<Rightarrow>
   (nat \<times> ScheduleEntry) list \<Rightarrow> js_error + (GeneratedSchedule \<times> nat) option" where
  "first_split f [] = Inr None"
| "first_split f (indexed # rest) =
     (case f indexed of
        Inl e \<Rightarrow> Inl e
      | Inr (Some r) \<Rightarrow> Inr (Some r)
      | Inr None \<Rightarrow> first_split f rest)"

text \<open>The body of \<^verbatim>\<open>workingTherapistIds.forEach\<close> in \<open>fixLunchIssues\<close>, on the schedule and
  the cursor of the identifier supply. The tracker is the one built from the schedule the
  function was called with.\<close>

definition fix_lunch ::
  "id_supply \<Rightarrow> Therapist list \<Rightarrow> DayOfWeek \<Rightarrow> AvailabilityTracker \<Rightarrow>
   GeneratedSchedule \<times> nat \<Rightarrow> string \<Rightarrow> js_error + GeneratedSchedule \<times> nat" where
  "fix_lunch ids' therapists day' tracker state therapistId' =
     (let schedule = fst state;
          j = snd state;
          therapistSessions = filter (\<lambda>s. therapistId s = therapistId' \<and>
                                          sessionType s \<noteq> IndirectTime) schedule;
          totalMinutes = sum_list (map (\<lambda>s. endTime s - startTime s) therapistSessions);
          hasLunch = list_ex (\<lambda>s. therapistId s = therapistId' \<and> sessionType s = IndirectTime)
                       schedule
      in if totalMinutes < 300 then Inr state
         else if hasLunch then Inr state
         else
           (let therapist = getTherapistById therapists therapistId';
                allSessions = js_sort (\<lambda>a b. startTime a - startTime b)
                                (filter (\<lambda>s. therapistId s = therapistId') schedule)
            in if length allSessions = 0 then Inr state
               else
                 (let workdayStart = startTime (hd allSessions);
                      workdayEnd = endTime (last allSessions);
                      workdayMidpoint = real_of_int workdayStart +
                                        real_of_int (workdayEnd - workdayStart) / 2;
                      therapistClients = js_unique (map (\<lambda>s. the (clientId s))
                                                     (filter (\<lambda>s. truthy (clientId s)) allSessions));
                      lunchDuration = 30;
                      searchStart = max LUNCH_COVERAGE_START_TIME workdayStart;
                      searchEnd = min (LUNCH_COVERAGE_END_TIME - lunchDuration)
                                    (workdayEnd - lunchDuration)
                  in case lunch_candidates tracker
                            (map_option (\<lambda>t. lunch_score schedule therapists t therapistId'
                                                 allSessions therapistClients workdayStart
                                                 workdayEnd) therapist)
                            therapistId' searchStart searchEnd of
                       Inl e \<Rightarrow> Inl e
                     | Inr candidates \<Rightarrow>
                         (case find (\<lambda>candidate. isAvailable tracker TherapistEntity therapistId'
                                                   (fst candidate) (fst candidate + lunchDuration)
                                                   None)
                                 (take 5 (js_sort (\<lambda>a b. snd b - snd a) candidates)) of
                            Some candidate \<Rightarrow>
                              (case therapist of
                                 None \<Rightarrow> Inl TypeError
                               | Some t \<Rightarrow>
                                   Inr (schedule @ [lunch_entry (ids' j) (therapist_name t)
                                                      therapistId' day' (fst candidate)],
                                        j + 1))
                          | None \<Rightarrow>
                              (let longSessions =
                                     js_sort (\<lambda>a b. startTime (snd a) - startTime (snd b))
                                       (filter (\<lambda>p. therapistId (snd p) = therapistId' \<and>
                                                    sessionType (snd p) = ABA \<and>
                                                    endTime (snd p) - startTime (snd p) \<ge> 90)
                                          (zip [0..<length schedule] schedule))
                               in case first_split
                                         (split_session ids' therapist therapistId' day' tracker
                                            workdayMidpoint schedule j) longSessions of
                                    Inl e \<Rightarrow> Inl e
                                  | Inr None \<Rightarrow> Inr state
                                  | Inr (Some r) \<Rightarrow> Inr r)))))"

definition fixLunchIssues ::
  "id_supply \<Rightarrow> nat \<Rightarrow> GeneratedSchedule \<Rightarrow> Therapist list \<Rightarrow> DayOfWeek \<Rightarrow> int \<Rightarrow> Callout list \<Rightarrow>
   js_error + GeneratedSchedule \<times> nat" where
  "fixLunchIssues ids' j schedule therapists day' selectedDate callouts =
     (let tracker = new_AvailabilityTracker schedule callouts (Some selectedDate);
          workingTherapistIds =
            js_unique (map therapistId (filter (\<lambda>s. sessionType s \<noteq> IndirectTime) schedule))
      in fold_err (fix_lunch ids' therapists day' tracker) workingTherapistIds (schedule, j))"

text \<open>The body of \<^verbatim>\<open>schedule.forEach\<close> in \<open>fixTeamAlignmentIssues\<close> for the entry at index
  \<open>i\<close>. The check is made for the day of \<^verbatim>\<open>new Date()\<close> with no callouts.\<close>

definition fix_team_at ::
  "int \<Rightarrow> Client list \<Rightarrow> Therapist list \<Rightarrow> GeneratedSchedule \<Rightarrow> nat \<Rightarrow> GeneratedSchedule" where
  "fix_team_at today clients therapists schedule i =
     (let entry = schedule ! i
      in if \<not> truthy (clientId entry) then schedule
         else
           (case getClientById clients (the (clientId entry)) of
              None \<Rightarrow> schedule
            | Some client \<Rightarrow>
                (case getTherapistById therapists (therapistId entry) of
                   None \<Rightarrow> schedule
                 | Some therapist \<Rightarrow>
                     if truthy (client_teamId client) \<and> truthy (therapist_teamId therapist) \<and>
                        client_teamId client \<noteq> therapist_teamId therapist
                     then
                       (let teamMates = filter (\<lambda>t. therapist_teamId t = client_teamId client \<and>
                                                     every_req client t) therapists;
                            replacement =
                              find (\<lambda>t. valid (canAddEntryToSchedule
                                                 (entry\<lparr>therapistId := therapist_id t,
                                                        therapistName := therapist_name t\<rparr>)
                                                 schedule clients therapists (Some today) []
                                                 (Some (entry_id entry))))
                                teamMates
                        in case replacement of
                             None \<Rightarrow> schedule
                           | Some r \<Rightarrow>
                               schedule[i := entry\<lparr>therapistId := therapist_id r,
                                                   therapistName := therapist_name r\<rparr>])
                     else schedule)))"

definition fixTeamAlignmentIssues ::
  "int \<Rightarrow> GeneratedSchedule \<Rightarrow> Client list \<Rightarrow> Therapist list \<Rightarrow> GeneratedSchedule" where
  "fixTeamAlignmentIssues today schedule clients therapists =
     foldl (fix_team_at today clients therapists) schedule [0..<length schedule]"

definition MUTATION_RATE :: real where
  "MUTATION_RATE = 0.95"

text \<open>\<open>repairAndMutate\<close>, on the cursors of the random source and the identifier supply.\<close>

definition repairAndMutate ::
  "Oracles \<Rightarrow> nat \<times> nat \<Rightarrow> GeneratedSchedule \<Rightarrow> Client list \<Rightarrow> Therapist list \<Rightarrow> DayOfWeek \<Rightarrow>
   int \<Rightarrow> Callout list \<Rightarrow> js_error + GeneratedSchedule \<times> nat \<times> nat" where
  "repairAndMutate orc cur schedule clients therapists day' selectedDate callouts =
     (let cloned = cloneSchedule schedule;
          mutated = (if Rep_draw (orc_rnd orc (fst cur)) < MUTATION_RATE
                     then mutateIncremental (orc_rnd orc) (fst cur + 1) cloned clients therapists
                            (Some selectedDate) callouts
                     else (cloned, fst cur + 1));
          cleaned = cleanupScheduleIssues (fst mutated);
          clamped = fixSessionDurations cleaned;
          credentialed = fixCredentialIssues clamped clients therapists selectedDate callouts;
          capped = fixMdMedicaidLimit credentialed clients therapists (Some selectedDate) callouts;
          spaced = fixSameClientBackToBackIssues capped clients therapists day' selectedDate
                     callouts;
          covered = fixClientCoverageGaps (orc_ids orc) (snd cur) spaced clients therapists day'
                      selectedDate callouts
      in case fixLunchIssues (orc_ids orc) (snd covered) (fst covered) therapists day'
                selectedDate callouts of
           Inl e \<Rightarrow> Inl e
         | Inr lunched \<Rightarrow>
             Inr (fixTeamAlignmentIssues (orc_now orc) (fst lunched) clients therapists,
                  snd mutated, snd lunched))"

section \<open>The algorithm (services/csoService)\<close>

text \<open>\<open>loadLearningContext\<close> from the schedules that
  \<^verbatim>\<open>ScheduleLearningService.getHighRatedSchedules()\<close> returns.\<close>

definition loadLearningContext :: "GeneratedSchedule list \<Rightarrow> LearningContext" where
  "loadLearningContext highRated =
     \<lparr>topRatedSchedules = highRated,
      learnedLunchTimes =
        map (\<lambda>e. \<lparr>ll_therapistId = therapistId e, ll_startTime = startTime e,
                   ll_endTime = endTime e\<rparr>)
          (concat (map (filter (\<lambda>e. sessionType e = IndirectTime)) highRated))\<rparr>"

text \<open>The loop that seeds the population with the top-rated schedules.\<close>

fun seed_top ::
  "id_supply \<Rightarrow> DayOfWeek \<Rightarrow> GeneratedSchedule list \<Rightarrow> nat \<Rightarrow> GeneratedSchedule list \<Rightarrow>
   GeneratedSchedule list \<times> nat" where
  "seed_top ids' day' pop j [] = (pop, j)"
| "seed_top ids' day' pop j (topSchedule # rest) =
     (let topScheduleForDay = with_fresh_ids ids' j (filter (\<lambda>s. day s = day') topSchedule);
          pop' = (if length topScheduleForDay > 0 then pop @ [topScheduleForDay]
                         else pop)
      in if real (length pop') \<ge> real POPULATION_SIZE * 0.2
         then (pop', j + length topScheduleForDay)
         else seed_top ids' day' pop' (j + length topScheduleForDay) rest)"

text \<open>The loop that fills the population with constructive schedules.\<close>

function fill_population ::
  "Oracles \<Rightarrow> Client list \<Rightarrow> Therapist list \<Rightarrow> DayOfWeek \<Rightarrow> int \<Rightarrow> Callout list \<Rightarrow>
   BaseScheduleConfig option \<Rightarrow> LearningContext \<Rightarrow> GeneratedSchedule list \<Rightarrow> nat \<times> nat \<Rightarrow>
   js_error + GeneratedSchedule list \<times> nat \<times> nat" where
  "fill_population orc clients therapists day' selectedDate callouts baseScheduleForDay
     learningContext pop cur =
     (if length pop < POPULATION_SIZE
      then (case constructiveHeuristicInitialization orc cur clients therapists day' selectedDate
                   callouts baseScheduleForDay learningContext of
              Inl e \<Rightarrow> Inl e
            | Inr r \<Rightarrow>
                fill_population orc clients therapists day' selectedDate callouts
                  baseScheduleForDay learningContext (pop @ [fst r]) (snd r))
      else Inr (pop, cur))"
  by pat_completeness auto
termination
  by (relation "measure (\<lambda>(orc, clients, therapists, day', selectedDate, callouts,
                            baseScheduleForDay, learningContext, pop, cur).
                          POPULATION_SIZE - length pop)") auto

text \<open>One offspring: two selections, crossover, repair and mutation.\<close>

definition make_child ::
  "Oracles \<Rightarrow> Client list \<Rightarrow> Therapist list \<Rightarrow> DayOfWeek \<Rightarrow> int \<Rightarrow> Callout list \<Rightarrow>
   scored list \<Rightarrow> nat \<times> nat \<Rightarrow> js_error + GeneratedSchedule \<times> nat \<times> nat" where
  "make_child orc clients therapists day' selectedDate callouts popWithFitness cur =
     (let p1 = diversityPreservingSelection (orc_rnd orc) (fst cur) popWithFitness;
          p2 = diversityPreservingSelection (orc_rnd orc) (snd p1) popWithFitness;
          child = crossover (orc_rnd orc) (orc_ids orc) (snd p2, snd cur) (fst p1) (fst p2)
                    therapists clients (Some selectedDate) callouts
      in repairAndMutate orc (snd child) (fst child) clients therapists day' selectedDate
           callouts)"

text \<open>The population before the first generation.\<close>

definition initial_population ::
  "Oracles \<Rightarrow> nat \<times> nat \<Rightarrow> Client list \<Rightarrow> Therapist list \<Rightarrow> int \<Rightarrow> Callout list \<Rightarrow>
   GeneratedSchedule option \<Rightarrow> BaseScheduleConfig list \<Rightarrow> GeneratedSchedule list \<Rightarrow>
   js_error + GeneratedSchedule list \<times> nat \<times> nat" where
  "initial_population orc cur clients therapists selectedDate callouts
     initialScheduleForOptimization baseSchedules highRated =
     (let day' = getDayOfWeekFromDate selectedDate;
          baseScheduleForDay =
            (case initialScheduleForOptimization of
               Some initial \<Rightarrow> None
             | None \<Rightarrow> find (\<lambda>bs. day' \<in> set (appliesToDays bs)) baseSchedules);
          learningContext = loadLearningContext highRated;
          seed = (case initialScheduleForOptimization of
                    Some initial \<Rightarrow> Some initial
                  | None \<Rightarrow> (case baseScheduleForDay of
                               None \<Rightarrow> None
                             | Some bs \<Rightarrow> bs_schedule bs))
      in case (case seed of
                 None \<Rightarrow> Inr ([], cur)
               | Some s \<Rightarrow>
                   (case repairAndMutate orc cur s clients therapists day' selectedDate callouts of
                      Inl e \<Rightarrow> Inl e
                    | Inr r \<Rightarrow> Inr ([fst r], snd r))) of
           Inl e \<Rightarrow> Inl e
         | Inr first \<Rightarrow>
             (let seeded = seed_top (orc_ids orc) day' (fst first) (snd (snd first))
                             (take 5 (topRatedSchedules learningContext))
              in fill_population orc clients therapists day' selectedDate callouts
                   baseScheduleForDay learningContext (fst seeded)
                   (fst (snd first), snd seeded)))"

text \<open>\<open>runCsoAlgorithm\<close> for a valid date. The stored base schedules and the high-rated
  schedules, which the program reads from services, are parameters.\<close>

definition runCsoAlgorithm ::
  "Oracles \<Rightarrow> nat \<times> nat \<Rightarrow> Client list \<Rightarrow> Therapist list \<Rightarrow> int \<Rightarrow> Callout list \<Rightarrow>
   GeneratedSchedule option \<Rightarrow> BaseScheduleConfig list \<Rightarrow> GeneratedSchedule list \<Rightarrow>
   js_error + GAGenerationResult" where
  "runCsoAlgorithm orc cur clients therapists selectedDate callouts
     initialScheduleForOptimization baseSchedules highRated =
     (case initial_population orc cur clients therapists selectedDate callouts
             initialScheduleForOptimization baseSchedules highRated of
        Inl e \<Rightarrow> Inl e
      | Inr r \<Rightarrow>
          optimise (\<lambda>p. calculateFitness p clients therapists selectedDate callouts)
            (make_child orc clients therapists (getDayOfWeekFromDate selectedDate) selectedDate
               callouts)
            (\<lambda>finalCleaned. validateFullSchedule finalCleaned clients therapists selectedDate
                               COMPANY_OPERATING_HOURS_START COMPANY_OPERATING_HOURS_END callouts)
            therapists (fst r) (snd r))"

text \<open>The base schedule of the day brings no entry: there is none, or it has no
  schedule or an empty one.\<close>

definition no_base :: "BaseScheduleConfig option \<Rightarrow> bool" where
  "no_base baseScheduleForDay =
     (case baseScheduleForDay of
        None \<Rightarrow> True
      | Some bs \<Rightarrow> bs_schedule bs = None \<or> bs_schedule bs = Some [])"

text \<open>No entry reaches the population from outside: the schedule to optimise, if given,
  is empty; the stored base schedule that applies to the day brings no entry; and none of
  the first five high-rated schedules has an entry for the day.\<close>

definition no_seed_entries ::
  "GeneratedSchedule option \<Rightarrow> BaseScheduleConfig list \<Rightarrow> GeneratedSchedule list \<Rightarrow> int \<Rightarrow> bool" where
  "no_seed_entries initialScheduleForOptimization baseSchedules highRated selectedDate =
     ((initialScheduleForOptimization = None \<or> initialScheduleForOptimization = Some []) \<and>
      no_base (find (\<lambda>bs. getDayOfWeekFromDate selectedDate \<in> set (appliesToDays bs))
                 baseSchedules) \<and>
      list_all (\<lambda>topSchedule.
                  filter (\<lambda>s. day s = getDayOfWeekFromDate selectedDate) topSchedule = [])
        (take 5 highRated))"

section \<open>Example data\<close>

definition mk_entry ::
  "string \<Rightarrow> string option \<Rightarrow> string \<Rightarrow> int \<Rightarrow> int \<Rightarrow> SessionType \<Rightarrow> ScheduleEntry" where
  "mk_entry i c t s e ty =
     \<lparr>entry_id = i, clientName = c, clientId = c, therapistName = t, therapistId = t,
      day = MONDAY, startTime = s, endTime = e, sessionType = ty\<rparr>"

definition ex_callout :: "string \<Rightarrow> int \<Rightarrow> int \<Rightarrow> Callout" where
  "ex_callout cid s e =
     \<lparr>callout_id = ''co1'', entityType = ClientEntity, entityId = cid, entityName = cid,
      startDate = Some 0, endDate = Some 0, co_startTime = s, co_endTime = e, reason = None\<rparr>"

definition ex_client :: "string \<Rightarrow> string list \<Rightarrow> Client" where
  "ex_client cid reqs =
     \<lparr>client_id = cid, client_name = cid, client_teamId = None,
      insuranceRequirements = reqs, alliedHealthNeeds = []\<rparr>"

definition ex_oracles :: Oracles where
  "ex_oracles = \<lparr>orc_rnd = (\<lambda>n. Abs_draw 0), orc_ids = (\<lambda>n. ''id''),
                 orc_shuffle = (\<lambda>k n. ([], 0)), orc_now = 0\<rparr>"

definition ex_base :: BaseScheduleConfig where
  "ex_base = \<lparr>bs_id = ''b1'', bs_name = ''Thursdays'', appliesToDays = [THURSDAY],
               bs_schedule = None\<rparr>"

definition ex_therapist :: "string \<Rightarrow> Therapist" where
  "ex_therapist tid =
     \<lparr>therapist_id = tid, therapist_name = tid, therapist_teamId = None, role = ''RBT'',
      qualifications = [], canProvideAlliedHealth = []\<rparr>"




text \<open>A run of the loop on schedules without entries whose fitness is 1 throughout: the
  state after \<open>g\<close> generations, \<open>w\<close> of them without improvement.\<close>

definition ex_state :: "nat \<Rightarrow> nat \<Rightarrow> GAState" where
  "ex_state g w =
     \<lparr>population = replicate POPULATION_SIZE [], bestFitnessOverall = Finite 1,
      bestScheduleOverall = Some [], generationsRun = g, generationsWithoutImprovement = w\<rparr>"

definition ex_child :: "scored list \<Rightarrow> nat \<Rightarrow> js_error + GeneratedSchedule \<times> nat" where
  "ex_child p c = Inr ([], c)"

text \<open>A Medicaid client with five therapists: \<^verbatim>\<open>t1\<close> is busy when the fourth therapist's
  session takes place, and the fifth therapist's session double-books the client.\<close>

definition ex_medicaid_schedule :: GeneratedSchedule where
  "ex_medicaid_schedule =
     [mk_entry ''x1'' (Some ''c2'') ''t1'' 720 780 ABA,
      mk_entry ''e1'' (Some ''c1'') ''t1'' 480 540 ABA,
      mk_entry ''e2'' (Some ''c1'') ''t2'' 540 600 ABA,
      mk_entry ''e3'' (Some ''c1'') ''t3'' 600 660 ABA,
      mk_entry ''e4'' (Some ''c1'') ''t4'' 720 780 ABA,
      mk_entry ''e5'' (Some ''c1'') ''t5'' 600 660 ABA]"

definition ex_medicaid_therapist :: "string \<Rightarrow> Therapist" where
  "ex_medicaid_therapist tid =
     \<lparr>therapist_id = tid, therapist_name = ''Dr '' @ tid, therapist_teamId = None,
      role = ''RBT'', qualifications = [''MD_MEDICAID''], canProvideAlliedHealth = []\<rparr>"

definition ex_medicaid_therapists :: "Therapist list" where
  "ex_medicaid_therapists = map ex_medicaid_therapist [''t1'', ''t2'', ''t3'', ''t4'', ''t5'']"

definition ex_medicaid_clients :: "Client list" where
  "ex_medicaid_clients = [ex_client ''c2'' [], ex_client ''c1'' [''MD_MEDICAID'']]"










section \<open>Properties of the availability tracker\<close>

lemma shl_one_minus: "0 \<le> n \<Longrightarrow> bigint_shl 1 n - 1 = mask (nat n)"
  by (simp add: bigint_shl_def mask_eq_exp_minus_1)

lemma bit_block:
  assumes "0 \<le> S"
  shows "bit (push_bit (nat S) (mask (nat (E - S)) :: int)) k \<longleftrightarrow> (S \<le> int k \<and> int k < E)"
  using assms by (simp add: bit_push_bit_iff bit_mask_iff) linarith

lemma getRangeMask_block:
  assumes "0 \<le> timeToBit s"
  shows "getRangeMask s e = push_bit (nat (timeToBit s)) (mask (nat (timeToBit e - timeToBit s)))"
  using assms
  by (simp add: getRangeMask_def Let_def shl_one_minus bigint_shl_def mask_eq_exp_minus_1)

lemma bit_getRangeMask:
  assumes "0 \<le> s"
  shows "bit (getRangeMask s e) k \<longleftrightarrow> (timeToBit s \<le> int k \<and> int k < timeToBit e)"
proof -
  have "0 \<le> timeToBit s" using assms by (simp add: timeToBit_def)
  then show ?thesis by (simp only: getRangeMask_block bit_block)
qed

lemma and_zero_iff: "(a AND b = (0::int)) \<longleftrightarrow> (\<forall>k. \<not> (bit a k \<and> bit b k))"
  by (auto simp: bit_eq_iff bit_and_iff)

lemma masks_disjoint_iff:
  assumes "grid_range a b" and "grid_range x y"
  shows "(getRangeMask a b AND getRangeMask x y = 0) \<longleftrightarrow> \<not> (x < b \<and> a < y)"
proof -
  define a' b' x' y' where d: "a' = a div 15" "b' = b div 15" "x' = x div 15" "y' = y div 15"
  have e: "a = 15 * a'" "b = 15 * b'" "x = 15 * x'" "y = 15 * y'"
    using assms d unfolding grid_range_def by auto
  have nn: "0 \<le> a'" "0 \<le> x'" "a' < b'" "x' < y'"
    using assms e unfolding grid_range_def by auto
  have t: "timeToBit a = a'" "timeToBit b = b'" "timeToBit x = x'" "timeToBit y = y'"
    using d by (simp_all add: timeToBit_def)
  have pos: "0 \<le> a" "0 \<le> x" using assms unfolding grid_range_def by auto
  have "(getRangeMask a b AND getRangeMask x y = 0) \<longleftrightarrow>
        (\<forall>k. \<not> ((a' \<le> int k \<and> int k < b') \<and> (x' \<le> int k \<and> int k < y')))"
    by (simp only: and_zero_iff bit_getRangeMask[OF pos(1)] bit_getRangeMask[OF pos(2)] t)
  also have "\<dots> \<longleftrightarrow> \<not> (x' < b' \<and> a' < y')"
  proof
    assume h: "\<forall>k. \<not> ((a' \<le> int k \<and> int k < b') \<and> (x' \<le> int k \<and> int k < y'))"
    show "\<not> (x' < b' \<and> a' < y')"
    proof
      assume c: "x' < b' \<and> a' < y'"
      from h[rule_format, of "nat (max a' x')"] nn c show False
        by (simp add: max_def split: if_splits)
    qed
  next
    assume "\<not> (x' < b' \<and> a' < y')"
    then show "\<forall>k. \<not> ((a' \<le> int k \<and> int k < b') \<and> (x' \<le> int k \<and> int k < y'))"
      by auto
  qed
  also have "\<dots> \<longleftrightarrow> \<not> (x < b \<and> a < y)" using e by simp
  finally show ?thesis .
qed

lemma new_tracker_empty:
  "new_AvailabilityTracker [] [] d =
     \<lparr>therapistMasks = Map.empty, clientMasks = Map.empty, scheduleByEntry = Map.empty\<rparr>"
  by (simp add: new_AvailabilityTracker_def rebuild_def)

lemma isAvailable_no_entries:
  assumes "scheduleByEntry tr = Map.empty"
  shows "isAvailable tr ty k x y ign =
     ((if ty = TherapistEntity then mask_or_zero (therapistMasks tr) k
       else mask_or_zero (clientMasks tr) k) AND getRangeMask x y = 0)"
  using assms by (simp add: isAvailable_def Let_def)

lemma book_empty_masks:
  "therapistMasks (book \<lparr>therapistMasks = Map.empty, clientMasks = Map.empty, scheduleByEntry = Map.empty\<rparr> t c a b) t
     = Some (getRangeMask a b)"
  "truthy c \<Longrightarrow> clientMasks (book \<lparr>therapistMasks = Map.empty, clientMasks = Map.empty, scheduleByEntry = Map.empty\<rparr> t c a b) (the c)
     = Some (getRangeMask a b)"
  "scheduleByEntry (book \<lparr>therapistMasks = Map.empty, clientMasks = Map.empty, scheduleByEntry = Map.empty\<rparr> t c a b) = Map.empty"
  by (simp_all add: book_def Let_def mask_or_zero_def)

text \<open>
  Claim C5, as amended. For a tracker built from an empty schedule and no callouts, after
  \<open>book t c a b\<close> with \<open>[a, b)\<close> a non-empty range on the 15-minute grid, a query for
  the therapist \<open>t\<close> over a non-empty grid range \<open>[x, y)\<close> answers false exactly when
  \<open>[x, y)\<close> overlaps \<open>[a, b)\<close>, and true when it is disjoint from it; the same holds for
  the client \<open>c\<close> when \<open>c\<close> is neither null nor the empty string.
\<close>

theorem tracker_book_then_isAvailable:
  assumes "grid_range a b" and "grid_range x y"
  shows "(isAvailable (book (new_AvailabilityTracker [] [] d) t c a b) TherapistEntity t x y ign
            \<longleftrightarrow> \<not> (x < b \<and> a < y)) \<and>
         (c \<noteq> None \<and> c \<noteq> Some [] \<longrightarrow>
            (isAvailable (book (new_AvailabilityTracker [] [] d) t c a b) ClientEntity (the c) x y ign
               \<longleftrightarrow> \<not> (x < b \<and> a < y)))"
proof -
  have tc: "c \<noteq> None \<and> c \<noteq> Some [] \<Longrightarrow> truthy c"
    by (cases c) (simp_all add: truthy_def)
  show ?thesis
    using masks_disjoint_iff[OF assms] tc
    by (simp add: new_tracker_empty isAvailable_no_entries book_empty_masks mask_or_zero_def)
qed

theorem tracker_book_then_isAvailable_witness:
  "isAvailable (book (new_AvailabilityTracker [] [] (Some 0)) ''t1'' (Some ''c1'') 480 540)
      TherapistEntity ''t1'' 540 600 None \<and>
   \<not> isAvailable (book (new_AvailabilityTracker [] [] (Some 0)) ''t1'' (Some ''c1'') 480 540)
      ClientEntity ''c1'' 525 555 None"
proof -
  have g: "grid_range 480 540" "grid_range 540 600" "grid_range 525 555"
    by (simp_all add: grid_range_def)
  show ?thesis
    using tracker_book_then_isAvailable[OF g(1) g(2), of "Some 0" "''t1''" "Some ''c1''" None]
          tracker_book_then_isAvailable[OF g(1) g(3), of "Some 0" "''t1''" "Some ''c1''" None]
    by simp
qed

text \<open>
  Claim C5 as stated fails for the non-null client id \<^verbatim>\<open>""\<close>: \<^verbatim>\<open>if (clientId)\<close> in
  \<open>book\<close> is false for the empty string, no client mask is written, and the client is
  reported available over the very range that was booked.
\<close>

theorem tracker_book_empty_client_counterexample:
  "grid_range 480 540 \<and> Some [] \<noteq> (None :: string option) \<and>
   isAvailable (book (new_AvailabilityTracker [] [] (Some 0)) ''t1'' (Some []) 480 540)
      ClientEntity [] 480 540 None"
  by (simp add: grid_range_def new_tracker_empty isAvailable_no_entries book_def Let_def
        truthy_def mask_or_zero_def)

section \<open>Properties of the constraint kernel\<close>

text \<open>
  Claim C6, as amended. \<open>hasSameClientBackToBackConflict\<close> returns true exactly when the
  client id of \<open>E\<close> is neither null nor the empty string and some entry of the schedule
  other than the ignored one has the same therapist id, client id and day as \<open>E\<close> and
  ends where \<open>E\<close> starts or starts where \<open>E\<close> ends; whenever it returns true,
  \<open>canAddEntryToSchedule\<close> reports a hard violation and \<open>valid = false\<close>.
\<close>

theorem backToBack_iff:
  "(hasSameClientBackToBackConflict schedule E ign \<longleftrightarrow>
      (clientId E \<noteq> None \<and> clientId E \<noteq> Some [] \<and>
       (\<exists>s \<in> set schedule. Some (entry_id s) \<noteq> ign \<and>
           therapistId s = therapistId E \<and> clientId s = clientId E \<and> day s = day E \<and>
           (endTime s = startTime E \<or> startTime s = endTime E)))) \<and>
   (hasSameClientBackToBackConflict schedule E ign \<longrightarrow>
      \<not> valid (canAddEntryToSchedule E schedule clients therapists selectedDate callouts ign) \<and>
      (\<exists>v \<in> set (violations (canAddEntryToSchedule E schedule clients therapists selectedDate callouts ign)).
          v_type v = hard))"
proof -
  have t: "truthy (clientId E) \<longleftrightarrow> clientId E \<noteq> None \<and> clientId E \<noteq> Some []"
    by (cases "clientId E") (simp_all add: truthy_def)
  have a: "hasSameClientBackToBackConflict schedule E ign \<longleftrightarrow>
      (clientId E \<noteq> None \<and> clientId E \<noteq> Some [] \<and>
       (\<exists>s \<in> set schedule. Some (entry_id s) \<noteq> ign \<and>
           therapistId s = therapistId E \<and> clientId s = clientId E \<and> day s = day E \<and>
           (endTime s = startTime E \<or> startTime s = endTime E)))"
    unfolding hasSameClientBackToBackConflict_def t not_ignored_def list_ex_iff by auto
  have b: "hasSameClientBackToBackConflict schedule E ign \<Longrightarrow>
      \<not> valid (canAddEntryToSchedule E schedule clients therapists selectedDate callouts ign) \<and>
      (\<exists>v \<in> set (violations (canAddEntryToSchedule E schedule clients therapists selectedDate callouts ign)).
          v_type v = hard)"
    by (simp add: valid_def violations_def canAddEntryToSchedule_def
          canAddEntryToSchedule_violations_def violation_def Let_def)
  from a b show ?thesis by blast
qed

theorem backToBack_iff_witness:
  "hasSameClientBackToBackConflict [mk_entry ''e1'' (Some ''c1'') ''t1'' 540 600 ABA]
      (mk_entry ''e2'' (Some ''c1'') ''t1'' 600 660 ABA) None \<and>
   \<not> valid (canAddEntryToSchedule (mk_entry ''e2'' (Some ''c1'') ''t1'' 600 660 ABA)
              [mk_entry ''e1'' (Some ''c1'') ''t1'' 540 600 ABA] [] [] (Some 0) [] None)"
  using backToBack_iff[of "[mk_entry ''e1'' (Some ''c1'') ''t1'' 540 600 ABA]"
          "mk_entry ''e2'' (Some ''c1'') ''t1'' 600 660 ABA" None "[]" "[]" "Some 0" "[]"]
  by (simp add: mk_entry_def)

text \<open>
  Claim C6 as stated fails for an entry whose client id is the empty string: the id is not
  null and the schedule holds an adjoining entry of the same therapist, client and day,
  yet \<^verbatim>\<open>!entry.clientId\<close> makes the function return false.
\<close>

theorem backToBack_empty_client_counterexample:
  "clientId (mk_entry ''e2'' (Some []) ''t1'' 600 660 ABA) \<noteq> None \<and>
   therapistId (mk_entry ''e1'' (Some []) ''t1'' 540 600 ABA) =
     therapistId (mk_entry ''e2'' (Some []) ''t1'' 600 660 ABA) \<and>
   clientId (mk_entry ''e1'' (Some []) ''t1'' 540 600 ABA) =
     clientId (mk_entry ''e2'' (Some []) ''t1'' 600 660 ABA) \<and>
   day (mk_entry ''e1'' (Some []) ''t1'' 540 600 ABA) =
     day (mk_entry ''e2'' (Some []) ''t1'' 600 660 ABA) \<and>
   endTime (mk_entry ''e1'' (Some []) ''t1'' 540 600 ABA) =
     startTime (mk_entry ''e2'' (Some []) ''t1'' 600 660 ABA) \<and>
   \<not> hasSameClientBackToBackConflict [mk_entry ''e1'' (Some []) ''t1'' 540 600 ABA]
        (mk_entry ''e2'' (Some []) ''t1'' 600 660 ABA) None"
  by (simp add: mk_entry_def hasSameClientBackToBackConflict_def truthy_def)

section \<open>Properties of the coverage-gap computation\<close>

lemma separated_sep_after:
  "separated (r # rs) = (range_start r < range_end r \<and> sep_after (range_end r) rs)"
  by (induction rs arbitrary: r) auto

lemma sep_after_mono: "sep_after lo rs \<Longrightarrow> lo' \<le> lo \<Longrightarrow> sep_after lo' rs"
  by (cases rs) auto

lemma sep_after_separated: "sep_after lo rs \<Longrightarrow> separated rs"
  by (cases rs) (auto simp: separated_sep_after)

lemma subtract_busy_Nil [simp]: "subtract_busy busy [] = []"
  by (simp add: subtract_busy_def)

lemma subtract_busy_Cons:
  "subtract_busy busy (r # rs) =
     (if range_end busy \<le> range_start r \<or> range_start busy \<ge> range_end r
        then [r]
        else (if range_start busy > range_start r
              then [\<lparr>range_start = range_start r, range_end = range_start busy\<rparr>] else []) @
             (if range_end busy < range_end r
              then [\<lparr>range_start = range_end busy, range_end = range_end r\<rparr>] else []))
     @ subtract_busy busy rs"
  by (simp add: subtract_busy_def)

lemma sep_after_subtract:
  assumes "range_start busy < range_end busy"
  shows "sep_after lo rs \<Longrightarrow> sep_after lo (subtract_busy busy rs)"
proof (induction rs arbitrary: lo)
  case Nil
  then show ?case by simp
next
  case (Cons r rs)
  from Cons.prems have r: "lo < range_start r" "range_start r < range_end r"
    and rest: "sep_after (range_end r) rs" by auto
  have ih: "sep_after (range_end r) (subtract_busy busy rs)" using Cons.IH[OF rest] .
  have m: "\<And>l. l \<le> range_end r \<Longrightarrow> sep_after l (subtract_busy busy rs)"
    using ih sep_after_mono by blast
  show ?case
    using r assms m by (auto simp: subtract_busy_Cons)
qed

lemma covers_subtract:
  "(\<exists>r \<in> set (subtract_busy busy rs). covers r p) \<longleftrightarrow>
   ((\<exists>r \<in> set rs. covers r p) \<and> \<not> covers busy p)"
proof (induction rs)
  case Nil
  then show ?case by simp
next
  case (Cons r rs)
  have one: "(\<exists>q \<in> set (if range_end busy \<le> range_start r \<or> range_start busy \<ge> range_end r
        then [r]
        else (if range_start busy > range_start r
              then [\<lparr>range_start = range_start r, range_end = range_start busy\<rparr>] else []) @
             (if range_end busy < range_end r
              then [\<lparr>range_start = range_end busy, range_end = range_end r\<rparr>] else [])). covers q p)
      \<longleftrightarrow> (covers r p \<and> \<not> covers busy p)"
    by (auto simp: covers_def)
  show ?case
    unfolding subtract_busy_Cons set_append bex_Un one Cons.IH by auto
qed

lemma empty_subtract:
  "\<forall>r \<in> set rs. range_end r \<le> range_start r \<Longrightarrow>
   \<forall>r \<in> set (subtract_busy busy rs). range_end r \<le> range_start r"
  by (induction rs) (auto simp: subtract_busy_Cons)

lemma foldl_sep:
  assumes "\<forall>busy \<in> set bs. range_start busy < range_end busy"
  shows "sep_after lo rs \<Longrightarrow> sep_after lo (foldl (\<lambda>ranges busy. subtract_busy busy ranges) rs bs)"
  using assms
proof (induction bs arbitrary: rs)
  case Nil
  then show ?case by simp
next
  case (Cons b bs)
  then show ?case using sep_after_subtract[of b lo rs] by simp
qed

lemma foldl_covers:
  "(\<exists>r \<in> set (foldl (\<lambda>ranges busy. subtract_busy busy ranges) rs bs). covers r p) \<longleftrightarrow>
   ((\<exists>r \<in> set rs. covers r p) \<and> \<not> (\<exists>busy \<in> set bs. covers busy p))"
proof (induction bs arbitrary: rs)
  case Nil
  then show ?case by simp
next
  case (Cons b bs)
  show ?case unfolding foldl_Cons Cons.IH covers_subtract by auto
qed

lemma foldl_empty:
  "\<forall>r \<in> set rs. range_end r \<le> range_start r \<Longrightarrow>
   \<forall>r \<in> set (foldl (\<lambda>ranges busy. subtract_busy busy ranges) rs bs). range_end r \<le> range_start r"
proof (induction bs arbitrary: rs)
  case Nil
  then show ?case by simp
next
  case (Cons b bs)
  then show ?case using empty_subtract[of rs b] by simp
qed

lemma set_insert_by: "set (insert_by cmp x xs) = insert x (set xs)"
  by (induction xs) auto

lemma set_js_sort: "set (js_sort cmp xs) = set xs"
  by (induction xs) (auto simp: js_sort_def set_insert_by)

lemma separated_all_nonempty: "sep_after lo rs \<Longrightarrow> \<forall>r \<in> set rs. range_start r < range_end r"
  by (induction rs arbitrary: lo) auto

lemma sep_after_lower: "sep_after lo rs \<Longrightarrow> \<forall>r \<in> set rs. lo < range_start r"
proof (induction rs arbitrary: lo)
  case Nil
  then show ?case by simp
next
  case (Cons r rs)
  then have "\<forall>q \<in> set rs. range_end r < range_start q" by auto
  with Cons.prems show ?case by auto
qed

lemma separated_pairwise:
  "sep_after lo rs \<Longrightarrow> r \<in> set rs \<Longrightarrow> r' \<in> set rs \<Longrightarrow>
   r = r' \<or> range_end r < range_start r' \<or> range_end r' < range_start r"
proof (induction rs arbitrary: lo)
  case Nil
  then show ?case by simp
next
  case (Cons q qs)
  from Cons.prems(1) have s: "sep_after (range_end q) qs" by simp
  from sep_after_lower[OF s] have lw: "\<forall>x \<in> set qs. range_end q < range_start x" .
  show ?case using Cons.IH[OF s] Cons.prems(2,3) lw by auto
qed

lemma filter_id: "\<forall>x \<in> set xs. P x \<Longrightarrow> filter P xs = xs"
  by (induction xs) auto

lemma filter_none: "\<forall>x \<in> set xs. \<not> P x \<Longrightarrow> filter P xs = []"
  by (induction xs) auto

lemma busy_wf:
  assumes ent: "\<forall>s \<in> set schedule. clientId s = Some cid \<longrightarrow> startTime s < endTime s"
      and cos: "\<forall>co \<in> set callouts.
                  entityType co = ClientEntity \<and> entityId co = cid \<and>
                  isDateAffectedByCalloutRange selectedDate (startDate co) (endDate co)
                  \<longrightarrow> co_startTime co < co_endTime co"
  shows "\<forall>busy \<in> set (busyPeriods schedule cid callouts selectedDate). range_start busy < range_end busy"
  using ent cos by (auto simp: busyPeriods_def)

lemma gaps_separated:
  assumes wf: "\<forall>busy \<in> set (busyPeriods schedule cid callouts selectedDate). range_start busy < range_end busy"
  shows "sep_after (opStart - 1) (getClientCoverageGaps schedule cid callouts selectedDate opStart opEnd)"
proof -
  define bs where "bs = js_sort (\<lambda>a b. range_start a - range_start b)
                     (busyPeriods schedule cid callouts selectedDate)"
  define F where "F = foldl (\<lambda>ranges busy. subtract_busy busy ranges)
              [\<lparr>range_start = opStart, range_end = opEnd\<rparr>] bs"
  have G: "getClientCoverageGaps schedule cid callouts selectedDate opStart opEnd
             = filter (\<lambda>r. range_end r > range_start r) F"
    by (simp add: getClientCoverageGaps_def Let_def F_def bs_def)
  have wfb: "\<forall>busy \<in> set bs. range_start busy < range_end busy"
    using wf by (simp add: bs_def set_js_sort)
  show ?thesis
  proof (cases "opStart < opEnd")
    case True
    then have "sep_after (opStart - 1) [\<lparr>range_start = opStart, range_end = opEnd\<rparr>]" by simp
    from foldl_sep[OF wfb this] have sF: "sep_after (opStart - 1) F" by (simp add: F_def)
    from separated_all_nonempty[OF sF] have "filter (\<lambda>r. range_end r > range_start r) F = F"
      by (intro filter_id) auto
    with sF G show ?thesis by simp
  next
    case False
    then have "\<forall>r \<in> set [\<lparr>range_start = opStart, range_end = opEnd\<rparr>]. range_end r \<le> range_start r"
      by simp
    from foldl_empty[OF this, of bs] have "\<forall>r \<in> set F. range_end r \<le> range_start r"
      by (simp add: F_def)
    then have "filter (\<lambda>r. range_end r > range_start r) F = []"
      by (intro filter_none) auto
    with G show ?thesis by simp
  qed
qed

lemma gaps_pointwise:
  "(\<exists>r \<in> set (getClientCoverageGaps schedule cid callouts selectedDate opStart opEnd). covers r p)
     \<longleftrightarrow> uncovered schedule cid callouts selectedDate opStart opEnd p"
proof -
  define bs where "bs = js_sort (\<lambda>a b. range_start a - range_start b)
                     (busyPeriods schedule cid callouts selectedDate)"
  define F where "F = foldl (\<lambda>ranges busy. subtract_busy busy ranges)
              [\<lparr>range_start = opStart, range_end = opEnd\<rparr>] bs"
  have G: "getClientCoverageGaps schedule cid callouts selectedDate opStart opEnd
             = filter (\<lambda>r. range_end r > range_start r) F"
    by (simp add: getClientCoverageGaps_def Let_def F_def bs_def)
  have "(\<exists>r \<in> set (filter (\<lambda>r. range_end r > range_start r) F). covers r p)
          \<longleftrightarrow> (\<exists>r \<in> set F. covers r p)"
    by (auto simp: covers_def)
  also have "\<dots> \<longleftrightarrow> (covers \<lparr>range_start = opStart, range_end = opEnd\<rparr> p \<and>
                       \<not> (\<exists>busy \<in> set bs. covers busy p))"
    unfolding F_def foldl_covers by simp
  also have "\<dots> \<longleftrightarrow> uncovered schedule cid callouts selectedDate opStart opEnd p"
    by (auto simp: uncovered_def covers_def bs_def set_js_sort list_ex_iff)
  finally show ?thesis unfolding G .
qed

text \<open>
  Claim C7, as amended. When every entry of the client and every client-targeted callout
  of the client in force on the date has its start before its end,
  \<open>getClientCoverageGaps\<close> returns exactly the maximal intervals of the minutes of the
  operating window that none of them covers: the ranges are non-empty, ascending and
  strictly apart, a minute lies in one of them exactly when it is uncovered, the minute
  before a range and the minute at its end are not uncovered, and the list is empty
  exactly when every minute of the window is covered.
\<close>

theorem getClientCoverageGaps_maximal:
  assumes ent: "\<forall>s \<in> set schedule. clientId s = Some cid \<longrightarrow> startTime s < endTime s"
      and cos: "\<forall>co \<in> set callouts.
                  entityType co = ClientEntity \<and> entityId co = cid \<and>
                  isDateAffectedByCalloutRange selectedDate (startDate co) (endDate co)
                  \<longrightarrow> co_startTime co < co_endTime co"
  shows "separated (getClientCoverageGaps schedule cid callouts selectedDate opStart opEnd) \<and>
         (\<forall>p. (\<exists>r \<in> set (getClientCoverageGaps schedule cid callouts selectedDate opStart opEnd).
                   covers r p)
               \<longleftrightarrow> uncovered schedule cid callouts selectedDate opStart opEnd p) \<and>
         (\<forall>r \<in> set (getClientCoverageGaps schedule cid callouts selectedDate opStart opEnd).
             \<not> uncovered schedule cid callouts selectedDate opStart opEnd (range_start r - 1) \<and>
             \<not> uncovered schedule cid callouts selectedDate opStart opEnd (range_end r)) \<and>
         (getClientCoverageGaps schedule cid callouts selectedDate opStart opEnd = [] \<longleftrightarrow>
            (\<forall>p. opStart \<le> p \<and> p < opEnd \<longrightarrow>
                 list_ex (\<lambda>busy. covers busy p) (busyPeriods schedule cid callouts selectedDate)))"
proof -
  define G where "G = getClientCoverageGaps schedule cid callouts selectedDate opStart opEnd"
  define U where "U = uncovered schedule cid callouts selectedDate opStart opEnd"
  have sep: "sep_after (opStart - 1) G"
    unfolding G_def using gaps_separated[OF busy_wf[OF ent cos]] .
  have pw: "\<And>p. (\<exists>r \<in> set G. covers r p) \<longleftrightarrow> U p"
    unfolding G_def U_def by (rule gaps_pointwise)
  have ne: "\<forall>r \<in> set G. range_start r < range_end r"
    using separated_all_nonempty[OF sep] .
  have c1: "separated G" using sep by (rule sep_after_separated)
  have c3: "\<forall>r \<in> set G. \<not> U (range_start r - 1) \<and> \<not> U (range_end r)"
  proof
    fix r assume r: "r \<in> set G"
    have a: "\<not> U (range_start r - 1)"
    proof
      assume "U (range_start r - 1)"
      then obtain r' where r': "r' \<in> set G" "covers r' (range_start r - 1)" using pw by blast
      from separated_pairwise[OF sep r r'(1)] r'(2) ne r show False
        by (auto simp: covers_def)
    qed
    have b: "\<not> U (range_end r)"
    proof
      assume "U (range_end r)"
      then obtain r' where r': "r' \<in> set G" "covers r' (range_end r)" using pw by blast
      from separated_pairwise[OF sep r r'(1)] r'(2) ne r show False
        by (auto simp: covers_def)
    qed
    from a b show "\<not> U (range_start r - 1) \<and> \<not> U (range_end r)" ..
  qed
  have c4: "G = [] \<longleftrightarrow> (\<forall>p. opStart \<le> p \<and> p < opEnd \<longrightarrow>
                 list_ex (\<lambda>busy. covers busy p) (busyPeriods schedule cid callouts selectedDate))"
  proof
    assume "G = []"
    then have "\<And>p. \<not> U p" using pw by simp
    then show "\<forall>p. opStart \<le> p \<and> p < opEnd \<longrightarrow>
                 list_ex (\<lambda>busy. covers busy p) (busyPeriods schedule cid callouts selectedDate)"
      by (auto simp: U_def uncovered_def)
  next
    assume h: "\<forall>p. opStart \<le> p \<and> p < opEnd \<longrightarrow>
                 list_ex (\<lambda>busy. covers busy p) (busyPeriods schedule cid callouts selectedDate)"
    then have nu: "\<And>p. \<not> U p" by (auto simp: U_def uncovered_def)
    show "G = []"
    proof (cases G)
      case Nil
      then show ?thesis .
    next
      case (Cons r rs)
      then have "r \<in> set G" by simp
      with ne have "covers r (range_start r)" by (simp add: covers_def)
      with \<open>r \<in> set G\<close> pw nu show ?thesis by blast
    qed
  qed
  from c1 pw c3 c4 show ?thesis unfolding G_def U_def by blast
qed

theorem getClientCoverageGaps_maximal_witness:
  "getClientCoverageGaps [mk_entry ''e1'' (Some ''c1'') ''t1'' 480 600 ABA] ''c1''
      [ex_callout ''c1'' 720 780] (Some 0) 480 1020
   = [\<lparr>range_start = 600, range_end = 720\<rparr>, \<lparr>range_start = 780, range_end = 1020\<rparr>] \<and>
   \<not> uncovered [mk_entry ''e1'' (Some ''c1'') ''t1'' 480 600 ABA] ''c1''
      [ex_callout ''c1'' 720 780] (Some 0) 480 1020 720"
proof -
  have v: "getClientCoverageGaps [mk_entry ''e1'' (Some ''c1'') ''t1'' 480 600 ABA] ''c1''
      [ex_callout ''c1'' 720 780] (Some 0) 480 1020
   = [\<lparr>range_start = 600, range_end = 720\<rparr>, \<lparr>range_start = 780, range_end = 1020\<rparr>]"
    by (simp add: getClientCoverageGaps_def busyPeriods_def mk_entry_def ex_callout_def
          isDateAffectedByCalloutRange_def js_sort_def subtract_busy_def)
  have e: "\<forall>s \<in> set [mk_entry ''e1'' (Some ''c1'') ''t1'' 480 600 ABA].
             clientId s = Some ''c1'' \<longrightarrow> startTime s < endTime s"
    by (simp add: mk_entry_def)
  have c: "\<forall>co \<in> set [ex_callout ''c1'' 720 780].
                  entityType co = ClientEntity \<and> entityId co = ''c1'' \<and>
                  isDateAffectedByCalloutRange (Some 0) (startDate co) (endDate co)
                  \<longrightarrow> co_startTime co < co_endTime co"
    by (simp add: ex_callout_def)
  from getClientCoverageGaps_maximal[OF e c, of 480 1020] v show ?thesis by simp
qed

text \<open>
  Claim C7 as stated fails on a period whose end is not after its start. A callout window
  from 11:40 to 10:00 covers no minute, so the whole operating window is one uncovered
  interval; the function returns two overlapping ranges instead.
\<close>

theorem getClientCoverageGaps_inverted_callout_counterexample:
  "getClientCoverageGaps [] ''c1'' [ex_callout ''c1'' 700 600] (Some 0) 480 1020
     = [\<lparr>range_start = 480, range_end = 700\<rparr>, \<lparr>range_start = 600, range_end = 1020\<rparr>] \<and>
   uncovered [] ''c1'' [ex_callout ''c1'' 700 600] (Some 0) 480 1020 700"
  by (simp add: getClientCoverageGaps_def busyPeriods_def ex_callout_def uncovered_def covers_def
        isDateAffectedByCalloutRange_def js_sort_def subtract_busy_def)

section \<open>Properties of the duration clamp\<close>






section \<open>Properties of the incremental mutation\<close>

lemma only_times_changed_refl: "only_times_changed e e"
  by (simp add: only_times_changed_def)

lemma frame_ok_refl: "frame_ok s s"
  by (simp add: frame_ok_def only_times_changed_refl)

lemma only_times_sessionType: "only_times_changed e e' \<Longrightarrow> sessionType e' = sessionType e"
  unfolding only_times_changed_def
  by (metis ScheduleEntry.select_convs(9) ScheduleEntry.surjective
        ScheduleEntry.update_convs(7) ScheduleEntry.update_convs(8))

lemma only_times_trans:
  "only_times_changed e e' \<Longrightarrow> only_times_changed e' e'' \<Longrightarrow> only_times_changed e e''"
  unfolding only_times_changed_def by (cases e, cases e', cases e'') simp

lemma frame_ok_update:
  assumes f: "frame_ok inp x" and n: "sessionType (x ! idx) \<noteq> IndirectTime"
      and o: "only_times_changed (x ! idx) e'"
  shows "frame_ok inp (x[idx := e'])"
proof -
  from f have len: "length x = length inp" by (simp add: frame_ok_def)
  have "\<forall>i < length inp.
          (sessionType (inp ! i) = IndirectTime \<longrightarrow> x[idx := e'] ! i = inp ! i) \<and>
          only_times_changed (inp ! i) (x[idx := e'] ! i)"
  proof (intro allI impI)
    fix i assume i: "i < length inp"
    from f i have fi: "sessionType (inp ! i) = IndirectTime \<longrightarrow> x ! i = inp ! i"
      and oi: "only_times_changed (inp ! i) (x ! i)" by (simp_all add: frame_ok_def)
    show "(sessionType (inp ! i) = IndirectTime \<longrightarrow> x[idx := e'] ! i = inp ! i) \<and>
          only_times_changed (inp ! i) (x[idx := e'] ! i)"
    proof (cases "i = idx")
      case True
      from oi have "sessionType (x ! i) = sessionType (inp ! i)" by (rule only_times_sessionType)
      with n True have "sessionType (inp ! i) \<noteq> IndirectTime" by simp
      moreover have "only_times_changed (inp ! i) e'"
        using oi o True only_times_trans by blast
      ultimately show ?thesis using True i len by simp
    next
      case False
      then show ?thesis using fi oi by simp
    qed
  qed
  with len show ?thesis by (simp add: frame_ok_def)
qed

lemma mutate_once_frame:
  assumes "frame_ok inp (fst st)"
  shows "frame_ok inp (fst (mutate_once rnd cl th d co st))"
proof -
  define x where "x = fst st"
  define idx where "idx = random_index (rnd (snd st)) (length x)"
  have f: "frame_ok inp x" using assms by (simp add: x_def)
  have u: "\<And>a b. sessionType (x ! idx) \<noteq> IndirectTime \<Longrightarrow>
             frame_ok inp (x[idx := (x ! idx)\<lparr>startTime := a, endTime := b\<rparr>])"
    by (rule frame_ok_update[OF f]) (simp_all add: only_times_changed_def)
  have v: "\<And>b. sessionType (x ! idx) \<noteq> IndirectTime \<Longrightarrow>
             frame_ok inp (x[idx := (x ! idx)\<lparr>endTime := b\<rparr>])"
    by (rule frame_ok_update[OF f]) (simp_all add: only_times_changed_def)
  show ?thesis
    unfolding mutate_once_def Let_def
    using f u v by (simp add: x_def[symmetric] idx_def[symmetric])
qed

lemma mutate_funpow_frame:
  "frame_ok inp (fst st) \<Longrightarrow> frame_ok inp (fst (((mutate_once rnd cl th d co) ^^ n) st))"
  by (induction n) (auto intro: mutate_once_frame)

text \<open>
  Claim C10. \<open>mutateIncremental\<close> returns a schedule with as many entries as its input;
  an entry of session type IndirectTime is returned unchanged, and every other entry is
  its input version up to \<open>startTime\<close> and \<open>endTime\<close>.
\<close>

theorem mutateIncremental_frame:
  "length (fst (mutateIncremental rnd k schedule clients therapists selectedDate callouts))
     = length schedule \<and>
   (\<forall>i < length schedule.
      (sessionType (schedule ! i) = IndirectTime \<longrightarrow>
         fst (mutateIncremental rnd k schedule clients therapists selectedDate callouts) ! i
           = schedule ! i) \<and>
      only_times_changed (schedule ! i)
        (fst (mutateIncremental rnd k schedule clients therapists selectedDate callouts) ! i))"
proof -
  have "frame_ok schedule
          (fst (mutateIncremental rnd k schedule clients therapists selectedDate callouts))"
    unfolding mutateIncremental_def cloneSchedule_def
    using mutate_funpow_frame[of schedule "(schedule, k)"]
    by (simp add: frame_ok_refl)
  then show ?thesis by (simp add: frame_ok_def)
qed

theorem mutateIncremental_frame_witness:
  "length (fst (mutateIncremental (\<lambda>_. Abs_draw 0) 0
             [mk_entry ''e1'' None ''t1'' 720 750 IndirectTime] [] [] (Some 0) [])) = 1 \<and>
   fst (mutateIncremental (\<lambda>_. Abs_draw 0) 0
          [mk_entry ''e1'' None ''t1'' 720 750 IndirectTime] [] [] (Some 0) []) ! 0
     = mk_entry ''e1'' None ''t1'' 720 750 IndirectTime"
  using mutateIncremental_frame[of "\<lambda>_. Abs_draw 0" 0
          "[mk_entry ''e1'' None ''t1'' 720 750 IndirectTime]" "[]" "[]" "Some 0" "[]"]
  by (simp add: mk_entry_def)

section \<open>Properties of crossover\<close>

lemma ranges_overlap_iff: "ranges_overlap e f \<longleftrightarrow> minutes_of e \<inter> minutes_of f \<noteq> {}"
  by (auto simp: ranges_overlap_def minutes_of_def)

lemma clash_sym: "clash e f \<Longrightarrow> clash f e"
  by (auto simp: clash_def ranges_overlap_def)





















section \<open>Properties of the generational loop\<close>

lemma record_best_generationsRun: "generationsRun (record_best fit gen st) = gen + 1"
  by (simp add: record_best_def Let_def)

lemma evolve_keeps:
  assumes "evolve fit child st cur = Inr r"
  shows "generationsRun (fst r) = generationsRun st"
    and "bestFitnessOverall (fst r) = bestFitnessOverall st"
    and "bestScheduleOverall (fst r) = bestScheduleOverall st"
    and "generationsWithoutImprovement (fst r) = generationsWithoutImprovement st"
  using assms by (auto simp: evolve_def Let_def split: sum.splits)

declare ga_loop.simps [simp del]

lemma ga_loop_stop_zero:
  assumes "gen < MAX_GENERATIONS" and "bestFitnessOverall (record_best fit gen st) = Finite 0"
  shows "ga_loop fit child gen st cur = Inr (record_best fit gen st, cur)"
  using assms by (subst ga_loop.simps) (simp add: Let_def)

lemma ga_loop_stop_plateau:
  assumes "gen < MAX_GENERATIONS"
      and "generationsWithoutImprovement (record_best fit gen st) \<ge> PLATEAU_LIMIT"
  shows "ga_loop fit child gen st cur = Inr (record_best fit gen st, cur)"
  using assms by (subst ga_loop.simps) (simp add: Let_def)

lemma ga_loop_exit:
  assumes "gen < MAX_GENERATIONS" and "ga_loop fit child gen st cur = Inr r"
  shows "gen < generationsRun (fst r) \<and>
         generationsRun (fst r) \<le> MAX_GENERATIONS \<and>
         (generationsRun (fst r) = MAX_GENERATIONS \<or>
          bestFitnessOverall (fst r) = Finite 0 \<or>
          generationsWithoutImprovement (fst r) \<ge> PLATEAU_LIMIT)"
  using assms
proof (induction fit child gen st cur rule: ga_loop.induct)
  case (1 fit child gen st cur)
  let ?st = "record_best fit gen st"
  show ?case
  proof (cases "bestFitnessOverall ?st = Finite 0 \<or> generationsWithoutImprovement ?st \<ge> PLATEAU_LIMIT")
    case True
    then have "ga_loop fit child gen st cur = Inr (?st, cur)"
      using "1.prems"(1) by (subst ga_loop.simps) (auto simp: Let_def)
    with True "1.prems" show ?thesis by (auto simp: record_best_generationsRun)
  next
    case False
    from False "1.prems" obtain e where e: "evolve fit child ?st cur = Inr e"
      by (subst (asm) ga_loop.simps) (auto simp: Let_def split: sum.splits)
    have unf: "ga_loop fit child gen st cur = ga_loop fit child (gen + 1) (fst e) (snd e)"
      using False "1.prems"(1) e by (subst ga_loop.simps) (auto simp: Let_def)
    show ?thesis
    proof (cases "gen + 1 < MAX_GENERATIONS")
      case True
      from False have n0: "bestFitnessOverall ?st \<noteq> Finite 0"
        and np: "\<not> PLATEAU_LIMIT \<le> generationsWithoutImprovement ?st" by auto
      from "1.IH"[OF "1.prems"(1) refl n0 np e True] "1.prems"(2) unf
      show ?thesis by auto
    next
      case f: False
      then have "ga_loop fit child (gen + 1) (fst e) (snd e) = Inr (fst e, snd e)"
        by (subst ga_loop.simps) simp
      with f "1.prems" unf have "r = e" by simp
      with f "1.prems"(1) evolve_keeps[OF e] show ?thesis
        by (simp add: record_best_generationsRun)
    qed
  qed
qed

lemma finish_run_generations:
  "finish_run fit validate therapists st = Inr R \<Longrightarrow> generations R = generationsRun st"
  by (auto simp: finish_run_def Let_def split: option.splits sum.splits prod.splits)

lemma finish_run_success:
  "finish_run fit validate therapists st = Inr R \<Longrightarrow> success R = best_below (bestFitness R) 500"
  by (auto simp: finish_run_def Let_def split: option.splits sum.splits prod.splits)

lemma max_pos: "0 < MAX_GENERATIONS" by (simp add: MAX_GENERATIONS_def)

lemma optimise_Inr:
  assumes "optimise fit child validate therapists pop cur = Inr R"
  obtains r where "ga_loop fit child 0 (initial_state pop) cur = Inr r"
    and "finish_run fit validate therapists (fst r) = Inr R"
  using assms by (auto simp: optimise_def split: sum.splits)

declare add_children.simps [simp del]
declare fill_population.simps [simp del]
lemma sorted_insert_by:
  "sorted (map snd ys) \<Longrightarrow>
   sorted (map snd (insert_by (\<lambda>a b. snd a - snd b :: real) x ys))"
  by (induction ys) (auto simp: set_insert_by)

lemma sorted_js_sort: "sorted (map snd (js_sort (\<lambda>a b. snd a - snd b :: real) xs))"
proof (induction xs)
  case Nil
  then show ?case by (simp add: js_sort_def)
next
  case (Cons x xs)
  then show ?case using sorted_insert_by[of "js_sort (\<lambda>a b. snd a - snd b) xs" x]
    by (simp add: js_sort_def)
qed

lemma hd_score_population:
  assumes "p \<noteq> []"
  shows "snd (hd (score_population fit p)) = Min (fit ` set p)"
proof -
  let ?s = "score_population fit p"
  have st: "set ?s = (\<lambda>q. (q, fit q)) ` set p"
    by (simp add: score_population_def set_js_sort)
  then have ne: "?s \<noteq> []" using assms by auto
  have so: "sorted (map snd ?s)" unfolding score_population_def by (rule sorted_js_sort)
  have im: "set (map snd ?s) = fit ` set p" using st by (auto simp: image_iff)
  from ne obtain z zs where z: "map snd ?s = z # zs" by (cases ?s) auto
  with so have "\<forall>y \<in> set (z # zs). z \<le> y" by auto
  then have "Min (set (z # zs)) = z" by (intro Min_eqI) auto
  moreover have "snd (hd ?s) = z" using z ne by (cases ?s) auto
  ultimately show ?thesis using im z by simp
qed

lemma add_children_length:
  "add_children child pwf newPop cur = Inr q \<Longrightarrow> POPULATION_SIZE \<le> length (fst q)"
proof (induction child pwf newPop cur rule: add_children.induct)
  case (1 child pwf newPop cur)
  show ?case
  proof (cases "length newPop < POPULATION_SIZE")
    case True
    with "1.prems" obtain c where c: "child pwf cur = Inr c"
      and a: "add_children child pwf (newPop @ [fst c]) (snd c) = Inr q"
      by (subst (asm) add_children.simps) (auto split: sum.splits)
    from "1.IH"[OF True c a] show ?thesis .
  next
    case False
    with "1.prems" have "q = (newPop, cur)" by (subst (asm) add_children.simps) simp
    with False show ?thesis by simp
  qed
qed

lemma evolve_population:
  assumes "evolve fit child st cur = Inr e"
  shows "evolve fit child (initial_state (population st)) cur =
           Inr ((initial_state (population st))\<lparr>population := population (fst e)\<rparr>, snd e)"
    and "population (fst e) \<noteq> []"
proof -
  from assms obtain q where
    q: "add_children child (score_population fit (population st))
          (map (\<lambda>p. cloneSchedule (fst p)) (take eliteCount (score_population fit (population st)))) cur
        = Inr q" and e: "e = (st\<lparr>population := fst q\<rparr>, snd q)"
    by (auto simp: evolve_def Let_def split: sum.splits)
  show "evolve fit child (initial_state (population st)) cur =
           Inr ((initial_state (population st))\<lparr>population := population (fst e)\<rparr>, snd e)"
    using q e by (simp add: evolve_def Let_def initial_state_def)
  from add_children_length[OF q] e show "population (fst e) \<noteq> []"
    by (auto simp: POPULATION_SIZE_def)
qed

lemma generation_Suc:
  assumes "generation fit child pop cur0 g = Inr (population st, cur)"
      and "evolve fit child st cur = Inr e"
  shows "generation fit child pop cur0 (Suc g) = Inr (population (fst e), snd e)"
  using assms(1) evolve_population(1)[OF assms(2)] by simp

lemma best_ever_0: "best_ever fit child pop cur 0 = generation_best fit child pop cur 0"
  by (simp add: best_ever_def)

lemma best_ever_Suc:
  "best_ever fit child pop cur (Suc g) =
     min (generation_best fit child pop cur (Suc g)) (best_ever fit child pop cur g)"
  by (simp add: best_ever_def atMost_Suc)

lemma improves_0: "improves fit child pop cur 0"
  by (simp add: improves_def)

lemma improves_Suc:
  "improves fit child pop cur (Suc g) \<longleftrightarrow>
     generation_best fit child pop cur (Suc g) < best_ever fit child pop cur g"
  by (auto simp: improves_def best_ever_def less_Suc_eq_le)

lemma without_improvement_ge:
  "0 < n \<Longrightarrow>
   n \<le> without_improvement fit child pop cur g \<longleftrightarrow>
     (n \<le> g \<and> (\<forall>g' \<in> {Suc (g - n) .. g}. \<not> improves fit child pop cur g'))"
proof (induction g arbitrary: n)
  case 0
  then show ?case by simp
next
  case (Suc g)
  show ?case
  proof (cases "improves fit child pop cur (Suc g)")
    case True
    with Suc.prems show ?thesis by auto
  next
    case False
    show ?thesis
    proof (cases "n = 1")
      case True
      with False show ?thesis by simp
    next
      case n: False
      with Suc.prems have n1: "0 < n - 1" by simp
      have s: "{Suc (Suc g - n) .. Suc g} = insert (Suc g) {Suc (g - (n - 1)) .. g}"
        using Suc.prems n by auto
      have d: "Suc g - n = g - (n - 1)" using Suc.prems by simp
      have "n \<le> without_improvement fit child pop cur (Suc g) \<longleftrightarrow>
              n - 1 \<le> without_improvement fit child pop cur g"
        using False Suc.prems by auto
      also have "\<dots> \<longleftrightarrow> (n - 1 \<le> g \<and> (\<forall>g' \<in> {Suc (g - (n - 1)) .. g}. \<not> improves fit child pop cur g'))"
        by (rule Suc.IH[OF n1])
      also have "\<dots> \<longleftrightarrow> (n \<le> Suc g \<and> (\<forall>g' \<in> {Suc (Suc g - n) .. Suc g}. \<not> improves fit child pop cur g'))"
        using False Suc.prems unfolding s by auto
      finally show ?thesis .
    qed
  qed
qed

lemma plateau_iff:
  "plateau fit child pop cur g \<longleftrightarrow> PLATEAU_LIMIT \<le> without_improvement fit child pop cur g"
  unfolding plateau_def
  by (rule without_improvement_ge[symmetric]) (simp add: PLATEAU_LIMIT_def)

lemma generation_best_hd:
  assumes "generation fit child pop cur0 g = Inr (population st, cur)" and "population st \<noteq> []"
  shows "snd (hd (score_population fit (population st))) = generation_best fit child pop cur0 g"
  using assms by (simp add: generation_best_def population_of_def hd_score_population)

lemma record_best_trace:
  assumes g: "generation fit child pop cur0 gen = Inr (population st, cur)"
      and ne: "population st \<noteq> []"
      and i0: "gen = 0 \<longrightarrow> bestFitnessOverall st = Infinity"
      and iS: "0 < gen \<longrightarrow>
                 bestFitnessOverall st = Finite (best_ever fit child pop cur0 (gen - 1)) \<and>
                 generationsWithoutImprovement st = without_improvement fit child pop cur0 (gen - 1)"
  shows "bestFitnessOverall (record_best fit gen st) = Finite (best_ever fit child pop cur0 gen)"
    and "generationsWithoutImprovement (record_best fit gen st) =
           without_improvement fit child pop cur0 gen"
    and "population (record_best fit gen st) = population st"
proof -
  note b = generation_best_hd[OF g ne]
  show "population (record_best fit gen st) = population st"
    by (simp add: record_best_def Let_def)
  show "bestFitnessOverall (record_best fit gen st) = Finite (best_ever fit child pop cur0 gen)"
  proof (cases gen)
    case 0
    with i0 b show ?thesis by (simp add: record_best_def Let_def best_ever_0)
  next
    case (Suc k)
    with iS b show ?thesis
      by (auto simp: record_best_def Let_def best_ever_Suc min_def)
  qed
  show "generationsWithoutImprovement (record_best fit gen st) =
           without_improvement fit child pop cur0 gen"
  proof (cases gen)
    case 0
    with i0 b show ?thesis by (simp add: record_best_def Let_def)
  next
    case (Suc k)
    with iS b show ?thesis
      by (auto simp: record_best_def Let_def improves_Suc)
  qed
qed

lemma ga_loop_trace:
  "ga_loop fit child gen st cur = Inr r \<Longrightarrow>
   gen < MAX_GENERATIONS \<Longrightarrow>
   generation fit child pop cur0 gen = Inr (population st, cur) \<Longrightarrow>
   population st \<noteq> [] \<Longrightarrow>
   (gen = 0 \<longrightarrow> bestFitnessOverall st = Infinity) \<Longrightarrow>
   (0 < gen \<longrightarrow>
      bestFitnessOverall st = Finite (best_ever fit child pop cur0 (gen - 1)) \<and>
      generationsWithoutImprovement st = without_improvement fit child pop cur0 (gen - 1)) \<Longrightarrow>
   (\<forall>g < gen. \<not> leaves_at fit child pop cur0 g) \<Longrightarrow>
   gen < generationsRun (fst r) \<and> generationsRun (fst r) \<le> MAX_GENERATIONS \<and>
   bestFitnessOverall (fst r) =
     Finite (best_ever fit child pop cur0 (generationsRun (fst r) - 1)) \<and>
   generationsWithoutImprovement (fst r) =
     without_improvement fit child pop cur0 (generationsRun (fst r) - 1) \<and>
   (\<forall>g < generationsRun (fst r) - 1. \<not> leaves_at fit child pop cur0 g) \<and>
   (generationsRun (fst r) < MAX_GENERATIONS \<longrightarrow>
      leaves_at fit child pop cur0 (generationsRun (fst r) - 1))"
proof (induction fit child gen st cur rule: ga_loop.induct)
  case (1 fit child gen st cur)
  let ?st = "record_best fit gen st"
  note rb = record_best_trace[OF "1.prems"(3) "1.prems"(4) "1.prems"(5) "1.prems"(6)]
  have ex: "leaves_at fit child pop cur0 gen \<longleftrightarrow>
              bestFitnessOverall ?st = Finite 0 \<or> PLATEAU_LIMIT \<le> generationsWithoutImprovement ?st"
    using rb by (simp add: leaves_at_def plateau_iff)
  show ?case
  proof (cases "leaves_at fit child pop cur0 gen")
    case True
    then have "ga_loop fit child gen st cur = Inr (?st, cur)"
      using "1.prems"(2) ex by (subst ga_loop.simps) (auto simp: Let_def)
    with "1.prems"(1) have r: "r = (?st, cur)" by simp
    show ?thesis using rb True "1.prems"(2) "1.prems"(7)
      by (simp add: r record_best_generationsRun)
  next
    case False
    then have n0: "bestFitnessOverall ?st \<noteq> Finite 0"
      and np: "\<not> PLATEAU_LIMIT \<le> generationsWithoutImprovement ?st" using ex by auto
    from n0 np "1.prems"(1,2) obtain e where e: "evolve fit child ?st cur = Inr e"
      by (subst (asm) ga_loop.simps) (auto simp: Let_def split: sum.splits)
    have unf: "ga_loop fit child gen st cur = ga_loop fit child (gen + 1) (fst e) (snd e)"
      using n0 np "1.prems"(2) e by (subst ga_loop.simps) (auto simp: Let_def)
    note k = evolve_keeps[OF e]
    have all: "\<forall>g < gen + 1. \<not> leaves_at fit child pop cur0 g"
      using False "1.prems"(7) by (auto simp: less_Suc_eq)
    show ?thesis
    proof (cases "gen + 1 < MAX_GENERATIONS")
      case True
      have g': "generation fit child pop cur0 (gen + 1) = Inr (population (fst e), snd e)"
        using generation_Suc[of fit child pop cur0 gen ?st cur e] "1.prems"(3) rb(3) e by simp
      have ne': "population (fst e) \<noteq> []" by (rule evolve_population(2)[OF e])
      have i0: "gen + 1 = 0 \<longrightarrow> bestFitnessOverall (fst e) = Infinity" by simp
      have iS: "0 < gen + 1 \<longrightarrow>
                  bestFitnessOverall (fst e) = Finite (best_ever fit child pop cur0 (gen + 1 - 1)) \<and>
                  generationsWithoutImprovement (fst e) =
                    without_improvement fit child pop cur0 (gen + 1 - 1)"
        using k rb by simp
      have lp: "ga_loop fit child (gen + 1) (fst e) (snd e) = Inr r"
        using unf "1.prems"(1) by simp
      from "1.IH"[OF "1.prems"(2) refl n0 np e lp True g' ne' i0 iS all]
      show ?thesis by auto
    next
      case f: False
      then have "ga_loop fit child (gen + 1) (fst e) (snd e) = Inr (fst e, snd e)"
        by (subst ga_loop.simps) simp
      with "1.prems"(1) unf have r: "r = e" by simp
      have G: "generationsRun (fst e) = gen + 1" using k by (simp add: record_best_generationsRun)
      have b: "bestFitnessOverall (fst e) = Finite (best_ever fit child pop cur0 gen)"
        using k(2) rb(1) by simp
      have w: "generationsWithoutImprovement (fst e) = without_improvement fit child pop cur0 gen"
        using k(4) rb(2) by simp
      show ?thesis using f "1.prems"(2,7) b w unfolding r G by simp
    qed
  qed
qed

lemma fill_population_length:
  "fill_population orc clients therapists day' selectedDate callouts baseScheduleForDay
     learningContext pop cur = Inr q \<Longrightarrow> POPULATION_SIZE \<le> length (fst q)"
proof (induction orc clients therapists day' selectedDate callouts baseScheduleForDay
         learningContext pop cur rule: fill_population.induct)
  case (1 orc clients therapists day' selectedDate callouts baseScheduleForDay learningContext
          pop cur)
  show ?case
  proof (cases "length pop < POPULATION_SIZE")
    case True
    with "1.prems" obtain c where
      c: "constructiveHeuristicInitialization orc cur clients therapists day' selectedDate
            callouts baseScheduleForDay learningContext = Inr c"
      and a: "fill_population orc clients therapists day' selectedDate callouts
                baseScheduleForDay learningContext (pop @ [fst c]) (snd c) = Inr q"
      by (subst (asm) fill_population.simps) (auto split: sum.splits)
    from "1.IH"[OF True c a] show ?thesis .
  next
    case False
    with "1.prems" have "q = (pop, cur)" by (subst (asm) fill_population.simps) simp
    with False show ?thesis by simp
  qed
qed

lemma initial_population_nonempty:
  assumes "initial_population orc cur clients therapists selectedDate callouts
             initialScheduleForOptimization baseSchedules highRated = Inr p"
  shows "fst p \<noteq> []"
proof -
  from assms obtain a b c d e where
    "fill_population orc clients therapists a selectedDate callouts b c d e = Inr p"
    unfolding initial_population_def Let_def by (auto split: sum.splits)
  from fill_population_length[OF this] show ?thesis by (auto simp: POPULATION_SIZE_def)
qed

lemma ga_loop_from_start:
  assumes "pop \<noteq> []" and "ga_loop fit child 0 (initial_state pop) cur = Inr r"
  shows "bestFitnessOverall (fst r) =
           Finite (best_ever fit child pop cur (generationsRun (fst r) - 1)) \<and>
         generationsWithoutImprovement (fst r) =
           without_improvement fit child pop cur (generationsRun (fst r) - 1) \<and>
         (\<forall>g < generationsRun (fst r) - 1. \<not> leaves_at fit child pop cur g) \<and>
         (generationsRun (fst r) < MAX_GENERATIONS \<longrightarrow>
            leaves_at fit child pop cur (generationsRun (fst r) - 1))"
proof -
  have "generation fit child pop cur 0 = Inr (population (initial_state pop), cur)"
    by (simp add: initial_state_def)
  moreover have "population (initial_state pop) \<noteq> []" using assms(1) by (simp add: initial_state_def)
  moreover have "0 = (0::nat) \<longrightarrow> bestFitnessOverall (initial_state pop) = Infinity"
    by (simp add: initial_state_def)
  ultimately show ?thesis
    using ga_loop_trace[OF assms(2) max_pos, of pop cur] by simp
qed

text \<open>
  Claim C4. The loop runs at most \<open>MAX_GENERATIONS = 150\<close> generations and the count a
  run returns is between 1 and 150. The loop is left in the first generation in which the
  best fitness ever recorded (the least fitness of an individual in any population so
  far) is 0, or in which none of the last \<open>PLATEAU_LIMIT = 30\<close> generations has
  improved on the best fitness of the generations before it: no earlier generation meets
  either condition, a run that ends before generation 150 meets one of them in its last
  generation, and the state the loop returns holds that best fitness and that count of
  generations without improvement. The population of \<open>runCsoAlgorithm\<close> is never empty,
  and the count \<open>runCsoAlgorithm\<close> returns is the number of generations of its loop.
\<close>

theorem optimise_generations:
  "(optimise fit child validate therapists pop cur = Inr R \<longrightarrow>
      1 \<le> generations R \<and> generations R \<le> 150) \<and>
   (ga_loop fit child 0 (initial_state pop) cur = Inr r \<longrightarrow>
      generationsRun (fst r) \<le> MAX_GENERATIONS \<and>
      (optimise fit child validate therapists pop cur = Inr R \<longrightarrow>
         generations R = generationsRun (fst r)) \<and>
      (generationsRun (fst r) < MAX_GENERATIONS \<longrightarrow>
         bestFitnessOverall (fst r) = Finite 0 \<or>
         generationsWithoutImprovement (fst r) \<ge> PLATEAU_LIMIT) \<and>
      (pop \<noteq> [] \<longrightarrow>
         bestFitnessOverall (fst r) =
           Finite (best_ever fit child pop cur (generationsRun (fst r) - 1)) \<and>
         generationsWithoutImprovement (fst r) =
           without_improvement fit child pop cur (generationsRun (fst r) - 1) \<and>
         (\<forall>g < generationsRun (fst r) - 1. \<not> leaves_at fit child pop cur g) \<and>
         (generationsRun (fst r) < MAX_GENERATIONS \<longrightarrow>
            leaves_at fit child pop cur (generationsRun (fst r) - 1)))) \<and>
   (plateau fit child pop cur g \<longleftrightarrow>
      PLATEAU_LIMIT \<le> without_improvement fit child pop cur g) \<and>
   (initial_population orc cur0 clients therapists selectedDate callouts
      initialScheduleForOptimization baseSchedules highRated = Inr p \<longrightarrow>
      fst p \<noteq> [] \<and>
      runCsoAlgorithm orc cur0 clients therapists selectedDate callouts
        initialScheduleForOptimization baseSchedules highRated =
      optimise (\<lambda>p. calculateFitness p clients therapists selectedDate callouts)
        (make_child orc clients therapists (getDayOfWeekFromDate selectedDate) selectedDate
           callouts)
        (\<lambda>finalCleaned. validateFullSchedule finalCleaned clients therapists selectedDate
                           COMPANY_OPERATING_HOURS_START COMPANY_OPERATING_HOURS_END callouts)
        therapists (fst p) (snd p)) \<and>
   (runCsoAlgorithm orc cur0 clients therapists selectedDate callouts
      initialScheduleForOptimization baseSchedules highRated = Inr R' \<longrightarrow>
      1 \<le> generations R' \<and> generations R' \<le> 150) \<and>
   MAX_GENERATIONS = 150 \<and> PLATEAU_LIMIT = 30 \<and>
   (gen < MAX_GENERATIONS \<and> bestFitnessOverall (record_best fit gen st) = Finite 0 \<longrightarrow>
      ga_loop fit child gen st cur' = Inr (record_best fit gen st, cur')) \<and>
   (gen < MAX_GENERATIONS \<and> generationsWithoutImprovement (record_best fit gen st) \<ge> PLATEAU_LIMIT \<longrightarrow>
      ga_loop fit child gen st cur' = Inr (record_best fit gen st, cur'))"
proof -
  have a: "1 \<le> generations R \<and> generations R \<le> 150"
    if "optimise fit child validate therapists pop cur = Inr R"
    for fit and child :: "scored list \<Rightarrow> 'x \<Rightarrow> js_error + GeneratedSchedule \<times> 'x"
      and validate therapists pop cur R
  proof -
    from that obtain q where q: "ga_loop fit child 0 (initial_state pop) cur = Inr q"
      and f: "finish_run fit validate therapists (fst q) = Inr R"
      by (rule optimise_Inr)
    from ga_loop_exit[OF max_pos q] finish_run_generations[OF f]
    show ?thesis by (simp add: MAX_GENERATIONS_def)
  qed
  have b: "generationsRun (fst r) \<le> MAX_GENERATIONS \<and>
      (optimise fit child validate therapists pop cur = Inr R \<longrightarrow>
         generations R = generationsRun (fst r)) \<and>
      (generationsRun (fst r) < MAX_GENERATIONS \<longrightarrow>
         bestFitnessOverall (fst r) = Finite 0 \<or>
         generationsWithoutImprovement (fst r) \<ge> PLATEAU_LIMIT)"
    if q: "ga_loop fit child 0 (initial_state pop) cur = Inr r"
  proof -
    have "optimise fit child validate therapists pop cur = Inr R \<Longrightarrow>
            generations R = generationsRun (fst r)"
      using q by (simp add: optimise_def finish_run_generations)
    with ga_loop_exit[OF max_pos q] show ?thesis by auto
  qed
  have c: "fst p \<noteq> [] \<and>
      runCsoAlgorithm orc cur0 clients therapists selectedDate callouts
        initialScheduleForOptimization baseSchedules highRated =
      optimise (\<lambda>p. calculateFitness p clients therapists selectedDate callouts)
        (make_child orc clients therapists (getDayOfWeekFromDate selectedDate) selectedDate
           callouts)
        (\<lambda>finalCleaned. validateFullSchedule finalCleaned clients therapists selectedDate
                           COMPANY_OPERATING_HOURS_START COMPANY_OPERATING_HOURS_END callouts)
        therapists (fst p) (snd p)"
    if "initial_population orc cur0 clients therapists selectedDate callouts
          initialScheduleForOptimization baseSchedules highRated = Inr p"
    using that initial_population_nonempty[OF that] by (simp add: runCsoAlgorithm_def)
  have d: "1 \<le> generations R' \<and> generations R' \<le> 150"
    if "runCsoAlgorithm orc cur0 clients therapists selectedDate callouts
          initialScheduleForOptimization baseSchedules highRated = Inr R'"
  proof -
    from that obtain q where
      "optimise (\<lambda>p. calculateFitness p clients therapists selectedDate callouts)
        (make_child orc clients therapists (getDayOfWeekFromDate selectedDate) selectedDate
           callouts)
        (\<lambda>finalCleaned. validateFullSchedule finalCleaned clients therapists selectedDate
                           COMPANY_OPERATING_HOURS_START COMPANY_OPERATING_HOURS_END callouts)
        therapists (fst q) (snd q) = Inr R'"
      unfolding runCsoAlgorithm_def by (auto split: sum.splits)
    then show ?thesis by (rule a)
  qed
  note e = ga_loop_from_start[of pop fit child cur r]
  note f = plateau_iff[of fit child pop cur g]
  from a[of fit child validate therapists pop cur R] b c d e f
    ga_loop_stop_zero[of gen fit st child cur'] ga_loop_stop_plateau[of gen fit st child cur']
  show ?thesis by (simp add: MAX_GENERATIONS_def PLATEAU_LIMIT_def)
qed

text \<open>
  Claim C1. Whatever the inputs, the result of a run has \<open>success = true\<close> exactly when
  the \<open>bestFitness\<close> it returns is strictly below 500.
\<close>

theorem optimise_success_iff:
  "optimise fit child validate therapists pop cur = Inr R \<Longrightarrow>
     (success R \<longleftrightarrow> best_below (bestFitness R) 500)"
  by (erule optimise_Inr) (simp add: finish_run_success)

lemma local_search_iter_Nil: "local_search_iter fit therapists n [] f = Inr []"
  by (cases n) (simp_all add: index_pairs_def)

lemma cleanupScheduleIssues_Nil: "cleanupScheduleIssues [] = []"
proof -
  have p: "cleanup_pass [] = ([], False)" by (simp add: cleanup_pass_def)
  have "cleanup_loop True 0 [] = cleanup_loop False 1 []"
    by (subst cleanup_loop.simps) (simp add: p MAX_MERGE_ITERATIONS_def)
  also have "\<dots> = []" by (subst cleanup_loop.simps) simp
  finally show ?thesis by (simp add: cleanupScheduleIssues_def)
qed

lemma record_best_example:
  "record_best (\<lambda>_. 0) 0 (initial_state [[]]) =
     \<lparr>population = [[]], bestFitnessOverall = Finite 0, bestScheduleOverall = Some [],
      generationsRun = 1, generationsWithoutImprovement = 0\<rparr>"
  by (simp add: record_best_def initial_state_def score_population_def js_sort_def
        cloneSchedule_def Let_def)

lemma ga_loop_example:
  "ga_loop (\<lambda>_. 0) (\<lambda>p c. Inr ([], c)) 0 (initial_state [[]]) (0::nat) =
     Inr (record_best (\<lambda>_. 0) 0 (initial_state [[]]), 0)"
  by (rule ga_loop_stop_zero) (simp_all add: record_best_example MAX_GENERATIONS_def)

lemma optimise_example:
  "optimise (\<lambda>_. 0) (\<lambda>p c. Inr ([], c)) (\<lambda>_. []) [] [[]] (0::nat) =
     Inr \<lparr>result_schedule = [], finalValidationErrors = [], generations = 1,
          bestFitness = Finite 0, success = True\<rparr>"
  by (simp add: optimise_def ga_loop_example record_best_example finish_run_def
        localSearchImprovement_def cloneSchedule_def local_search_iter_Nil
        cleanupScheduleIssues_Nil)

theorem optimise_success_iff_witness:
  "success \<lparr>result_schedule = [], finalValidationErrors = [], generations = 1,
            bestFitness = Finite 0, success = True\<rparr> \<and>
   best_below (bestFitness \<lparr>result_schedule = [], finalValidationErrors = [], generations = 1,
            bestFitness = Finite 0, success = True\<rparr>) 500"
  using optimise_success_iff[OF optimise_example] by simp

lemma insert_by_replicate:
  "cmp x x \<le> 0 \<Longrightarrow> insert_by cmp x (replicate n x) = replicate (Suc n) x"
  by (cases n) simp_all

lemma js_sort_replicate: "cmp x x \<le> 0 \<Longrightarrow> js_sort cmp (replicate n x) = replicate n x"
proof (induction n)
  case 0
  then show ?case by (simp add: js_sort_def)
next
  case (Suc n)
  then have "js_sort cmp (replicate n x) = replicate n x" by simp
  then have "js_sort cmp (replicate (Suc n) x) = insert_by cmp x (replicate n x)"
    by (simp add: js_sort_def)
  with Suc.prems show ?case by (simp only: insert_by_replicate)
qed

lemma score_population_replicate:
  "score_population fit (replicate n []) = replicate n ([], fit [])"
  by (simp add: score_population_def js_sort_replicate)

lemma add_children_ex:
  "n \<le> POPULATION_SIZE \<Longrightarrow>
   add_children ex_child pwf (replicate n []) c = Inr (replicate POPULATION_SIZE [], c)"
proof (induction "POPULATION_SIZE - n" arbitrary: n)
  case 0
  then show ?case by (subst add_children.simps) simp
next
  case (Suc m)
  then have l: "n < POPULATION_SIZE" by simp
  have m: "m = POPULATION_SIZE - Suc n" using Suc(2) by simp
  have "add_children ex_child pwf (replicate n []) c =
        add_children ex_child pwf (replicate (Suc n) []) c"
    using l by (subst add_children.simps) (simp add: ex_child_def replicate_append_same)
  also have "\<dots> = Inr (replicate POPULATION_SIZE [], c)"
    using l by (intro Suc(1)[OF m]) simp
  finally show ?case .
qed

lemma ex_state_simps:
  "population (ex_state g w) = replicate POPULATION_SIZE []"
  "bestFitnessOverall (ex_state g w) = Finite 1"
  "generationsRun (ex_state g w) = g"
  "generationsWithoutImprovement (ex_state g w) = w"
  by (simp_all add: ex_state_def)

lemma evolve_ex: "evolve fit ex_child (ex_state g w) c = Inr (ex_state g w, c)"
proof -
  have "eliteCount \<le> POPULATION_SIZE" by (simp add: eliteCount_def POPULATION_SIZE_def)
  then show ?thesis
    by (simp add: evolve_def Let_def ex_state_def score_population_replicate add_children_ex
          cloneSchedule_def)
qed

lemma record_best_ex:
  "record_best (\<lambda>_. 1) gen (ex_state g w) = ex_state (gen + 1) (w + 1)"
  by (simp add: record_best_def Let_def ex_state_def score_population_replicate
        POPULATION_SIZE_def)

lemma record_best_ex_start:
  "record_best (\<lambda>_. 1) 0 (initial_state (replicate POPULATION_SIZE [])) = ex_state 1 0"
  by (simp add: record_best_def Let_def ex_state_def initial_state_def score_population_replicate
        POPULATION_SIZE_def cloneSchedule_def)

lemma ga_loop_ex:
  "w < PLATEAU_LIMIT \<Longrightarrow> gen + (PLATEAU_LIMIT - w) \<le> MAX_GENERATIONS \<Longrightarrow>
   ga_loop (\<lambda>_. 1) ex_child gen (ex_state g w) c =
     Inr (ex_state (gen + (PLATEAU_LIMIT - w)) PLATEAU_LIMIT, c)"
proof (induction "PLATEAU_LIMIT - w" arbitrary: w gen g)
  case 0
  then show ?case by simp
next
  case (Suc m)
  have lt: "gen < MAX_GENERATIONS" using Suc.prems by simp
  show ?case
  proof (cases "w + 1 = PLATEAU_LIMIT")
    case True
    then have "ga_loop (\<lambda>_. 1) ex_child gen (ex_state g w) c = Inr (ex_state (gen + 1) (w + 1), c)"
      using lt by (subst ga_loop.simps) (simp add: record_best_ex Let_def ex_state_simps)
    moreover have "PLATEAU_LIMIT - w = 1" using True by simp
    ultimately show ?thesis using True by simp
  next
    case False
    then have w: "w + 1 < PLATEAU_LIMIT" using Suc.prems by simp
    have m: "m = PLATEAU_LIMIT - (w + 1)" using Suc(2) by simp
    have "ga_loop (\<lambda>_. 1) ex_child gen (ex_state g w) c =
          ga_loop (\<lambda>_. 1) ex_child (gen + 1) (ex_state (gen + 1) (w + 1)) c"
      using lt w by (subst ga_loop.simps) (simp add: record_best_ex Let_def ex_state_simps evolve_ex)
    also have "\<dots> = Inr (ex_state (gen + 1 + (PLATEAU_LIMIT - (w + 1))) PLATEAU_LIMIT, c)"
      using w Suc.prems by (intro Suc(1)[OF m]) simp_all
    also have "gen + 1 + (PLATEAU_LIMIT - (w + 1)) = gen + (PLATEAU_LIMIT - w)"
      using w by simp
    finally show ?thesis .
  qed
qed

lemma ga_loop_ex_start:
  "ga_loop (\<lambda>_. 1) ex_child 0 (initial_state (replicate POPULATION_SIZE [])) (0::nat) =
     Inr (ex_state 31 30, 0)"
proof -
  have "ga_loop (\<lambda>_. 1) ex_child 0 (initial_state (replicate POPULATION_SIZE [])) (0::nat) =
        ga_loop (\<lambda>_. 1) ex_child 1 (ex_state 1 0) 0"
    by (subst ga_loop.simps)
      (simp add: record_best_ex_start Let_def ex_state_simps evolve_ex MAX_GENERATIONS_def
         PLATEAU_LIMIT_def)
  also have "\<dots> = Inr (ex_state (1 + (PLATEAU_LIMIT - 0)) PLATEAU_LIMIT, 0)"
    by (rule ga_loop_ex) (simp_all add: MAX_GENERATIONS_def PLATEAU_LIMIT_def)
  finally show ?thesis by (simp add: PLATEAU_LIMIT_def)
qed

lemma optimise_ex:
  "optimise (\<lambda>_. 1) ex_child (\<lambda>_. []) [] (replicate POPULATION_SIZE []) (0::nat) =
     Inr \<lparr>result_schedule = [], finalValidationErrors = [], generations = 31,
          bestFitness = Finite 1, success = True\<rparr>"
  by (simp add: optimise_def ga_loop_ex_start ex_state_def finish_run_def
        localSearchImprovement_def cloneSchedule_def local_search_iter_Nil
        cleanupScheduleIssues_Nil)

theorem optimise_generations_witness:
  "generations \<lparr>result_schedule = [], finalValidationErrors = [], generations = 31,
                bestFitness = Finite 1, success = True\<rparr> = generationsRun (ex_state 31 30) \<and>
   generationsRun (ex_state 31 30) = 31 \<and>
   generationsRun (ex_state 31 30) \<le> MAX_GENERATIONS \<and>
   best_ever (\<lambda>_. 1) ex_child (replicate POPULATION_SIZE []) 0 30 = 1 \<and>
   without_improvement (\<lambda>_. 1) ex_child (replicate POPULATION_SIZE []) 0 30 = 30 \<and>
   plateau (\<lambda>_. 1) ex_child (replicate POPULATION_SIZE []) 0 30 \<and>
   leaves_at (\<lambda>_. 1) ex_child (replicate POPULATION_SIZE []) 0 30 \<and>
   \<not> leaves_at (\<lambda>_. 1) ex_child (replicate POPULATION_SIZE []) 0 29 \<and>
   \<not> leaves_at (\<lambda>_. 1) ex_child (replicate POPULATION_SIZE []) 0 0"
proof -
  note t = optimise_generations[where fit="\<lambda>_. 1" and child=ex_child and validate="\<lambda>_. []"
         and therapists="[]" and pop="replicate POPULATION_SIZE []" and cur="0::nat"
         and R="\<lparr>result_schedule = [], finalValidationErrors = [], generations = 31,
                  bestFitness = Finite 1, success = True\<rparr>"
         and r="(ex_state 31 30, 0)" and g=30 and orc=ex_oracles and ?cur0.0="(0, 0)"
         and clients="[]" and selectedDate=0 and callouts="[]"
         and initialScheduleForOptimization=None and baseSchedules="[]" and highRated="[]"
         and p="([], 0, 0)"
         and R'="\<lparr>result_schedule = [], finalValidationErrors = [], generations = 31,
                  bestFitness = Finite 1, success = True\<rparr>"
         and gen=0 and st="ex_state 0 0" and cur'="0::nat", unfolded fst_conv snd_conv]
  have ne: "replicate POPULATION_SIZE ([]::GeneratedSchedule) \<noteq> []"
    by (simp add: POPULATION_SIZE_def)
  have g: "generationsRun (ex_state 31 30) = 31"
    and b: "bestFitnessOverall (ex_state 31 30) = Finite 1"
    and w: "generationsWithoutImprovement (ex_state 31 30) = 30"
    by (simp_all add: ex_state_simps)
  from t ga_loop_ex_start ne
  have 1: "bestFitnessOverall (ex_state 31 30) =
             Finite (best_ever (\<lambda>_. 1) ex_child (replicate POPULATION_SIZE []) 0
                       (generationsRun (ex_state 31 30) - 1))"
    and 2: "generationsWithoutImprovement (ex_state 31 30) =
              without_improvement (\<lambda>_. 1) ex_child (replicate POPULATION_SIZE []) 0
                (generationsRun (ex_state 31 30) - 1)"
    and 3: "\<forall>g < generationsRun (ex_state 31 30) - 1.
              \<not> leaves_at (\<lambda>_. 1) ex_child (replicate POPULATION_SIZE []) 0 g"
    and 4: "generationsRun (ex_state 31 30) < MAX_GENERATIONS \<longrightarrow>
              leaves_at (\<lambda>_. 1) ex_child (replicate POPULATION_SIZE []) 0
                (generationsRun (ex_state 31 30) - 1)"
    and 5: "generationsRun (ex_state 31 30) \<le> MAX_GENERATIONS"
    by blast+
  from t optimise_ex ga_loop_ex_start
  have 6: "generations \<lparr>result_schedule = [], finalValidationErrors = [], generations = 31,
                bestFitness = Finite 1, success = True\<rparr> = generationsRun (ex_state 31 30)"
    by blast
  from t have 7: "plateau (\<lambda>_. 1) ex_child (replicate POPULATION_SIZE []) 0 30 \<longleftrightarrow>
      PLATEAU_LIMIT \<le> without_improvement (\<lambda>_. 1) ex_child (replicate POPULATION_SIZE []) 0 30"
    by blast
  from 1 b g have be: "best_ever (\<lambda>_. 1) ex_child (replicate POPULATION_SIZE []) 0 30 = 1"
    by simp
  from 2 w g have wi: "without_improvement (\<lambda>_. 1) ex_child (replicate POPULATION_SIZE []) 0 30 = 30"
    by simp
  from 7 wi have pl: "plateau (\<lambda>_. 1) ex_child (replicate POPULATION_SIZE []) 0 30"
    by (simp add: PLATEAU_LIMIT_def)
  from 4 g have lv: "leaves_at (\<lambda>_. 1) ex_child (replicate POPULATION_SIZE []) 0 30"
    by (simp add: MAX_GENERATIONS_def)
  from 3 g have n29: "\<not> leaves_at (\<lambda>_. 1) ex_child (replicate POPULATION_SIZE []) 0 29"
    and n0: "\<not> leaves_at (\<lambda>_. 1) ex_child (replicate POPULATION_SIZE []) 0 0"
    by simp_all
  from 5 6 g be wi pl lv n29 n0 show ?thesis by simp
qed

section \<open>Properties of the Medicaid cap\<close>

lemma set_js_unique [simp]: "set (js_unique xs) = set xs"
proof (induction xs rule: js_unique.induct)
  case 1
  then show ?case by simp
next
  case (2 x xs)
  then show ?case by auto
qed





















lemma in_at_tag: "ob \<in> set S \<longleftrightarrow> ob \<in> at_tag S (fst ob)"
  by (simp add: at_tag_def)
































lemmas medicaid_eval =
  fixMdMedicaidLimit_def fix_client_def fix_session_def can_substitute_def
  canAddEntryToSchedule_def canAddEntryToSchedule_violations_def valid_def
  hasTherapistConflict_def hasClientConflict_def hasSameClientBackToBackConflict_def
  hasCalloutConflict_def hasCredentialMismatch_def hasAlliedHealthQualificationMismatch_def
  isSessionDurationValid_def isWithinOperatingHours_def isAlliedHealth_def every_req_def
  not_ignored_def sessionsOverlap_def COMPANY_OPERATING_HOURS_START_def
  COMPANY_OPERATING_HOURS_END_def getTherapistById_def mk_entry_def ex_client_def truthy_def
  ex_medicaid_schedule_def ex_medicaid_therapist_def ex_medicaid_therapists_def
  ex_medicaid_clients_def medicaid_def csess_def uniq_of_def therapists_of_client_def
  upt_rec Let_def

lemma ex_medicaid_run:
  "fixMdMedicaidLimit ex_medicaid_schedule ex_medicaid_clients ex_medicaid_therapists (Some 0) []
   = [mk_entry ''x1'' (Some ''c2'') ''t1'' 720 780 ABA,
      mk_entry ''e1'' (Some ''c1'') ''t1'' 480 540 ABA,
      mk_entry ''e2'' (Some ''c1'') ''t2'' 540 600 ABA,
      mk_entry ''e3'' (Some ''c1'') ''t3'' 600 660 ABA,
      (mk_entry ''e4'' (Some ''c1'') ''t4'' 720 780 ABA)
        \<lparr>therapistId := ''t2'', therapistName := ''Dr t2''\<rparr>]"
  by (simp add: medicaid_eval)



section \<open>Properties of the repair operators\<close>




































section \<open>Properties of the algorithm on empty inputs\<close>

lemma random_index_less: "0 < n \<Longrightarrow> random_index r n < n"
proof -
  assume n: "0 < n"
  have r: "0 \<le> Rep_draw r" "Rep_draw r < 1" using Rep_draw[of r] by auto
  then have "Rep_draw r * real n < real n" using n by simp
  then have "\<lfloor>Rep_draw r * real n\<rfloor> < int n" by linarith
  moreover have "0 \<le> \<lfloor>Rep_draw r * real n\<rfloor>" using r by simp
  ultimately show ?thesis by (simp add: random_index_def nat_less_iff)
qed

lemma tournament_empty:
  assumes "pop \<noteq> []" and "\<forall>p \<in> set pop. fst p = []"
      and "case best of None \<Rightarrow> 0 < n | Some b \<Rightarrow> fst b = []"
  shows "\<exists>c. tournament rnd k pop n best = Some c \<and> fst c = []"
  using assms(3)
proof (induction n arbitrary: k best)
  case 0
  then show ?case by (cases best) auto
next
  case (Suc n)
  have "random_index (rnd k) (length pop) < length pop"
    using assms(1) by (simp add: random_index_less)
  then have c: "fst (pop ! random_index (rnd k) (length pop)) = []"
    using assms(2) by simp
  define nb where "nb = (case best of
                           None \<Rightarrow> Some (pop ! random_index (rnd k) (length pop))
                         | Some b \<Rightarrow>
                             if snd (pop ! random_index (rnd k) (length pop)) < snd b
                             then Some (pop ! random_index (rnd k) (length pop)) else Some b)"
  have "case nb of None \<Rightarrow> 0 < n | Some b \<Rightarrow> fst b = []"
    using Suc.prems c by (cases best) (auto simp: nb_def)
  from Suc.IH[OF this, of "k + 1"] show ?case
    by (simp add: Let_def nb_def)
qed

lemma diversityPreservingSelection_empty:
  assumes "pop \<noteq> []" and "\<forall>p \<in> set pop. fst p = []"
  shows "fst (diversityPreservingSelection rnd k pop) = []"
proof -
  have "random_index (rnd (k + 1)) (length pop) < length pop"
    using assms(1) by (simp add: random_index_less)
  then have a: "fst (pop ! random_index (rnd (k + 1)) (length pop)) = []"
    using assms(2) by simp
  obtain c where "tournament rnd (k + 1) pop 5 None = Some c" "fst c = []"
    using tournament_empty[OF assms, where best=None and n=5 and rnd=rnd and k="k + 1"] by auto
  with a show ?thesis
    by (simp add: diversityPreservingSelection_def Let_def cloneSchedule_def)
qed

lemma js_sort_Nil: "js_sort cmp [] = []"
  by (simp add: js_sort_def)

lemma crossover_empty:
  "fst (crossover rnd ids' cur [] [] therapists clients selectedDate callouts) = []"
  by (simp add: crossover_def Let_def cloneSchedule_def with_fresh_ids_def js_sort_Nil)

lemma mutateIncremental_Nil:
  "mutateIncremental rnd k [] clients therapists selectedDate callouts = ([], k)"
  by (simp add: mutateIncremental_def)

lemma fixSessionDurations_Nil: "fixSessionDurations [] = []"
  by (simp add: fixSessionDurations_def)

lemma fixCredentialIssues_Nil: "fixCredentialIssues [] clients therapists selectedDate callouts = []"
  by (simp add: fixCredentialIssues_def)

lemma fix_client_Nil: "fix_client clients therapists selectedDate callouts [] client = []"
  by (simp add: fix_client_def Let_def)

lemma fixMdMedicaidLimit_Nil: "fixMdMedicaidLimit [] clients therapists selectedDate callouts = []"
proof -
  have "foldl (fix_client clients therapists selectedDate callouts) [] cs = []" for cs
    by (induction cs) (simp_all add: fix_client_Nil)
  then show ?thesis by (simp add: fixMdMedicaidLimit_def)
qed

lemma fixSameClientBackToBackIssues_Nil:
  "fixSameClientBackToBackIssues [] clients therapists day' selectedDate callouts = []"
  by (simp add: fixSameClientBackToBackIssues_def)

lemma find_cover_Nil: "find_cover tracker [] start len = None"
  by (induction tracker "[] :: Therapist list" start len rule: find_cover.induct) simp

lemma cover_gap_Nil: "cover_gap ids' day' client [] state gap = state"
  by (simp add: cover_gap_def Let_def find_cover_Nil)

lemma fixClientCoverageGaps_empty:
  assumes "clients = [] \<or> therapists = []"
  shows "fixClientCoverageGaps ids' j [] clients therapists day' selectedDate callouts = ([], j)"
proof (cases "clients = []")
  case True
  then show ?thesis by (simp add: fixClientCoverageGaps_def)
next
  case False
  with assms have t: "therapists = []" by simp
  have g: "foldl (cover_gap ids' day' client []) state gaps = state" for client state gaps
    by (induction gaps) (simp_all add: cover_gap_Nil)
  have "foldl (\<lambda>state client.
                 (let gaps = getClientCoverageGaps (fst state) (client_id client) callouts
                               (Some selectedDate) COMPANY_OPERATING_HOURS_START
                               COMPANY_OPERATING_HOURS_END;
                      qualifiedTherapists = filter (every_req client) []
                  in foldl (cover_gap ids' day' client qualifiedTherapists) state gaps))
          state cs = state" for state cs
    by (induction cs) (simp_all add: g)
  then show ?thesis by (simp add: fixClientCoverageGaps_def t)
qed

lemma fixLunchIssues_Nil:
  "fixLunchIssues ids' j [] therapists day' selectedDate callouts = Inr ([], j)"
  by (simp add: fixLunchIssues_def)

lemma fixTeamAlignmentIssues_Nil: "fixTeamAlignmentIssues today [] clients therapists = []"
  by (simp add: fixTeamAlignmentIssues_def)

lemma repairAndMutate_empty:
  assumes "clients = [] \<or> therapists = []"
  shows "repairAndMutate orc cur [] clients therapists day' selectedDate callouts =
           Inr ([], fst cur + 1, snd cur)"
  by (simp add: repairAndMutate_def Let_def cloneSchedule_def mutateIncremental_Nil
        cleanupScheduleIssues_Nil fixSessionDurations_Nil fixCredentialIssues_Nil
        fixMdMedicaidLimit_Nil fixSameClientBackToBackIssues_Nil
        fixClientCoverageGaps_empty[OF assms] fixLunchIssues_Nil fixTeamAlignmentIssues_Nil)

lemma make_child_empty:
  assumes "clients = [] \<or> therapists = []" and "pop \<noteq> []" and "\<forall>p \<in> set pop. fst p = []"
  shows "\<exists>cur'. make_child orc clients therapists day' selectedDate callouts pop cur =
                  Inr ([], cur')"
  by (simp add: make_child_def Let_def diversityPreservingSelection_empty[OF assms(2,3)]
        crossover_empty repairAndMutate_empty[OF assms(1)])

lemma place_task_no_therapists:
  assumes "possibleTherapists task = []"
  shows "place_task orc clients therapists day' selectedDate callouts state task = state"
  using assms by (simp add: place_task_def Let_def shuffled_def)

lemma client_tasks_no_therapists:
  "task \<in> set (client_tasks schedule [] client) \<Longrightarrow> possibleTherapists task = []"
  by (auto simp: client_tasks_def Let_def split: if_splits)

lemma constructive_empty:
  assumes "clients = [] \<or> therapists = []" and "no_base baseScheduleForDay"
  shows "constructiveHeuristicInitialization orc cur clients therapists day' selectedDate
           callouts baseScheduleForDay learningContext = Inr ([], cur)"
proof -
  have b: "(case baseScheduleForDay of
              None \<Rightarrow> []
            | Some bs \<Rightarrow>
                (case bs_schedule bs of
                   None \<Rightarrow> []
                 | Some base \<Rightarrow>
                     graft_base (orc_ids orc) (snd cur) day' selectedDate callouts base)) = []"
    using assms(2)
    by (auto simp: no_base_def graft_base_def with_fresh_ids_def split: option.splits)
  let ?tasks = "js_sort (\<lambda>a b. priority b - priority a)
                  (concat (map (client_tasks [] therapists) clients))"
  have p: "\<forall>task \<in> set ?tasks. possibleTherapists task = []"
  proof (cases "clients = []")
    case True
    then show ?thesis by (simp add: js_sort_Nil)
  next
    case False
    with assms have "therapists = []" by simp
    then show ?thesis by (auto simp: set_js_sort dest: client_tasks_no_therapists)
  qed
  have f: "(\<forall>task \<in> set ts. possibleTherapists task = []) \<Longrightarrow>
           foldl (place_task orc clients therapists day' selectedDate callouts) state ts = state"
    for ts state
    by (induction ts) (simp_all add: place_task_no_therapists)
  show ?thesis
    unfolding constructiveHeuristicInitialization_def b by (simp add: Let_def f[OF p])
qed

lemma fill_population_empty:
  assumes "clients = [] \<or> therapists = []" and "no_base baseScheduleForDay"
  shows "length pop \<le> POPULATION_SIZE \<Longrightarrow>
         fill_population orc clients therapists day' selectedDate callouts baseScheduleForDay
           learningContext pop cur =
         Inr (pop @ replicate (POPULATION_SIZE - length pop) [], cur)"
proof (induction "POPULATION_SIZE - length pop" arbitrary: pop)
  case 0
  then show ?case by (subst fill_population.simps) simp
next
  case (Suc n)
  then have l: "length pop < POPULATION_SIZE" by simp
  have n: "n = POPULATION_SIZE - length (pop @ [[]])" using Suc(2) by simp
  have "fill_population orc clients therapists day' selectedDate callouts baseScheduleForDay
          learningContext pop cur =
        fill_population orc clients therapists day' selectedDate callouts baseScheduleForDay
          learningContext (pop @ [[]]) cur"
    using l by (subst fill_population.simps) (simp add: constructive_empty[OF assms])
  also have "\<dots> = Inr ((pop @ [[]]) @ replicate (POPULATION_SIZE - length (pop @ [[]])) [], cur)"
    using l by (intro Suc(1)[OF n]) simp
  also have "(pop @ [[]]) @ replicate (POPULATION_SIZE - length (pop @ [[]])) [] =
             pop @ replicate (POPULATION_SIZE - length pop) []"
    using l by (simp add: replicate_app_Cons_same Suc_diff_Suc flip: replicate_Suc)
  finally show ?case .
qed

lemma seed_top_empty:
  "list_all (\<lambda>topSchedule. filter (\<lambda>s. day s = day') topSchedule = []) tops \<Longrightarrow>
   seed_top ids' day' pop j tops = (pop, j)"
  by (induction tops) (simp_all add: Let_def with_fresh_ids_def)

lemma initial_population_empty:
  assumes "clients = [] \<or> therapists = []"
      and "no_seed_entries initialScheduleForOptimization baseSchedules highRated selectedDate"
  shows "\<exists>cur'. initial_population orc cur clients therapists selectedDate callouts
                  initialScheduleForOptimization baseSchedules highRated =
                Inr (replicate POPULATION_SIZE [], cur')"
proof -
  let ?day = "getDayOfWeekFromDate selectedDate"
  let ?base = "case initialScheduleForOptimization of
                 Some initial \<Rightarrow> None
               | None \<Rightarrow> find (\<lambda>bs. ?day \<in> set (appliesToDays bs)) baseSchedules"
  let ?seed = "case initialScheduleForOptimization of
                 Some initial \<Rightarrow> Some initial
               | None \<Rightarrow> (case ?base of None \<Rightarrow> None | Some bs \<Rightarrow> bs_schedule bs)"
  have nb: "no_base ?base"
    using assms(2) by (auto simp: no_seed_entries_def no_base_def split: option.splits)
  have sd: "?seed = None \<or> ?seed = Some []"
    using assms(2) by (auto simp: no_seed_entries_def no_base_def split: option.splits)
  have st: "seed_top (orc_ids orc) ?day pop j (take 5 (topRatedSchedules (loadLearningContext highRated)))
              = (pop, j)" for pop j
    using assms(2) by (intro seed_top_empty) (simp add: no_seed_entries_def loadLearningContext_def)
  have one: "[[]] @ replicate (POPULATION_SIZE - 1) [] = replicate POPULATION_SIZE ([]::GeneratedSchedule)"
    by (simp add: POPULATION_SIZE_def flip: replicate_Suc)
  from sd show ?thesis
  proof
    assume "?seed = None"
    then show ?thesis
      unfolding initial_population_def Let_def st
      using fill_population_empty[OF assms(1) nb, of "[]"] by simp
  next
    assume "?seed = Some []"
    then show ?thesis
      unfolding initial_population_def Let_def st
      using fill_population_empty[OF assms(1) nb, of "[[]]"] one
      by (simp add: repairAndMutate_empty[OF assms(1)] POPULATION_SIZE_def)
  qed
qed

lemma add_children_empty:
  assumes child: "\<And>c. \<exists>c'. child pwf c = Inr ([], c')"
  shows "n \<le> POPULATION_SIZE \<Longrightarrow>
         \<exists>c'. add_children child pwf (replicate n []) c = Inr (replicate POPULATION_SIZE [], c')"
proof (induction "POPULATION_SIZE - n" arbitrary: n c)
  case 0
  then show ?case by (subst add_children.simps) simp
next
  case (Suc m)
  then have l: "n < POPULATION_SIZE" by simp
  obtain c1 where c1: "child pwf c = Inr ([], c1)" using child by blast
  have m: "m = POPULATION_SIZE - Suc n" using Suc(2) by simp
  have "add_children child pwf (replicate n []) c =
        add_children child pwf (replicate (Suc n) []) c1"
    using l c1 by (subst add_children.simps) (simp add: replicate_append_same)
  moreover have "\<exists>c'. add_children child pwf (replicate (Suc n) []) c1 =
                       Inr (replicate POPULATION_SIZE [], c')"
    using l by (intro Suc(1)[OF m]) simp
  ultimately show ?case by simp
qed

lemma record_best_empty:
  assumes "population st = replicate POPULATION_SIZE []"
      and "bestScheduleOverall st = None \<and> bestFitnessOverall st = Infinity \<or>
           bestScheduleOverall st = Some [] \<and> bestFitnessOverall st = Finite (fit [])"
  shows "population (record_best fit gen st) = replicate POPULATION_SIZE [] \<and>
         bestScheduleOverall (record_best fit gen st) = Some [] \<and>
         bestFitnessOverall (record_best fit gen st) = Finite (fit [])"
  using assms
  by (auto simp: record_best_def Let_def score_population_replicate POPULATION_SIZE_def
        cloneSchedule_def)

lemma evolve_empty:
  assumes child: "\<And>pwf c. pwf \<noteq> [] \<Longrightarrow> \<forall>p \<in> set pwf. fst p = [] \<Longrightarrow>
                    \<exists>c'. child pwf c = Inr ([], c')"
      and "population st = replicate POPULATION_SIZE []"
  shows "\<exists>c'. evolve fit child st c = Inr (st\<lparr>population := replicate POPULATION_SIZE []\<rparr>, c')"
proof -
  let ?pwf = "replicate POPULATION_SIZE ([]::GeneratedSchedule, fit [])"
  have e: "map (\<lambda>p. cloneSchedule (fst p)) (take eliteCount ?pwf) = replicate eliteCount []"
    by (simp add: cloneSchedule_def eliteCount_def POPULATION_SIZE_def)
  have "\<And>c. \<exists>c'. child ?pwf c = Inr ([], c')"
    by (rule child) (simp_all add: POPULATION_SIZE_def)
  from add_children_empty[where child=child and pwf="?pwf" and n=eliteCount and c=c, OF this]
  obtain c' where "add_children child ?pwf (replicate eliteCount []) c =
                     Inr (replicate POPULATION_SIZE [], c')"
    by (auto simp: eliteCount_def POPULATION_SIZE_def)
  then show ?thesis
    unfolding evolve_def Let_def assms(2) score_population_replicate e by simp
qed

lemma ga_loop_empty:
  "(\<And>pwf c. pwf \<noteq> [] \<Longrightarrow> \<forall>p \<in> set pwf. fst p = [] \<Longrightarrow> \<exists>c'. child pwf c = Inr ([], c')) \<Longrightarrow>
   gen < MAX_GENERATIONS \<Longrightarrow> population st = replicate POPULATION_SIZE [] \<Longrightarrow>
   bestScheduleOverall st = None \<and> bestFitnessOverall st = Infinity \<or>
   bestScheduleOverall st = Some [] \<and> bestFitnessOverall st = Finite (fit []) \<Longrightarrow>
   \<exists>r. ga_loop fit child gen st cur = Inr r \<and> bestScheduleOverall (fst r) = Some [] \<and>
       bestFitnessOverall (fst r) = Finite (fit [])"
proof (induction fit child gen st cur rule: ga_loop.induct)
  case (1 fit child gen st cur)
  let ?st = "record_best fit gen st"
  note rb = record_best_empty[where fit=fit and gen=gen and st=st, OF "1.prems"(3,4)]
  show ?case
  proof (cases "bestFitnessOverall ?st = Finite 0 \<or> generationsWithoutImprovement ?st \<ge> PLATEAU_LIMIT")
    case True
    then have "ga_loop fit child gen st cur = Inr (?st, cur)"
      using "1.prems"(2) by (subst ga_loop.simps) (auto simp: Let_def)
    with rb show ?thesis by simp
  next
    case False
    from evolve_empty[where child=child and st="?st" and fit=fit and c=cur, OF "1.prems"(1)] rb
    obtain c' where e: "evolve fit child ?st cur =
                          Inr (?st\<lparr>population := replicate POPULATION_SIZE []\<rparr>, c')"
      by blast
    let ?e = "(?st\<lparr>population := replicate POPULATION_SIZE []\<rparr>, c')"
    have unf: "ga_loop fit child gen st cur = ga_loop fit child (gen + 1) (fst ?e) (snd ?e)"
      using False "1.prems"(2) e by (subst ga_loop.simps) (auto simp: Let_def)
    show ?thesis
    proof (cases "gen + 1 < MAX_GENERATIONS")
      case True
      from False have n0: "bestFitnessOverall ?st \<noteq> Finite 0"
        and np: "\<not> PLATEAU_LIMIT \<le> generationsWithoutImprovement ?st" by auto
      have "\<exists>r. ga_loop fit child (gen + 1) (fst ?e) (snd ?e) = Inr r \<and>
                bestScheduleOverall (fst r) = Some [] \<and>
                bestFitnessOverall (fst r) = Finite (fit [])"
        using rb by (intro "1.IH"[OF "1.prems"(2) refl n0 np e "1.prems"(1) True]) simp_all
      then show ?thesis unfolding unf .
    next
      case f: False
      then have "ga_loop fit child (gen + 1) (fst ?e) (snd ?e) = Inr ?e"
        by (subst ga_loop.simps) simp
      with rb show ?thesis unfolding unf by simp
    qed
  qed
qed

lemma finish_run_empty:
  assumes "bestScheduleOverall st = Some []"
  shows "finish_run fit validate therapists st =
           Inr \<lparr>result_schedule = [], finalValidationErrors = validate [],
                generations = generationsRun st, bestFitness = Finite (fit []),
                success = (fit [] < 500)\<rparr>"
  using assms
  by (simp add: finish_run_def localSearchImprovement_def cloneSchedule_def
        local_search_iter_Nil cleanupScheduleIssues_Nil)

lemma optimise_empty:
  assumes child: "\<And>pwf c. pwf \<noteq> [] \<Longrightarrow> \<forall>p \<in> set pwf. fst p = [] \<Longrightarrow>
                    \<exists>c'. child pwf c = Inr ([], c')"
  shows "\<exists>g. optimise fit child validate therapists (replicate POPULATION_SIZE []) cur =
           Inr \<lparr>result_schedule = [], finalValidationErrors = validate [],
                generations = g, bestFitness = Finite (fit []),
                success = (fit [] < 500)\<rparr>"
proof -
  have "\<exists>r. ga_loop fit child 0 (initial_state (replicate POPULATION_SIZE [])) cur = Inr r \<and>
            bestScheduleOverall (fst r) = Some [] \<and> bestFitnessOverall (fst r) = Finite (fit [])"
    by (rule ga_loop_empty[OF child]) (simp_all add: initial_state_def MAX_GENERATIONS_def)
  then obtain r where "ga_loop fit child 0 (initial_state (replicate POPULATION_SIZE [])) cur = Inr r"
    and "bestScheduleOverall (fst r) = Some []" by blast
  then show ?thesis by (simp add: optimise_def finish_run_empty)
qed

text \<open>A run on an empty list of clients or of therapists, with no schedule to optimise,
  no stored base schedule and no high-rated schedule.\<close>

lemma run_empty:
  assumes "clients = [] \<or> therapists = []"
      and "no_seed_entries initialScheduleForOptimization baseSchedules highRated selectedDate"
  shows "\<exists>g. runCsoAlgorithm orc cur clients therapists selectedDate callouts
               initialScheduleForOptimization baseSchedules highRated =
           Inr \<lparr>result_schedule = [],
                finalValidationErrors =
                  validateFullSchedule [] clients therapists selectedDate
                    COMPANY_OPERATING_HOURS_START COMPANY_OPERATING_HOURS_END callouts,
                generations = g,
                bestFitness = Finite (calculateFitness [] clients therapists selectedDate callouts),
                success = (calculateFitness [] clients therapists selectedDate callouts < 500)\<rparr>"
proof -
  from initial_population_empty[OF assms]
  obtain cur' where
    i: "initial_population orc cur clients therapists selectedDate callouts
          initialScheduleForOptimization baseSchedules highRated =
        Inr (replicate POPULATION_SIZE [], cur')"
    by blast
  show ?thesis
    unfolding runCsoAlgorithm_def i
    using optimise_empty[of "make_child orc clients therapists (getDayOfWeekFromDate selectedDate)
                               selectedDate callouts"
            "\<lambda>p. calculateFitness p clients therapists selectedDate callouts"
            "\<lambda>finalCleaned. validateFullSchedule finalCleaned clients therapists selectedDate
                               COMPANY_OPERATING_HOURS_START COMPANY_OPERATING_HOURS_END callouts"
            therapists cur', OF make_child_empty[OF assms(1)]]
    by simp
qed

lemma dedup_errors_Nil: "dedup_errors [] = []"
  by (simp add: dedup_errors_def)

lemma validateFullSchedule_no_clients:
  "validateFullSchedule [] [] therapists selectedDate s e callouts = []"
  by (simp add: validateFullSchedule_def dedup_errors_Nil)

lemma calculateFitness_no_clients:
  "calculateFitness [] [] therapists selectedDate callouts = 0"
  by (simp add: calculateFitness_def Let_def validateFullSchedule_no_clients count_rule_def
        countStaggerViolations_def calculateFragmentationPenalty_def js_sort_Nil)

lemma example_errors:
  "validateFullSchedule [] [ex_client ''c1'' [], ex_client ''c2'' []] [] 0
     COMPANY_OPERATING_HOURS_START COMPANY_OPERATING_HOURS_END
     [ex_callout ''c1'' 480 960, ex_callout ''c2'' 480 960] =
   [err ''CLIENT_COVERAGE_GAP_AT_TIME''
      ''Client c1 has an ABA coverage gap on Thursday from 4:00 PM to 4:15 PM.'',
    err ''CLIENT_COVERAGE_GAP_AT_TIME''
      ''Client c1 has an ABA coverage gap on Thursday from 4:15 PM to 4:30 PM.'',
    err ''CLIENT_COVERAGE_GAP_AT_TIME''
      ''Client c1 has an ABA coverage gap on Thursday from 4:30 PM to 4:45 PM.'',
    err ''CLIENT_COVERAGE_GAP_AT_TIME''
      ''Client c1 has an ABA coverage gap on Thursday from 4:45 PM to 5:00 PM.'',
    err ''CLIENT_COVERAGE_GAP_AT_TIME''
      ''Client c2 has an ABA coverage gap on Thursday from 4:00 PM to 4:15 PM.'',
    err ''CLIENT_COVERAGE_GAP_AT_TIME''
      ''Client c2 has an ABA coverage gap on Thursday from 4:15 PM to 4:30 PM.'',
    err ''CLIENT_COVERAGE_GAP_AT_TIME''
      ''Client c2 has an ABA coverage gap on Thursday from 4:30 PM to 4:45 PM.'',
    err ''CLIENT_COVERAGE_GAP_AT_TIME''
      ''Client c2 has an ABA coverage gap on Thursday from 4:45 PM to 5:00 PM.'']"
  by code_simp

lemma example_fitness:
  "calculateFitness [] [ex_client ''c1'' [], ex_client ''c2'' []] [] 0
     [ex_callout ''c1'' 480 960, ex_callout ''c2'' 480 960] = 800"
  unfolding calculateFitness_def Let_def example_errors
  by (simp add: count_rule_def err_def scaleFactor_def countStaggerViolations_def
        calculateFragmentationPenalty_def)

lemma example_no_seed:
  "no_seed_entries None [ex_base] [[mk_entry ''e1'' (Some ''c1'') ''t1'' 540 600 ABA]] 0"
  by (simp add: no_seed_entries_def no_base_def ex_base_def getDayOfWeekFromDate_def
        mk_entry_def)

lemma no_seed_entries_none: "no_seed_entries None [] [] selectedDate"
  by (simp add: no_seed_entries_def no_base_def)

text \<open>
  Claim C9, amended. A run on an empty list of clients or an empty list of therapists,
  for a valid date, into which no entry comes from a schedule to optimise, from the stored
  base schedule of the day or from the first five high-rated schedules, returns, and
  returns the empty schedule. Its violations are those the validator finds in the empty
  schedule, and it succeeds exactly when the fitness of the empty schedule is below 500.
  With an empty list of clients the list of violations is empty, the fitness is 0 and
  \<open>success\<close> is true.
\<close>

theorem runCsoAlgorithm_empty_input:
  assumes "clients = [] \<or> therapists = []"
      and "no_seed_entries initialScheduleForOptimization baseSchedules highRated selectedDate"
  shows "case runCsoAlgorithm orc cur clients therapists selectedDate callouts
                initialScheduleForOptimization baseSchedules highRated of
           Inl e \<Rightarrow> False
         | Inr R \<Rightarrow>
             result_schedule R = [] \<and>
             finalValidationErrors R =
               validateFullSchedule [] clients therapists selectedDate
                 COMPANY_OPERATING_HOURS_START COMPANY_OPERATING_HOURS_END callouts \<and>
             bestFitness R = Finite (calculateFitness [] clients therapists selectedDate callouts) \<and>
             (success R \<longleftrightarrow> calculateFitness [] clients therapists selectedDate callouts < 500) \<and>
             (clients = [] \<longrightarrow>
                finalValidationErrors R = [] \<and> bestFitness R = Finite 0 \<and> success R)"
proof -
  from run_empty[OF assms, where orc=orc and cur=cur and callouts=callouts]
  obtain g where
    "runCsoAlgorithm orc cur clients therapists selectedDate callouts
       initialScheduleForOptimization baseSchedules highRated =
       Inr \<lparr>result_schedule = [],
            finalValidationErrors =
              validateFullSchedule [] clients therapists selectedDate
                COMPANY_OPERATING_HOURS_START COMPANY_OPERATING_HOURS_END callouts,
            generations = g,
            bestFitness = Finite (calculateFitness [] clients therapists selectedDate callouts),
            success = (calculateFitness [] clients therapists selectedDate callouts < 500)\<rparr>"
    by blast
  then show ?thesis
    by (auto simp: validateFullSchedule_no_clients calculateFitness_no_clients)
qed

theorem runCsoAlgorithm_empty_input_witness:
  "([] :: Client list) = [] \<and>
   no_seed_entries None [ex_base] [[mk_entry ''e1'' (Some ''c1'') ''t1'' 540 600 ABA]] 0 \<and>
   (case runCsoAlgorithm ex_oracles (0, 0) [] [ex_therapist ''t1''] 0 [] None [ex_base]
           [[mk_entry ''e1'' (Some ''c1'') ''t1'' 540 600 ABA]] of
      Inl e \<Rightarrow> False
    | Inr R \<Rightarrow> result_schedule R = [] \<and> finalValidationErrors R = [] \<and>
               bestFitness R = Finite 0 \<and> success R)"
  using runCsoAlgorithm_empty_input[where clients="[]" and therapists="[ex_therapist ''t1'']"
          and orc=ex_oracles and cur="(0, 0)" and selectedDate=0 and callouts="[]"
          and initialScheduleForOptimization=None and baseSchedules="[ex_base]"
          and highRated="[[mk_entry ''e1'' (Some ''c1'') ''t1'' 540 600 ABA]]",
          OF _ example_no_seed]
        example_no_seed
  by (auto split: sum.splits)

text \<open>
  Claim C9 as stated fails for an empty list of therapists: nothing guards the empty
  input, the run goes through the generations with a population of empty schedules, and
  the validator reports the uncovered operating time of every client. With two clients
  called out from 08:00 to 16:00 on a Thursday the result has eight coverage-gap
  violations and fitness 2000 \<times> (2 / 10) \<times> min (8 div 4) 4 = 800, so \<open>success\<close> is false.
\<close>

theorem runCsoAlgorithm_no_therapists_counterexample:
  "case runCsoAlgorithm ex_oracles (0, 0) [ex_client ''c1'' [], ex_client ''c2'' []] [] 0
          [ex_callout ''c1'' 480 960, ex_callout ''c2'' 480 960] None [] [] of
     Inl e \<Rightarrow> False
   | Inr R \<Rightarrow>
       result_schedule R = [] \<and>
       map ruleId (finalValidationErrors R) = replicate 8 ''CLIENT_COVERAGE_GAP_AT_TIME'' \<and>
       finalValidationErrors R \<noteq> [] \<and>
       bestFitness R = Finite 800 \<and>
       \<not> success R"
proof -
  from run_empty[where clients="[ex_client ''c1'' [], ex_client ''c2'' []]" and therapists="[]"
         and orc=ex_oracles and cur="(0, 0)" and selectedDate=0
         and callouts="[ex_callout ''c1'' 480 960, ex_callout ''c2'' 480 960]",
         OF _ no_seed_entries_none]
  obtain g where
    "runCsoAlgorithm ex_oracles (0, 0) [ex_client ''c1'' [], ex_client ''c2'' []] [] 0
          [ex_callout ''c1'' 480 960, ex_callout ''c2'' 480 960] None [] [] =
       Inr \<lparr>result_schedule = [],
            finalValidationErrors =
              validateFullSchedule [] [ex_client ''c1'' [], ex_client ''c2'' []] [] 0
                COMPANY_OPERATING_HOURS_START COMPANY_OPERATING_HOURS_END
                [ex_callout ''c1'' 480 960, ex_callout ''c2'' 480 960],
            generations = g,
            bestFitness = Finite (calculateFitness [] [ex_client ''c1'' [], ex_client ''c2'' []]
                                    [] 0 [ex_callout ''c1'' 480 960, ex_callout ''c2'' 480 960]),
            success = (calculateFitness [] [ex_client ''c1'' [], ex_client ''c2'' []] [] 0
                         [ex_callout ''c1'' 480 960, ex_callout ''c2'' 480 960] < 500)\<rparr>"
    by blast
  then show ?thesis
    unfolding example_fitness example_errors by (simp add: err_def eval_nat_numeral)
qed

end
